theory Spec2Isabelle
  imports Main "HOL-Library.Word" "HOL-Library.Sublist" "HOL-Library.AList"
begin

unbundle bit_operations_syntax

section \<open>JavaScript strings and numbers\<close>

text \<open>
  The disassembler core of the ZX81 debugger is written in TypeScript. Its numbers are
  modelled as \<^typ>\<open>int\<close> (every number the analysis handles is an integer well inside the
  32-bit range of the bitwise operators), its strings as \<^typ>\<open>string\<close>, the elements of a
  \<open>Uint8Array\<close> as \<^typ>\<open>8 word\<close>.
\<close>

fun indexOf_from :: "string \<Rightarrow> string \<Rightarrow> int \<Rightarrow> int" where
  "indexOf_from [] p i = (if p = [] then i else - 1)"
| "indexOf_from (c # cs) p i = (if prefix p (c # cs) then i else indexOf_from cs p (i + 1))"

definition indexOf :: "string \<Rightarrow> string \<Rightarrow> int" where
  \<comment> \<open>\<open>s.indexOf(p)\<close>: the first position of \<open>p\<close> in \<open>s\<close>, or -1.\<close>
  "indexOf s p = indexOf_from s p 0"

definition substring :: "string \<Rightarrow> int \<Rightarrow> int \<Rightarrow> string" where
  \<comment> \<open>\<open>s.substring(a, b)\<close>: both indices are clamped to the string, and swapped if needed.\<close>
  "substring s a b =
     (let n = int (length s);
          a' = max 0 (min a n);
          b' = max 0 (min b n)
      in take (nat (max a' b' - min a' b')) (drop (nat (min a' b')) s))"

definition substring_from :: "string \<Rightarrow> int \<Rightarrow> string" where
  \<comment> \<open>\<open>s.substring(a)\<close>\<close>
  "substring_from s a = substring s a (int (length s))"

definition startsWith :: "string \<Rightarrow> string \<Rightarrow> bool" where
  "startsWith s p = prefix p s"

definition isWhiteSpace :: "char \<Rightarrow> bool" where
  "isWhiteSpace c = (c \<in> set [CHR '' '', CHR 0x09, CHR 0x0A, CHR 0x0B, CHR 0x0C, CHR 0x0D])"

definition trim :: "string \<Rightarrow> string" where
  "trim s = rev (dropWhile isWhiteSpace (rev (dropWhile isWhiteSpace s)))"

fun replace_first :: "string \<Rightarrow> string \<Rightarrow> string \<Rightarrow> string" where
  \<comment> \<open>\<open>s.replace(p, r)\<close> with a string pattern: the first occurrence only.\<close>
  "replace_first [] p r = (if p = [] then r else [])"
| "replace_first (c # cs) p r =
     (if prefix p (c # cs) then r @ drop (length p) (c # cs) else c # replace_first cs p r)"

fun replace_IX :: "string \<Rightarrow> string" where
  \<comment> \<open>\<open>s.replace(/IX/g, 'IY')\<close>: every occurrence.\<close>
  "replace_IX (a # b # cs) =
     (if a = CHR ''I'' \<and> b = CHR ''X'' then CHR ''I'' # CHR ''Y'' # replace_IX cs
      else a # replace_IX (b # cs))"
| "replace_IX cs = cs"

definition hexDigit :: "nat \<Rightarrow> char" where
  "hexDigit d = ''0123456789ABCDEF'' ! d"

fun toHex :: "nat \<Rightarrow> nat \<Rightarrow> string" where
  \<comment> \<open>at least \<open>size\<close> digits, more when the value needs them\<close>
  "toHex 0 v = (if v = 0 then [] else toHex 0 (v div 16) @ [hexDigit (v mod 16)])"
| "toHex (Suc n) v = toHex n (v div 16) @ [hexDigit (v mod 16)]"

definition getHexString :: "int \<Rightarrow> nat \<Rightarrow> string" where
  \<comment> \<open>Modelled from the spec: \<open>Utility.getHexString\<close> and \<open>Format.getHexString\<close> are not
      part of the sources at hand. The spec writes the label of address 0x20 as
      \<open>"RST_20"\<close> (2 hex digits) and the documentation of \<open>funcFormatAddress\<close> gives
      \<open>"8AF2"\<close>: upper-case digits, padded with zeros to \<open>size\<close> digits.\<close>
  "getHexString v size' = toHex size' (nat v)"

definition getHexFormattedString :: "int \<Rightarrow> nat \<Rightarrow> string" where
  \<comment> \<open>Modelled from the spec: \<open>Format.getHexFormattedString\<close> is not part of the sources at
      hand; the documentation of \<open>funcFormatAddressHex\<close> gives \<open>"$8AF2"\<close>.\<close>
  "getHexFormattedString v size' = CHR ''$'' # getHexString v size'"


section \<open>numbertype.ts\<close>

datatype NumberType =
    NONE
  | DATA_LBL
  | PORT_LBL
  | CODE_LOCAL_LBL
  | CODE_LOCAL_LOOP
  | CODE_LBL
  | CODE_SUB
  | CODE_RST
  | RELATIVE_INDEX
  | NUMBER_BYTE
  | NUMBER_WORD
  | NUMBER_WORD_BIG_ENDIAN


section \<open>basememory.ts and memory.ts\<close>

abbreviation (input) MAX_MEM_SIZE :: int where "MAX_MEM_SIZE \<equiv> 0x10000"

text \<open>\<open>enum MemAttribute\<close>\<close>

abbreviation (input) UNUSED :: int where "UNUSED \<equiv> 0"
abbreviation (input) ASSIGNED :: int where "ASSIGNED \<equiv> 0x01"
abbreviation (input) CODE :: int where "CODE \<equiv> 0x02"
abbreviation (input) CODE_FIRST :: int where "CODE_FIRST \<equiv> 0x04"
abbreviation (input) DATA :: int where "DATA \<equiv> 0x10"
abbreviation (input) RET_ANALYZED :: int where "RET_ANALYZED \<equiv> 0x20"
abbreviation (input) FLOW_ANALYZED :: int where "FLOW_ANALYZED \<equiv> 0x40"

text \<open>
  \<open>class BaseMemory\<close> holds the byte image (a \<open>Uint8Array\<close> of \<open>MAX_MEM_SIZE\<close> bytes);
  \<open>class Memory extends BaseMemory\<close> adds the attribute array. A JavaScript array is
  modelled as a total function of the index. An element of \<open>memoryAttr\<close> that was never
  written is \<open>undefined\<close> in the program; every use of an attribute there is a bitwise
  \<open>&\<close> or \<open>|=\<close>, which reads \<open>undefined\<close> as 0, so the model holds 0 at such an index.
\<close>

record BaseMemory =
  memory :: "int \<Rightarrow> 8 word"

record Memory = BaseMemory +
  memoryAttr :: "int \<Rightarrow> int"

definition Memory_new :: Memory where
  \<comment> \<open>\<open>new Memory()\<close>: all bytes 0, no attribute set.\<close>
  "Memory_new = \<lparr>memory = (\<lambda>_. 0), memoryAttr = (\<lambda>_. 0)\<rparr>"

definition getValueAt :: "'a BaseMemory_scheme \<Rightarrow> int \<Rightarrow> int" where
  \<comment> \<open>Modelled from the spec: the methods of \<open>BaseMemory\<close> are not part of the sources at
      hand. The spec gives one unified 64K address space; the address is reduced to it the
      way \<open>Memory.setMemory\<close> reduces the addresses it writes.\<close>
  "getValueAt this address = uint (memory this (address AND (MAX_MEM_SIZE - 1)))"

definition getWordValueAt :: "'a BaseMemory_scheme \<Rightarrow> int \<Rightarrow> int" where
  \<comment> \<open>Modelled from the spec: a word is little-endian.\<close>
  "getWordValueAt this address = getValueAt this address + 256 * getValueAt this (address + 1)"

definition getBigEndianWordValueAt :: "'a BaseMemory_scheme \<Rightarrow> int \<Rightarrow> int" where
  \<comment> \<open>Modelled from the spec: the one big-endian word variant.\<close>
  "getBigEndianWordValueAt this address =
     256 * getValueAt this address + getValueAt this (address + 1)"

definition resetAttributeFlag :: "int \<Rightarrow> Memory \<Rightarrow> Memory" where
  \<comment> \<open>The loop runs over every index from \<open>memoryAttr.length\<close> down to 0, that is over
      every element the array has (and one more).\<close>
  "resetAttributeFlag flags' this =
     (let notFlags = NOT flags'
      in this\<lparr>memoryAttr := (\<lambda>k. if 0 \<le> k then memoryAttr this k AND notFlags
                                  else memoryAttr this k)\<rparr>)"

definition setMemory :: "int \<Rightarrow> 8 word list \<Rightarrow> Memory \<Rightarrow> Memory" where
  \<comment> \<open>Numbers of the program are integers here. The program adds in double precision and
      applies \<open>&\<close> and \<open>|=\<close> to 32-bit integers, which is the same as long as the sums
      \<open>origin + i\<close> are integers of at most 53 bits and the attributes are 32-bit integers.\<close>
  "setMemory origin memory' this =
     (let size' = length memory'
      in fold (\<lambda>i this.
           let addr = (origin + int i) AND (MAX_MEM_SIZE - 1)
           in this\<lparr>memory := (memory this)(addr := memory' ! i),
                   memoryAttr := (memoryAttr this)(addr := memoryAttr this addr OR ASSIGNED)\<rparr>)
         [0..<size'] this)"

definition getAttributeAt :: "Memory \<Rightarrow> int \<Rightarrow> int" where
  "getAttributeAt this address =
     (if address < 0 \<or> address \<ge> 0x10000 then 0 else memoryAttr this address)"

definition addAttributeAt :: "int \<Rightarrow> int \<Rightarrow> Memory \<Rightarrow> Memory" where
  "addAttributeAt address attr this =
     this\<lparr>memoryAttr := (memoryAttr this)(address := memoryAttr this address OR attr)\<rparr>"

definition addAttributesAt :: "int \<Rightarrow> int \<Rightarrow> int \<Rightarrow> Memory \<Rightarrow> Memory" where
  "addAttributesAt address length' attr this =
     fold (\<lambda>i this. addAttributeAt (address + int i) attr this) [0..<nat length'] this"

definition setAttributesAt :: "int \<Rightarrow> int \<Rightarrow> int \<Rightarrow> Memory \<Rightarrow> Memory" where
  "setAttributesAt address length' attr this =
     fold (\<lambda>i this. this\<lparr>memoryAttr := (memoryAttr this)(address + int i := attr)\<rparr>)
       [0..<nat length'] this"

definition searchAddrWithAttribute :: "Memory \<Rightarrow> int \<Rightarrow> int \<Rightarrow> int \<Rightarrow> int option" where
  "searchAddrWithAttribute this searchAttr addr64k len =
     find (\<lambda>a. memoryAttr this a AND searchAttr \<noteq> 0) (map (\<lambda>i. addr64k + int i) [0..<nat len])"


section \<open>opcode.ts\<close>

text \<open>\<open>enum OpcodeFlag\<close>\<close>

abbreviation (input) OpcodeFlag_NONE :: int where "OpcodeFlag_NONE \<equiv> 0"
abbreviation (input) BRANCH_ADDRESS :: int where "BRANCH_ADDRESS \<equiv> 0x01"
abbreviation (input) CALL :: int where "CALL \<equiv> 0x02"
abbreviation (input) STOP :: int where "STOP \<equiv> 0x04"
abbreviation (input) RET :: int where "RET \<equiv> 0x08"
abbreviation (input) CONDITIONAL :: int where "CONDITIONAL \<equiv> 0x10"

text \<open>
  The fields of \<open>class Opcode\<close>. \<open>secondValue\<close> is the field that the subclass
  \<open>OpcodeIndexImmediate\<close> adds; \<open>disassembledText\<close> and \<open>addr64k\<close> belong to the text
  rendering and are left out.
\<close>

record Opcode =
  code :: int
  name :: string
  flags :: int
  valueType :: NumberType
  length_op :: int
  value_op :: int
  secondValue :: "int option"

definition Opcode_ctor :: "int \<Rightarrow> string \<Rightarrow> Opcode" where
  "Opcode_ctor code' name' =
     (let name1 = trim name';
          this = \<lparr>code = code', name = name1, flags = OpcodeFlag_NONE, valueType = NONE,
                  length_op = 1, value_op = 0, secondValue = None\<rparr>;
          k = indexOf name1 ''#n''
      in if k > 0 then
           (if substring name1 (k + 2) (k + 3) = ''n'' then
              \<comment> \<open>Word\<close>
              (let this = this\<lparr>length_op := 3\<rparr>;
                   name2 = substring name1 0 k @ ''%s'' @ substring_from name1 (k + 3);
                   indirect = substring name2 (k - 1) k;
                   this =
                     (if indirect = ''('' then this\<lparr>valueType := DATA_LBL\<rparr>
                      else if startsWith name2 ''CALL'' then
                        (let this = this\<lparr>flags := flags this OR (CALL OR BRANCH_ADDRESS)\<rparr>;
                             this = this\<lparr>valueType := CODE_SUB\<rparr>
                         in if indexOf name2 '','' \<ge> 0
                            then this\<lparr>flags := flags this OR CONDITIONAL\<rparr> else this)
                      else if startsWith name2 ''JP'' then
                        (let this = this\<lparr>flags := flags this OR BRANCH_ADDRESS\<rparr>;
                             this = this\<lparr>valueType := CODE_LBL\<rparr>
                         in this\<lparr>flags := flags this OR
                              (if indexOf name2 '','' \<ge> 0 then CONDITIONAL else STOP)\<rparr>)
                      else if startsWith name2 ''LD SP,'' then this\<lparr>valueType := DATA_LBL\<rparr>
                      else this\<lparr>valueType := NUMBER_WORD\<rparr>)
               in this\<lparr>name := name2\<rparr>)
            else
              \<comment> \<open>Byte\<close>
              (let this = this\<lparr>length_op := 2\<rparr>;
                   name2 = substring name1 0 k @ ''%s'' @ substring_from name1 (k + 2);
                   this = this\<lparr>valueType := NUMBER_BYTE\<rparr>;
                   this =
                     (if startsWith name2 ''DJNZ''
                      then this\<lparr>valueType := CODE_LOCAL_LBL,
                                flags := flags this OR (BRANCH_ADDRESS OR CONDITIONAL)\<rparr>
                      else this);
                   this =
                     (if startsWith name2 ''JR'' then
                        (let this = this\<lparr>valueType := CODE_LOCAL_LBL\<rparr>;
                             this = this\<lparr>flags := flags this OR BRANCH_ADDRESS\<rparr>
                         in this\<lparr>flags := flags this OR
                              (if indexOf name2 '','' \<ge> 0 then CONDITIONAL else STOP)\<rparr>)
                      else if startsWith name2 ''IN'' \<or> startsWith name2 ''OUT''
                      then this\<lparr>valueType := PORT_LBL\<rparr>
                      else this)
               in this\<lparr>name := name2\<rparr>))
         else if startsWith name1 ''RET'' then
           (let this = this\<lparr>flags := flags this OR RET\<rparr>
            in this\<lparr>flags := flags this OR
                 (if indexOf name1 '' '' \<ge> 0 then CONDITIONAL else STOP)\<rparr>)
         else if startsWith name1 ''RST'' then
           (let this = this\<lparr>valueType := CODE_RST\<rparr>;
                this = this\<lparr>flags := flags this OR (BRANCH_ADDRESS OR CALL)\<rparr>;
                jumpAddress = code' AND 0b00111000
            in this\<lparr>value_op := jumpAddress\<rparr>)
         else if startsWith name1 ''JP'' then this\<lparr>flags := flags this OR STOP\<rparr>
         else this)"

definition OpcodeIndex_ctor :: "int \<Rightarrow> string \<Rightarrow> Opcode" where
  "OpcodeIndex_ctor code' name' =
     (let this = Opcode_ctor code' name';
          this = this\<lparr>valueType := RELATIVE_INDEX\<rparr>
      in this\<lparr>length_op := length_op this + 1\<rparr>)"

definition OpcodePrevIndex_ctor :: "int \<Rightarrow> string \<Rightarrow> Opcode" where
  "OpcodePrevIndex_ctor code' name' =
     (let this = OpcodeIndex_ctor code' name'
      in this\<lparr>length_op := length_op this + 1\<rparr>)"

definition OpcodeIndexImmediate_ctor :: "int \<Rightarrow> string \<Rightarrow> Opcode" where
  "OpcodeIndexImmediate_ctor code' name' =
     (let this = Opcode_ctor code' name';
          this = this\<lparr>length_op := 3\<rparr>
      in this\<lparr>valueType := RELATIVE_INDEX\<rparr>)"

definition OpcodeExtended_ctor :: "int \<Rightarrow> Opcode" where
  "OpcodeExtended_ctor code' =
     (let this = Opcode_ctor code' ''''
      in this\<lparr>length_op := length_op this + 1\<rparr>)"

definition OpcodeExtended2_ctor :: "int \<Rightarrow> Opcode" where
  "OpcodeExtended2_ctor code' =
     (let this = OpcodeExtended_ctor code'
      in this\<lparr>length_op := length_op this + 1\<rparr>)"

definition OpcodeNOP_ctor :: "int \<Rightarrow> Opcode" where
  "OpcodeNOP_ctor code' =
     (let this = Opcode_ctor code' '''';
          this = this\<lparr>name := ''[NOP]'' @ [CHR 0x09] @ ''; because of following 0x''
                                @ getHexString code' 2\<rparr>
      in this\<lparr>length_op := length_op this - 1\<rparr>)"

definition OpcodeInvalid_ctor :: "int \<Rightarrow> Opcode" where
  "OpcodeInvalid_ctor code' =
     (let this = Opcode_ctor code' ''''
      in this\<lparr>name := ''INVALID INSTRUCTION'' @ [CHR 0x09] @ ''; mostly equivalent to NOP.''\<rparr>)"

text \<open>
  An object of the class hierarchy: the class it was created with, its fields, and for the
  two prefix classes the table (\<open>opcodes: Opcode[]\<close>, indexed by a byte) they defer to.
\<close>

datatype OpcodeObj =
    Obj_Opcode Opcode
  | Obj_OpcodeIndex Opcode
  | Obj_OpcodePrevIndex Opcode
  | Obj_OpcodeIndexImmediate Opcode
  | Obj_OpcodeExtended Opcode "nat \<Rightarrow> OpcodeObj"
  | Obj_OpcodeExtended2 Opcode "nat \<Rightarrow> OpcodeObj"
  | Obj_OpcodeNOP Opcode
  | Obj_OpcodeInvalid Opcode

type_synonym OpcodeTable = "nat \<Rightarrow> OpcodeObj"

fun fields_of :: "OpcodeObj \<Rightarrow> Opcode" where
  "fields_of (Obj_Opcode this) = this"
| "fields_of (Obj_OpcodeIndex this) = this"
| "fields_of (Obj_OpcodePrevIndex this) = this"
| "fields_of (Obj_OpcodeIndexImmediate this) = this"
| "fields_of (Obj_OpcodeExtended this opcodes) = this"
| "fields_of (Obj_OpcodeExtended2 this opcodes) = this"
| "fields_of (Obj_OpcodeNOP this) = this"
| "fields_of (Obj_OpcodeInvalid this) = this"

fun update_fields :: "(Opcode \<Rightarrow> Opcode) \<Rightarrow> OpcodeObj \<Rightarrow> OpcodeObj" where
  "update_fields f (Obj_Opcode this) = Obj_Opcode (f this)"
| "update_fields f (Obj_OpcodeIndex this) = Obj_OpcodeIndex (f this)"
| "update_fields f (Obj_OpcodePrevIndex this) = Obj_OpcodePrevIndex (f this)"
| "update_fields f (Obj_OpcodeIndexImmediate this) = Obj_OpcodeIndexImmediate (f this)"
| "update_fields f (Obj_OpcodeExtended this opcodes) = Obj_OpcodeExtended (f this) opcodes"
| "update_fields f (Obj_OpcodeExtended2 this opcodes) = Obj_OpcodeExtended2 (f this) opcodes"
| "update_fields f (Obj_OpcodeNOP this) = Obj_OpcodeNOP (f this)"
| "update_fields f (Obj_OpcodeInvalid this) = Obj_OpcodeInvalid (f this)"

definition new_Opcode :: "int \<Rightarrow> string \<Rightarrow> OpcodeObj" where
  "new_Opcode code' name' = Obj_Opcode (Opcode_ctor code' name')"

definition new_OpcodeIndex :: "int \<Rightarrow> string \<Rightarrow> OpcodeObj" where
  "new_OpcodeIndex code' name' = Obj_OpcodeIndex (OpcodeIndex_ctor code' name')"

definition new_OpcodePrevIndex :: "int \<Rightarrow> string \<Rightarrow> OpcodeObj" where
  "new_OpcodePrevIndex code' name' = Obj_OpcodePrevIndex (OpcodePrevIndex_ctor code' name')"

definition new_OpcodeIndexImmediate :: "int \<Rightarrow> string \<Rightarrow> OpcodeObj" where
  "new_OpcodeIndexImmediate code' name' =
     Obj_OpcodeIndexImmediate (OpcodeIndexImmediate_ctor code' name')"

definition new_OpcodeExtended :: "int \<Rightarrow> OpcodeTable \<Rightarrow> OpcodeObj" where
  "new_OpcodeExtended code' opcodes = Obj_OpcodeExtended (OpcodeExtended_ctor code') opcodes"

definition new_OpcodeExtended2 :: "int \<Rightarrow> OpcodeTable \<Rightarrow> OpcodeObj" where
  "new_OpcodeExtended2 code' opcodes = Obj_OpcodeExtended2 (OpcodeExtended2_ctor code') opcodes"

definition new_OpcodeNOP :: "int \<Rightarrow> OpcodeObj" where
  "new_OpcodeNOP code' = Obj_OpcodeNOP (OpcodeNOP_ctor code')"

definition new_OpcodeInvalid :: "int \<Rightarrow> OpcodeObj" where
  "new_OpcodeInvalid code' = Obj_OpcodeInvalid (OpcodeInvalid_ctor code')"

subsection \<open>The tables of \<open>InitOpcodes\<close>\<close>

definition fixLength :: "OpcodeObj \<Rightarrow> OpcodeObj" where
  \<comment> \<open>\<open>opcode.length++\<close>\<close>
  "fixLength = update_fields (\<lambda>opcode. opcode\<lparr>length_op := length_op opcode + 1\<rparr>)"

definition OpcodesED_init :: "OpcodeObj list" where
  \<comment> \<open>Opcodes that start with 0xED.\<close>
  "OpcodesED_init =
   map (\<lambda>index. new_OpcodeInvalid (int index)) [0..<0x40] @
   [
    new_Opcode 0x40 ''IN B,(C)'',
    new_Opcode 0x41 ''OUT (C),B'',
    new_Opcode 0x42 ''SBC HL,BC'',
    new_Opcode 0x43 ''LD (#nn),BC'',
    new_Opcode 0x44 ''NEG'',
    new_Opcode 0x45 ''RETN'',
    new_Opcode 0x46 ''IM 0'',
    new_Opcode 0x47 ''LD I,A'',
    new_Opcode 0x48 ''IN C,(C)'',
    new_Opcode 0x49 ''OUT (C),C'',
    new_Opcode 0x4A ''ADC HL,BC'',
    new_Opcode 0x4B ''LD BC,(#nn)'',
    new_Opcode 0x4C ''[neg]'',
    new_Opcode 0x4D ''RETI'',
    new_Opcode 0x4E ''[im0]'',
    new_Opcode 0x4F ''LD R,A'',
    new_Opcode 0x50 ''IN D,(C)'',
    new_Opcode 0x51 ''OUT (C),D'',
    new_Opcode 0x52 ''SBC HL,DE'',
    new_Opcode 0x53 ''LD (#nn),DE'',
    new_Opcode 0x54 ''[neg]'',
    new_Opcode 0x55 ''[retn]'',
    new_Opcode 0x56 ''IM 1'',
    new_Opcode 0x57 ''LD A,I'',
    new_Opcode 0x58 ''IN E,(C)'',
    new_Opcode 0x59 ''OUT (C),E'',
    new_Opcode 0x5A ''ADC HL,DE'',
    new_Opcode 0x5B ''LD DE,(#nn)'',
    new_Opcode 0x5C ''[neg]'',
    new_Opcode 0x5D ''[reti]'',
    new_Opcode 0x5E ''IM 2'',
    new_Opcode 0x5F ''LD A,R'',
    new_Opcode 0x60 ''IN H,(C)'',
    new_Opcode 0x61 ''OUT (C),H'',
    new_Opcode 0x62 ''SBC HL,HL'',
    new_Opcode 0x63 ''LD (#nn),HL'',
    new_Opcode 0x64 ''[neg]'',
    new_Opcode 0x65 ''[retn]'',
    new_Opcode 0x66 ''[im0]'',
    new_Opcode 0x67 ''RRD'',
    new_Opcode 0x68 ''IN L,(C)'',
    new_Opcode 0x69 ''OUT (C),L'',
    new_Opcode 0x6A ''ADC HL,HL'',
    new_Opcode 0x6B ''LD HL,(#nn)'',
    new_Opcode 0x6C ''[neg]'',
    new_Opcode 0x6D ''[reti]'',
    new_Opcode 0x6E ''[im0]'',
    new_Opcode 0x6F ''RLD'',
    new_Opcode 0x70 ''IN F,(C)'',
    new_Opcode 0x71 ''OUT (C),0'',
    new_Opcode 0x72 ''SBC HL,SP'',
    new_Opcode 0x73 ''LD (#nn),SP'',
    new_Opcode 0x74 ''[neg]'',
    new_Opcode 0x75 ''[retn]'',
    new_Opcode 0x76 ''[im1]'',
    new_Opcode 0x77 ''[ld i,i?]'',
    new_Opcode 0x78 ''IN A,(C)'',
    new_Opcode 0x79 ''OUT (C),A'',
    new_Opcode 0x7A ''ADC HL,SP'',
    new_Opcode 0x7B ''LD SP,(#nn)'',
    new_Opcode 0x7C ''[neg]'',
    new_Opcode 0x7D ''[reti]'',
    new_Opcode 0x7E ''[im2]'',
    new_Opcode 0x7F ''[ld r,r?]''
   ] @
   map (\<lambda>index. new_OpcodeInvalid (0x80 + int index)) [0..<0x20] @
   [
    new_Opcode 0xA0 ''LDI'',
    new_Opcode 0xA1 ''CPI'',
    new_Opcode 0xA2 ''INI'',
    new_Opcode 0xA3 ''OUTI''
   ] @
   map (\<lambda>index. new_OpcodeInvalid (0xA4 + int index)) [0..<0x04] @
   [
    new_Opcode 0xA8 ''LDD'',
    new_Opcode 0xA9 ''CPD'',
    new_Opcode 0xAA ''IND'',
    new_Opcode 0xAB ''OUTD''
   ] @
   map (\<lambda>index. new_OpcodeInvalid (0xAC + int index)) [0..<0x04] @
   [
    new_Opcode 0xB0 ''LDIR'',
    new_Opcode 0xB1 ''CPIR'',
    new_Opcode 0xB2 ''INIR'',
    new_Opcode 0xB3 ''OUTIR''
   ] @
   map (\<lambda>index. new_OpcodeInvalid (0xB4 + int index)) [0..<0x04] @
   [
    new_Opcode 0xB8 ''LDDR'',
    new_Opcode 0xB9 ''CPDR'',
    new_Opcode 0xBA ''INDR'',
    new_Opcode 0xBB ''OUTDR''
   ] @
   map (\<lambda>index. new_OpcodeInvalid (0xBC + int index)) [0..<0x04] @
   map (\<lambda>index. new_OpcodeInvalid (0xC0 + int index)) [0..<0x40]"

definition OpcodesED :: OpcodeTable where
  "OpcodesED = nth (map fixLength OpcodesED_init)"

definition OpcodesCB_init :: "OpcodeObj list" where
  \<comment> \<open>Opcodes that start with 0xCB.\<close>
  "OpcodesCB_init =
   [
    new_Opcode 0x00 ''RLC B'',
    new_Opcode 0x01 ''RLC C'',
    new_Opcode 0x02 ''RLC D'',
    new_Opcode 0x03 ''RLC E'',
    new_Opcode 0x04 ''RLC H'',
    new_Opcode 0x05 ''RLC L'',
    new_Opcode 0x06 ''RLC (HL)'',
    new_Opcode 0x07 ''RLC A'',
    new_Opcode 0x08 ''RRC B'',
    new_Opcode 0x09 ''RRC C'',
    new_Opcode 0x0A ''RRC D'',
    new_Opcode 0x0B ''RRC E'',
    new_Opcode 0x0C ''RRC H'',
    new_Opcode 0x0D ''RRC L'',
    new_Opcode 0x0E ''RRC (HL)'',
    new_Opcode 0x0F ''RRC A'',
    new_Opcode 0x10 ''RL B'',
    new_Opcode 0x11 ''RL C'',
    new_Opcode 0x12 ''RL D'',
    new_Opcode 0x13 ''RL E'',
    new_Opcode 0x14 ''RL H'',
    new_Opcode 0x15 ''RL L'',
    new_Opcode 0x16 ''RL (HL)'',
    new_Opcode 0x17 ''RL A'',
    new_Opcode 0x18 ''RR B'',
    new_Opcode 0x19 ''RR C'',
    new_Opcode 0x1A ''RR D'',
    new_Opcode 0x1B ''RR E'',
    new_Opcode 0x1C ''RR H'',
    new_Opcode 0x1D ''RR L'',
    new_Opcode 0x1E ''RR (HL)'',
    new_Opcode 0x1F ''RR A'',
    new_Opcode 0x20 ''SLA B'',
    new_Opcode 0x21 ''SLA C'',
    new_Opcode 0x22 ''SLA D'',
    new_Opcode 0x23 ''SLA E'',
    new_Opcode 0x24 ''SLA H'',
    new_Opcode 0x25 ''SLA L'',
    new_Opcode 0x26 ''SLA (HL)'',
    new_Opcode 0x27 ''SLA A'',
    new_Opcode 0x28 ''SRA B'',
    new_Opcode 0x29 ''SRA C'',
    new_Opcode 0x2A ''SRA D'',
    new_Opcode 0x2B ''SRA E'',
    new_Opcode 0x2C ''SRA H'',
    new_Opcode 0x2D ''SRA L'',
    new_Opcode 0x2E ''SRA (HL)'',
    new_Opcode 0x2F ''SRA A'',
    new_Opcode 0x30 ''SLL B'',
    new_Opcode 0x31 ''SLL C'',
    new_Opcode 0x32 ''SLL D'',
    new_Opcode 0x33 ''SLL E'',
    new_Opcode 0x34 ''SLL H'',
    new_Opcode 0x35 ''SLL L'',
    new_Opcode 0x36 ''SLL (HL)'',
    new_Opcode 0x37 ''SLL A'',
    new_Opcode 0x38 ''SRL B'',
    new_Opcode 0x39 ''SRL C'',
    new_Opcode 0x3A ''SRL D'',
    new_Opcode 0x3B ''SRL E'',
    new_Opcode 0x3C ''SRL H'',
    new_Opcode 0x3D ''SRL L'',
    new_Opcode 0x3E ''SRL (HL)'',
    new_Opcode 0x3F ''SRL A'',
    new_Opcode 0x40 ''BIT 0,B'',
    new_Opcode 0x41 ''BIT 0,C'',
    new_Opcode 0x42 ''BIT 0,D'',
    new_Opcode 0x43 ''BIT 0,E'',
    new_Opcode 0x44 ''BIT 0,H'',
    new_Opcode 0x45 ''BIT 0,L'',
    new_Opcode 0x46 ''BIT 0,(HL)'',
    new_Opcode 0x47 ''BIT 0,A'',
    new_Opcode 0x48 ''BIT 1,B'',
    new_Opcode 0x49 ''BIT 1,C'',
    new_Opcode 0x4A ''BIT 1,D'',
    new_Opcode 0x4B ''BIT 1,E'',
    new_Opcode 0x4C ''BIT 1,H'',
    new_Opcode 0x4D ''BIT 1,L'',
    new_Opcode 0x4E ''BIT 1,(HL)'',
    new_Opcode 0x4F ''BIT 1,A'',
    new_Opcode 0x50 ''BIT 2,B'',
    new_Opcode 0x51 ''BIT 2,C'',
    new_Opcode 0x52 ''BIT 2,D'',
    new_Opcode 0x53 ''BIT 2,E'',
    new_Opcode 0x54 ''BIT 2,H'',
    new_Opcode 0x55 ''BIT 2,L'',
    new_Opcode 0x56 ''BIT 2,(HL)'',
    new_Opcode 0x57 ''BIT 2,A'',
    new_Opcode 0x58 ''BIT 3,B'',
    new_Opcode 0x59 ''BIT 3,C'',
    new_Opcode 0x5A ''BIT 3,D'',
    new_Opcode 0x5B ''BIT 3,E'',
    new_Opcode 0x5C ''BIT 3,H'',
    new_Opcode 0x5D ''BIT 3,L'',
    new_Opcode 0x5E ''BIT 3,(HL)'',
    new_Opcode 0x5F ''BIT 3,A'',
    new_Opcode 0x60 ''BIT 4,B'',
    new_Opcode 0x61 ''BIT 4,C'',
    new_Opcode 0x62 ''BIT 4,D'',
    new_Opcode 0x63 ''BIT 4,E'',
    new_Opcode 0x64 ''BIT 4,H'',
    new_Opcode 0x65 ''BIT 4,L'',
    new_Opcode 0x66 ''BIT 4,(HL)'',
    new_Opcode 0x67 ''BIT 4,A'',
    new_Opcode 0x68 ''BIT 5,B'',
    new_Opcode 0x69 ''BIT 5,C'',
    new_Opcode 0x6A ''BIT 5,D'',
    new_Opcode 0x6B ''BIT 5,E'',
    new_Opcode 0x6C ''BIT 5,H'',
    new_Opcode 0x6D ''BIT 5,L'',
    new_Opcode 0x6E ''BIT 5,(HL)'',
    new_Opcode 0x6F ''BIT 5,A'',
    new_Opcode 0x70 ''BIT 6,B'',
    new_Opcode 0x71 ''BIT 6,C'',
    new_Opcode 0x72 ''BIT 6,D'',
    new_Opcode 0x73 ''BIT 6,E'',
    new_Opcode 0x74 ''BIT 6,H'',
    new_Opcode 0x75 ''BIT 6,L'',
    new_Opcode 0x76 ''BIT 6,(HL)'',
    new_Opcode 0x77 ''BIT 6,A'',
    new_Opcode 0x78 ''BIT 7,B'',
    new_Opcode 0x79 ''BIT 7,C'',
    new_Opcode 0x7A ''BIT 7,D'',
    new_Opcode 0x7B ''BIT 7,E'',
    new_Opcode 0x7C ''BIT 7,H'',
    new_Opcode 0x7D ''BIT 7,L'',
    new_Opcode 0x7E ''BIT 7,(HL)'',
    new_Opcode 0x7F ''BIT 7,A'',
    new_Opcode 0x80 ''RES 0,B'',
    new_Opcode 0x81 ''RES 0,C'',
    new_Opcode 0x82 ''RES 0,D'',
    new_Opcode 0x83 ''RES 0,E'',
    new_Opcode 0x84 ''RES 0,H'',
    new_Opcode 0x85 ''RES 0,L'',
    new_Opcode 0x86 ''RES 0,(HL)'',
    new_Opcode 0x87 ''RES 0,A'',
    new_Opcode 0x88 ''RES 1,B'',
    new_Opcode 0x89 ''RES 1,C'',
    new_Opcode 0x8A ''RES 1,D'',
    new_Opcode 0x8B ''RES 1,E'',
    new_Opcode 0x8C ''RES 1,H'',
    new_Opcode 0x8D ''RES 1,L'',
    new_Opcode 0x8E ''RES 1,(HL)'',
    new_Opcode 0x8F ''RES 1,A'',
    new_Opcode 0x90 ''RES 2,B'',
    new_Opcode 0x91 ''RES 2,C'',
    new_Opcode 0x92 ''RES 2,D'',
    new_Opcode 0x93 ''RES 2,E'',
    new_Opcode 0x94 ''RES 2,H'',
    new_Opcode 0x95 ''RES 2,L'',
    new_Opcode 0x96 ''RES 2,(HL)'',
    new_Opcode 0x97 ''RES 2,A'',
    new_Opcode 0x98 ''RES 3,B'',
    new_Opcode 0x99 ''RES 3,C'',
    new_Opcode 0x9A ''RES 3,D'',
    new_Opcode 0x9B ''RES 3,E'',
    new_Opcode 0x9C ''RES 3,H'',
    new_Opcode 0x9D ''RES 3,L'',
    new_Opcode 0x9E ''RES 3,(HL)'',
    new_Opcode 0x9F ''RES 3,A'',
    new_Opcode 0xA0 ''RES 4,B'',
    new_Opcode 0xA1 ''RES 4,C'',
    new_Opcode 0xA2 ''RES 4,D'',
    new_Opcode 0xA3 ''RES 4,E'',
    new_Opcode 0xA4 ''RES 4,H'',
    new_Opcode 0xA5 ''RES 4,L'',
    new_Opcode 0xA6 ''RES 4,(HL)'',
    new_Opcode 0xA7 ''RES 4,A'',
    new_Opcode 0xA8 ''RES 5,B'',
    new_Opcode 0xA9 ''RES 5,C'',
    new_Opcode 0xAA ''RES 5,D'',
    new_Opcode 0xAB ''RES 5,E'',
    new_Opcode 0xAC ''RES 5,H'',
    new_Opcode 0xAD ''RES 5,L'',
    new_Opcode 0xAE ''RES 5,(HL)'',
    new_Opcode 0xAF ''RES 5,A'',
    new_Opcode 0xB0 ''RES 6,B'',
    new_Opcode 0xB1 ''RES 6,C'',
    new_Opcode 0xB2 ''RES 6,D'',
    new_Opcode 0xB3 ''RES 6,E'',
    new_Opcode 0xB4 ''RES 6,H'',
    new_Opcode 0xB5 ''RES 6,L'',
    new_Opcode 0xB6 ''RES 6,(HL)'',
    new_Opcode 0xB7 ''RES 6,A'',
    new_Opcode 0xB8 ''RES 7,B'',
    new_Opcode 0xB9 ''RES 7,C'',
    new_Opcode 0xBA ''RES 7,D'',
    new_Opcode 0xBB ''RES 7,E'',
    new_Opcode 0xBC ''RES 7,H'',
    new_Opcode 0xBD ''RES 7,L'',
    new_Opcode 0xBE ''RES 7,(HL)'',
    new_Opcode 0xBF ''RES 7,A'',
    new_Opcode 0xC0 ''SET 0,B'',
    new_Opcode 0xC1 ''SET 0,C'',
    new_Opcode 0xC2 ''SET 0,D'',
    new_Opcode 0xC3 ''SET 0,E'',
    new_Opcode 0xC4 ''SET 0,H'',
    new_Opcode 0xC5 ''SET 0,L'',
    new_Opcode 0xC6 ''SET 0,(HL)'',
    new_Opcode 0xC7 ''SET 0,A'',
    new_Opcode 0xC8 ''SET 1,B'',
    new_Opcode 0xC9 ''SET 1,C'',
    new_Opcode 0xCA ''SET 1,D'',
    new_Opcode 0xCB ''SET 1,E'',
    new_Opcode 0xCC ''SET 1,H'',
    new_Opcode 0xCD ''SET 1,L'',
    new_Opcode 0xCE ''SET 1,(HL)'',
    new_Opcode 0xCF ''SET 1,A'',
    new_Opcode 0xD0 ''SET 2,B'',
    new_Opcode 0xD1 ''SET 2,C'',
    new_Opcode 0xD2 ''SET 2,D'',
    new_Opcode 0xD3 ''SET 2,E'',
    new_Opcode 0xD4 ''SET 2,H'',
    new_Opcode 0xD5 ''SET 2,L'',
    new_Opcode 0xD6 ''SET 2,(HL)'',
    new_Opcode 0xD7 ''SET 2,A'',
    new_Opcode 0xD8 ''SET 3,B'',
    new_Opcode 0xD9 ''SET 3,C'',
    new_Opcode 0xDA ''SET 3,D'',
    new_Opcode 0xDB ''SET 3,E'',
    new_Opcode 0xDC ''SET 3,H'',
    new_Opcode 0xDD ''SET 3,L'',
    new_Opcode 0xDE ''SET 3,(HL)'',
    new_Opcode 0xDF ''SET 3,A'',
    new_Opcode 0xE0 ''SET 4,B'',
    new_Opcode 0xE1 ''SET 4,C'',
    new_Opcode 0xE2 ''SET 4,D'',
    new_Opcode 0xE3 ''SET 4,E'',
    new_Opcode 0xE4 ''SET 4,H'',
    new_Opcode 0xE5 ''SET 4,L'',
    new_Opcode 0xE6 ''SET 4,(HL)'',
    new_Opcode 0xE7 ''SET 4,A'',
    new_Opcode 0xE8 ''SET 5,B'',
    new_Opcode 0xE9 ''SET 5,C'',
    new_Opcode 0xEA ''SET 5,D'',
    new_Opcode 0xEB ''SET 5,E'',
    new_Opcode 0xEC ''SET 5,H'',
    new_Opcode 0xED ''SET 5,L'',
    new_Opcode 0xEE ''SET 5,(HL)'',
    new_Opcode 0xEF ''SET 5,A'',
    new_Opcode 0xF0 ''SET 6,B'',
    new_Opcode 0xF1 ''SET 6,C'',
    new_Opcode 0xF2 ''SET 6,D'',
    new_Opcode 0xF3 ''SET 6,E'',
    new_Opcode 0xF4 ''SET 6,H'',
    new_Opcode 0xF5 ''SET 6,L'',
    new_Opcode 0xF6 ''SET 6,(HL)'',
    new_Opcode 0xF7 ''SET 6,A'',
    new_Opcode 0xF8 ''SET 7,B'',
    new_Opcode 0xF9 ''SET 7,C'',
    new_Opcode 0xFA ''SET 7,D'',
    new_Opcode 0xFB ''SET 7,E'',
    new_Opcode 0xFC ''SET 7,H'',
    new_Opcode 0xFD ''SET 7,L'',
    new_Opcode 0xFE ''SET 7,(HL)'',
    new_Opcode 0xFF ''SET 7,A''
   ]"

definition OpcodesCB :: OpcodeTable where
  "OpcodesCB = nth (map fixLength OpcodesCB_init)"

definition OpcodesDDCB_init :: "OpcodeObj list" where
  \<comment> \<open>Opcodes that start with 0xDDCB.\<close>
  "OpcodesDDCB_init =
   [
    new_OpcodePrevIndex 0x00 ''RLC (IX%s),B'',
    new_OpcodePrevIndex 0x01 ''RLC (IX%s),C'',
    new_OpcodePrevIndex 0x02 ''RLC (IX%s),D'',
    new_OpcodePrevIndex 0x03 ''RLC (IX%s),E'',
    new_OpcodePrevIndex 0x04 ''RLC (IX%s),H'',
    new_OpcodePrevIndex 0x05 ''RLC (IX%s),L'',
    new_OpcodePrevIndex 0x06 ''RLC (IX%s)'',
    new_OpcodePrevIndex 0x07 ''RLC (IX%s),A'',
    new_OpcodePrevIndex 0x08 ''RRC (IX%s),B'',
    new_OpcodePrevIndex 0x09 ''RRC (IX%s),C'',
    new_OpcodePrevIndex 0x0A ''RRC (IX%s),D'',
    new_OpcodePrevIndex 0x0B ''RRC (IX%s),E'',
    new_OpcodePrevIndex 0x0C ''RRC (IX%s),H'',
    new_OpcodePrevIndex 0x0D ''RRC (IX%s),L'',
    new_OpcodePrevIndex 0x0E ''RRC (IX%s)'',
    new_OpcodePrevIndex 0x0F ''RRC (IX%s),A'',
    new_OpcodePrevIndex 0x10 ''RL (IX%s),B'',
    new_OpcodePrevIndex 0x11 ''RL (IX%s),C'',
    new_OpcodePrevIndex 0x12 ''RL (IX%s),D'',
    new_OpcodePrevIndex 0x13 ''RL (IX%s),E'',
    new_OpcodePrevIndex 0x14 ''RL (IX%s),H'',
    new_OpcodePrevIndex 0x15 ''RL (IX%s),L'',
    new_OpcodePrevIndex 0x16 ''RL (IX%s)'',
    new_OpcodePrevIndex 0x17 ''RL (IX%s),A'',
    new_OpcodePrevIndex 0x18 ''RR (IX%s),B'',
    new_OpcodePrevIndex 0x19 ''RR (IX%s),C'',
    new_OpcodePrevIndex 0x1A ''RR (IX%s),D'',
    new_OpcodePrevIndex 0x1B ''RR (IX%s),E'',
    new_OpcodePrevIndex 0x1C ''RR (IX%s),H'',
    new_OpcodePrevIndex 0x1D ''RR (IX%s),L'',
    new_OpcodePrevIndex 0x1E ''RR (IX%s)'',
    new_OpcodePrevIndex 0x1F ''RR (IX%s),A'',
    new_OpcodePrevIndex 0x20 ''SLA (IX%s),B'',
    new_OpcodePrevIndex 0x21 ''SLA (IX%s),C'',
    new_OpcodePrevIndex 0x22 ''SLA (IX%s),D'',
    new_OpcodePrevIndex 0x23 ''SLA (IX%s),E'',
    new_OpcodePrevIndex 0x24 ''SLA (IX%s),H'',
    new_OpcodePrevIndex 0x25 ''SLA (IX%s),L'',
    new_OpcodePrevIndex 0x26 ''SLA (IX%s)'',
    new_OpcodePrevIndex 0x27 ''SLA (IX%s),A'',
    new_OpcodePrevIndex 0x28 ''SRA (IX%s),B'',
    new_OpcodePrevIndex 0x29 ''SRA (IX%s),C'',
    new_OpcodePrevIndex 0x2A ''SRA (IX%s),D'',
    new_OpcodePrevIndex 0x2B ''SRA (IX%s),E'',
    new_OpcodePrevIndex 0x2C ''SRA (IX%s),H'',
    new_OpcodePrevIndex 0x2D ''SRA (IX%s),L'',
    new_OpcodePrevIndex 0x2E ''SRA (IX%s)'',
    new_OpcodePrevIndex 0x2F ''SRA (IX%s),A'',
    new_OpcodePrevIndex 0x30 ''SLL (IX%s),B'',
    new_OpcodePrevIndex 0x31 ''SLL (IX%s),C'',
    new_OpcodePrevIndex 0x32 ''SLL (IX%s),D'',
    new_OpcodePrevIndex 0x33 ''SLL (IX%s),E'',
    new_OpcodePrevIndex 0x34 ''SLL (IX%s),H'',
    new_OpcodePrevIndex 0x35 ''SLL (IX%s),L'',
    new_OpcodePrevIndex 0x36 ''SLL (IX%s)'',
    new_OpcodePrevIndex 0x37 ''SLL (IX%s),A'',
    new_OpcodePrevIndex 0x38 ''SRL (IX%s),B'',
    new_OpcodePrevIndex 0x39 ''SRL (IX%s),C'',
    new_OpcodePrevIndex 0x3A ''SRL (IX%s),D'',
    new_OpcodePrevIndex 0x3B ''SRL (IX%s),E'',
    new_OpcodePrevIndex 0x3C ''SRL (IX%s),H'',
    new_OpcodePrevIndex 0x3D ''SRL (IX%s),L'',
    new_OpcodePrevIndex 0x3E ''SRL (IX%s)'',
    new_OpcodePrevIndex 0x3F ''SRL (IX%s),A'',
    new_OpcodePrevIndex 0x40 ''BIT 0,(IX%s)'',
    new_OpcodePrevIndex 0x41 ''BIT 0,(IX%s)'',
    new_OpcodePrevIndex 0x42 ''BIT 0,(IX%s)'',
    new_OpcodePrevIndex 0x43 ''BIT 0,(IX%s)'',
    new_OpcodePrevIndex 0x44 ''BIT 0,(IX%s)'',
    new_OpcodePrevIndex 0x45 ''BIT 0,(IX%s)'',
    new_OpcodePrevIndex 0x46 ''BIT 0,(IX%s)'',
    new_OpcodePrevIndex 0x47 ''BIT 0,(IX%s)'',
    new_OpcodePrevIndex 0x48 ''BIT 1,(IX%s)'',
    new_OpcodePrevIndex 0x49 ''BIT 1,(IX%s)'',
    new_OpcodePrevIndex 0x4A ''BIT 1,(IX%s)'',
    new_OpcodePrevIndex 0x4B ''BIT 1,(IX%s)'',
    new_OpcodePrevIndex 0x4C ''BIT 1,(IX%s)'',
    new_OpcodePrevIndex 0x4D ''BIT 1,(IX%s)'',
    new_OpcodePrevIndex 0x4E ''BIT 1,(IX%s)'',
    new_OpcodePrevIndex 0x4F ''BIT 1,(IX%s)'',
    new_OpcodePrevIndex 0x50 ''BIT 2,(IX%s)'',
    new_OpcodePrevIndex 0x51 ''BIT 2,(IX%s)'',
    new_OpcodePrevIndex 0x52 ''BIT 2,(IX%s)'',
    new_OpcodePrevIndex 0x53 ''BIT 2,(IX%s)'',
    new_OpcodePrevIndex 0x54 ''BIT 2,(IX%s)'',
    new_OpcodePrevIndex 0x55 ''BIT 2,(IX%s)'',
    new_OpcodePrevIndex 0x56 ''BIT 2,(IX%s)'',
    new_OpcodePrevIndex 0x57 ''BIT 2,(IX%s)'',
    new_OpcodePrevIndex 0x58 ''BIT 3,(IX%s)'',
    new_OpcodePrevIndex 0x59 ''BIT 3,(IX%s)'',
    new_OpcodePrevIndex 0x5A ''BIT 3,(IX%s)'',
    new_OpcodePrevIndex 0x5B ''BIT 3,(IX%s)'',
    new_OpcodePrevIndex 0x5C ''BIT 3,(IX%s)'',
    new_OpcodePrevIndex 0x5D ''BIT 3,(IX%s)'',
    new_OpcodePrevIndex 0x5E ''BIT 3,(IX%s)'',
    new_OpcodePrevIndex 0x5F ''BIT 3,(IX%s)'',
    new_OpcodePrevIndex 0x60 ''BIT 4,(IX%s)'',
    new_OpcodePrevIndex 0x61 ''BIT 4,(IX%s)'',
    new_OpcodePrevIndex 0x62 ''BIT 4,(IX%s)'',
    new_OpcodePrevIndex 0x63 ''BIT 4,(IX%s)'',
    new_OpcodePrevIndex 0x64 ''BIT 4,(IX%s)'',
    new_OpcodePrevIndex 0x65 ''BIT 4,(IX%s)'',
    new_OpcodePrevIndex 0x66 ''BIT 4,(IX%s)'',
    new_OpcodePrevIndex 0x67 ''BIT 4,(IX%s)'',
    new_OpcodePrevIndex 0x68 ''BIT 5,(IX%s)'',
    new_OpcodePrevIndex 0x69 ''BIT 5,(IX%s)'',
    new_OpcodePrevIndex 0x6A ''BIT 5,(IX%s)'',
    new_OpcodePrevIndex 0x6B ''BIT 5,(IX%s)'',
    new_OpcodePrevIndex 0x6C ''BIT 5,(IX%s)'',
    new_OpcodePrevIndex 0x6D ''BIT 5,(IX%s)'',
    new_OpcodePrevIndex 0x6E ''BIT 5,(IX%s)'',
    new_OpcodePrevIndex 0x6F ''BIT 5,(IX%s)'',
    new_OpcodePrevIndex 0x70 ''BIT 6,(IX%s)'',
    new_OpcodePrevIndex 0x71 ''BIT 6,(IX%s)'',
    new_OpcodePrevIndex 0x72 ''BIT 6,(IX%s)'',
    new_OpcodePrevIndex 0x73 ''BIT 6,(IX%s)'',
    new_OpcodePrevIndex 0x74 ''BIT 6,(IX%s)'',
    new_OpcodePrevIndex 0x75 ''BIT 6,(IX%s)'',
    new_OpcodePrevIndex 0x76 ''BIT 6,(IX%s)'',
    new_OpcodePrevIndex 0x77 ''BIT 6,(IX%s)'',
    new_OpcodePrevIndex 0x78 ''BIT 7,(IX%s)'',
    new_OpcodePrevIndex 0x79 ''BIT 7,(IX%s)'',
    new_OpcodePrevIndex 0x7A ''BIT 7,(IX%s)'',
    new_OpcodePrevIndex 0x7B ''BIT 7,(IX%s)'',
    new_OpcodePrevIndex 0x7C ''BIT 7,(IX%s)'',
    new_OpcodePrevIndex 0x7D ''BIT 7,(IX%s)'',
    new_OpcodePrevIndex 0x7E ''BIT 7,(IX%s)'',
    new_OpcodePrevIndex 0x7F ''BIT 7,(IX%s)'',
    new_OpcodePrevIndex 0x80 ''RES 0,(IX%s),B'',
    new_OpcodePrevIndex 0x81 ''RES 0,(IX%s),C'',
    new_OpcodePrevIndex 0x82 ''RES 0,(IX%s),D'',
    new_OpcodePrevIndex 0x83 ''RES 0,(IX%s),E'',
    new_OpcodePrevIndex 0x84 ''RES 0,(IX%s),H'',
    new_OpcodePrevIndex 0x85 ''RES 0,(IX%s),L'',
    new_OpcodePrevIndex 0x86 ''RES 0,(IX%s)'',
    new_OpcodePrevIndex 0x87 ''RES 0,(IX%s),A'',
    new_OpcodePrevIndex 0x88 ''RES 1,(IX%s),B'',
    new_OpcodePrevIndex 0x89 ''RES 1,(IX%s),C'',
    new_OpcodePrevIndex 0x8A ''RES 1,(IX%s),D'',
    new_OpcodePrevIndex 0x8B ''RES 1,(IX%s),E'',
    new_OpcodePrevIndex 0x8C ''RES 1,(IX%s),H'',
    new_OpcodePrevIndex 0x8D ''RES 1,(IX%s),L'',
    new_OpcodePrevIndex 0x8E ''RES 1,(IX%s)'',
    new_OpcodePrevIndex 0x8F ''RES 1,(IX%s),A'',
    new_OpcodePrevIndex 0x90 ''RES 2,(IX%s),B'',
    new_OpcodePrevIndex 0x91 ''RES 2,(IX%s),C'',
    new_OpcodePrevIndex 0x92 ''RES 2,(IX%s),D'',
    new_OpcodePrevIndex 0x93 ''RES 2,(IX%s),E'',
    new_OpcodePrevIndex 0x94 ''RES 2,(IX%s),H'',
    new_OpcodePrevIndex 0x95 ''RES 2,(IX%s),L'',
    new_OpcodePrevIndex 0x96 ''RES 2,(IX%s)'',
    new_OpcodePrevIndex 0x97 ''RES 2,(IX%s),A'',
    new_OpcodePrevIndex 0x98 ''RES 3,(IX%s),B'',
    new_OpcodePrevIndex 0x99 ''RES 3,(IX%s),C'',
    new_OpcodePrevIndex 0x9A ''RES 3,(IX%s),D'',
    new_OpcodePrevIndex 0x9B ''RES 3,(IX%s),E'',
    new_OpcodePrevIndex 0x9C ''RES 3,(IX%s),H'',
    new_OpcodePrevIndex 0x9D ''RES 3,(IX%s),L'',
    new_OpcodePrevIndex 0x9E ''RES 3,(IX%s)'',
    new_OpcodePrevIndex 0x9F ''RES 3,(IX%s),A'',
    new_OpcodePrevIndex 0xA0 ''RES 4,(IX%s),B'',
    new_OpcodePrevIndex 0xA1 ''RES 4,(IX%s),C'',
    new_OpcodePrevIndex 0xA2 ''RES 4,(IX%s),D'',
    new_OpcodePrevIndex 0xA3 ''RES 4,(IX%s),E'',
    new_OpcodePrevIndex 0xA4 ''RES 4,(IX%s),H'',
    new_OpcodePrevIndex 0xA5 ''RES 4,(IX%s),L'',
    new_OpcodePrevIndex 0xA6 ''RES 4,(IX%s)'',
    new_OpcodePrevIndex 0xA7 ''RES 4,(IX%s),A'',
    new_OpcodePrevIndex 0xA8 ''RES 5,(IX%s),B'',
    new_OpcodePrevIndex 0xA9 ''RES 5,(IX%s),C'',
    new_OpcodePrevIndex 0xAA ''RES 5,(IX%s),D'',
    new_OpcodePrevIndex 0xAB ''RES 5,(IX%s),E'',
    new_OpcodePrevIndex 0xAC ''RES 5,(IX%s),H'',
    new_OpcodePrevIndex 0xAD ''RES 5,(IX%s),L'',
    new_OpcodePrevIndex 0xAE ''RES 5,(IX%s)'',
    new_OpcodePrevIndex 0xAF ''RES 5,(IX%s),A'',
    new_OpcodePrevIndex 0xB0 ''RES 6,(IX%s),B'',
    new_OpcodePrevIndex 0xB1 ''RES 6,(IX%s),C'',
    new_OpcodePrevIndex 0xB2 ''RES 6,(IX%s),D'',
    new_OpcodePrevIndex 0xB3 ''RES 6,(IX%s),E'',
    new_OpcodePrevIndex 0xB4 ''RES 6,(IX%s),H'',
    new_OpcodePrevIndex 0xB5 ''RES 6,(IX%s),L'',
    new_OpcodePrevIndex 0xB6 ''RES 6,(IX%s)'',
    new_OpcodePrevIndex 0xB7 ''RES 6,(IX%s),A'',
    new_OpcodePrevIndex 0xB8 ''RES 7,(IX%s),B'',
    new_OpcodePrevIndex 0xB9 ''RES 7,(IX%s),C'',
    new_OpcodePrevIndex 0xBA ''RES 7,(IX%s),D'',
    new_OpcodePrevIndex 0xBB ''RES 7,(IX%s),E'',
    new_OpcodePrevIndex 0xBC ''RES 7,(IX%s),H'',
    new_OpcodePrevIndex 0xBD ''RES 7,(IX%s),L'',
    new_OpcodePrevIndex 0xBE ''RES 7,(IX%s)'',
    new_OpcodePrevIndex 0xBF ''RES 7,(IX%s),A'',
    new_OpcodePrevIndex 0xC0 ''SET 0,(IX%s),B'',
    new_OpcodePrevIndex 0xC1 ''SET 0,(IX%s),C'',
    new_OpcodePrevIndex 0xC2 ''SET 0,(IX%s),D'',
    new_OpcodePrevIndex 0xC3 ''SET 0,(IX%s),E'',
    new_OpcodePrevIndex 0xC4 ''SET 0,(IX%s),H'',
    new_OpcodePrevIndex 0xC5 ''SET 0,(IX%s),L'',
    new_OpcodePrevIndex 0xC6 ''SET 0,(IX%s)'',
    new_OpcodePrevIndex 0xC7 ''SET 0,(IX%s),A'',
    new_OpcodePrevIndex 0xC8 ''SET 1,(IX%s),B'',
    new_OpcodePrevIndex 0xC9 ''SET 1,(IX%s),C'',
    new_OpcodePrevIndex 0xCA ''SET 1,(IX%s),D'',
    new_OpcodePrevIndex 0xCB ''SET 1,(IX%s),E'',
    new_OpcodePrevIndex 0xCC ''SET 1,(IX%s),H'',
    new_OpcodePrevIndex 0xCD ''SET 1,(IX%s),L'',
    new_OpcodePrevIndex 0xCE ''SET 1,(IX%s)'',
    new_OpcodePrevIndex 0xCF ''SET 1,(IX%s),A'',
    new_OpcodePrevIndex 0xD0 ''SET 2,(IX%s),B'',
    new_OpcodePrevIndex 0xD1 ''SET 2,(IX%s),C'',
    new_OpcodePrevIndex 0xD2 ''SET 2,(IX%s),D'',
    new_OpcodePrevIndex 0xD3 ''SET 2,(IX%s),E'',
    new_OpcodePrevIndex 0xD4 ''SET 2,(IX%s),H'',
    new_OpcodePrevIndex 0xD5 ''SET 2,(IX%s),L'',
    new_OpcodePrevIndex 0xD6 ''SET 2,(IX%s)'',
    new_OpcodePrevIndex 0xD7 ''SET 2,(IX%s),A'',
    new_OpcodePrevIndex 0xD8 ''SET 3,(IX%s),B'',
    new_OpcodePrevIndex 0xD9 ''SET 3,(IX%s),C'',
    new_OpcodePrevIndex 0xDA ''SET 3,(IX%s),D'',
    new_OpcodePrevIndex 0xDB ''SET 3,(IX%s),E'',
    new_OpcodePrevIndex 0xDC ''SET 3,(IX%s),H'',
    new_OpcodePrevIndex 0xDD ''SET 3,(IX%s),L'',
    new_OpcodePrevIndex 0xDE ''SET 3,(IX%s)'',
    new_OpcodePrevIndex 0xDF ''SET 3,(IX%s),A'',
    new_OpcodePrevIndex 0xE0 ''SET 4,(IX%s),B'',
    new_OpcodePrevIndex 0xE1 ''SET 4,(IX%s),C'',
    new_OpcodePrevIndex 0xE2 ''SET 4,(IX%s),D'',
    new_OpcodePrevIndex 0xE3 ''SET 4,(IX%s),E'',
    new_OpcodePrevIndex 0xE4 ''SET 4,(IX%s),H'',
    new_OpcodePrevIndex 0xE5 ''SET 4,(IX%s),L'',
    new_OpcodePrevIndex 0xE6 ''SET 4,(IX%s)'',
    new_OpcodePrevIndex 0xE7 ''SET 4,(IX%s),A'',
    new_OpcodePrevIndex 0xE8 ''SET 5,(IX%s),B'',
    new_OpcodePrevIndex 0xE9 ''SET 5,(IX%s),C'',
    new_OpcodePrevIndex 0xEA ''SET 5,(IX%s),D'',
    new_OpcodePrevIndex 0xEB ''SET 5,(IX%s),E'',
    new_OpcodePrevIndex 0xEC ''SET 5,(IX%s),H'',
    new_OpcodePrevIndex 0xED ''SET 5,(IX%s),L'',
    new_OpcodePrevIndex 0xEE ''SET 5,(IX%s)'',
    new_OpcodePrevIndex 0xEF ''SET 5,(IX%s),A'',
    new_OpcodePrevIndex 0xF0 ''SET 6,(IX%s),B'',
    new_OpcodePrevIndex 0xF1 ''SET 6,(IX%s),C'',
    new_OpcodePrevIndex 0xF2 ''SET 6,(IX%s),D'',
    new_OpcodePrevIndex 0xF3 ''SET 6,(IX%s),E'',
    new_OpcodePrevIndex 0xF4 ''SET 6,(IX%s),H'',
    new_OpcodePrevIndex 0xF5 ''SET 6,(IX%s),L'',
    new_OpcodePrevIndex 0xF6 ''SET 6,(IX%s)'',
    new_OpcodePrevIndex 0xF7 ''SET 6,(IX%s),A'',
    new_OpcodePrevIndex 0xF8 ''SET 7,(IX%s),B'',
    new_OpcodePrevIndex 0xF9 ''SET 7,(IX%s),C'',
    new_OpcodePrevIndex 0xFA ''SET 7,(IX%s),D'',
    new_OpcodePrevIndex 0xFB ''SET 7,(IX%s),E'',
    new_OpcodePrevIndex 0xFC ''SET 7,(IX%s),H'',
    new_OpcodePrevIndex 0xFD ''SET 7,(IX%s),L'',
    new_OpcodePrevIndex 0xFE ''SET 7,(IX%s)'',
    new_OpcodePrevIndex 0xFF ''SET 7,(IX%s),A''
   ]"

definition OpcodesDDCB :: OpcodeTable where
  "OpcodesDDCB = nth (map fixLength OpcodesDDCB_init)"

definition OpcodesFDCB :: OpcodeTable where
  \<comment> \<open>Opcodes that start with 0xFDCB: clones of the 0xDDCB objects, IY instead of IX.\<close>
  "OpcodesFDCB =
     nth (map (\<lambda>opcode.
            update_fields (\<lambda>opcodeFDCB. opcodeFDCB\<lparr>name := replace_first (name (fields_of opcode)) ''IX'' ''IY''\<rparr>)
              opcode)
          (map fixLength OpcodesDDCB_init))"

definition OpcodesDD_init :: "OpcodeObj list" where
  \<comment> \<open>Opcodes that start with 0xDD.\<close>
  "OpcodesDD_init =
   [
    new_OpcodeInvalid 0x00,
    new_OpcodeInvalid 0x01,
    new_OpcodeInvalid 0x02,
    new_OpcodeInvalid 0x03,
    new_OpcodeInvalid 0x04,
    new_OpcodeInvalid 0x05,
    new_OpcodeInvalid 0x06,
    new_OpcodeInvalid 0x07,
    new_OpcodeInvalid 0x08,
    new_Opcode 0x09 ''ADD IX,BC'',
    new_OpcodeInvalid 0x0A,
    new_OpcodeInvalid 0x0B,
    new_OpcodeInvalid 0x0C,
    new_OpcodeInvalid 0x0D,
    new_OpcodeInvalid 0x0E,
    new_OpcodeInvalid 0x0F,
    new_OpcodeInvalid 0x10,
    new_OpcodeInvalid 0x11,
    new_OpcodeInvalid 0x12,
    new_OpcodeInvalid 0x13,
    new_OpcodeInvalid 0x14,
    new_OpcodeInvalid 0x15,
    new_OpcodeInvalid 0x16,
    new_OpcodeInvalid 0x17,
    new_OpcodeInvalid 0x18,
    new_Opcode 0x19 ''ADD IX,DE'',
    new_OpcodeInvalid 0x1A,
    new_OpcodeInvalid 0x1B,
    new_OpcodeInvalid 0x1C,
    new_OpcodeInvalid 0x1D,
    new_OpcodeInvalid 0x1E,
    new_OpcodeInvalid 0x1F,
    new_OpcodeInvalid 0x20,
    new_Opcode 0x21 ''LD IX,#nn'',
    new_Opcode 0x22 ''LD (#nn),IX'',
    new_Opcode 0x23 ''INC IX'',
    new_Opcode 0x24 ''INC IXH'',
    new_Opcode 0x25 ''DEC IXH'',
    new_Opcode 0x26 ''LD IXH,#n'',
    new_OpcodeInvalid 0x27,
    new_OpcodeInvalid 0x28,
    new_Opcode 0x29 ''ADD IX,IX'',
    new_Opcode 0x2A ''LD IX,(#nn)'',
    new_Opcode 0x2B ''DEC IX'',
    new_Opcode 0x2C ''INC IXL'',
    new_Opcode 0x2D ''DEC IXL'',
    new_Opcode 0x2E ''LD IXL,#n'',
    new_OpcodeInvalid 0x2F,
    new_OpcodeInvalid 0x30,
    new_OpcodeInvalid 0x31,
    new_OpcodeInvalid 0x32,
    new_OpcodeInvalid 0x33,
    new_OpcodeIndex 0x34 ''INC (IX%s)'',
    new_OpcodeIndex 0x35 ''DEC (IX%s)'',
    new_OpcodeIndexImmediate 0x36 ''LD (IX%s),%s'',
    new_OpcodeInvalid 0x37,
    new_OpcodeInvalid 0x38,
    new_Opcode 0x39 ''ADD IX,SP'',
    new_OpcodeInvalid 0x3A,
    new_OpcodeInvalid 0x3B,
    new_OpcodeInvalid 0x3C,
    new_OpcodeInvalid 0x3D,
    new_OpcodeInvalid 0x3E,
    new_OpcodeInvalid 0x3F,
    new_OpcodeInvalid 0x40,
    new_OpcodeInvalid 0x41,
    new_OpcodeInvalid 0x42,
    new_OpcodeInvalid 0x43,
    new_Opcode 0x44 ''LD B,IXH'',
    new_Opcode 0x45 ''LD B,IXL'',
    new_OpcodeIndex 0x46 ''LD B,(IX%s)'',
    new_OpcodeInvalid 0x47,
    new_OpcodeInvalid 0x48,
    new_OpcodeInvalid 0x49,
    new_OpcodeInvalid 0x4A,
    new_OpcodeInvalid 0x4B,
    new_Opcode 0x4C ''LD C,IXH'',
    new_Opcode 0x4D ''LD C,IXL'',
    new_OpcodeIndex 0x4E ''LD C,(IX%s)'',
    new_OpcodeInvalid 0x4F,
    new_OpcodeInvalid 0x50,
    new_OpcodeInvalid 0x51,
    new_OpcodeInvalid 0x52,
    new_OpcodeInvalid 0x53,
    new_Opcode 0x54 ''LD D,IXH'',
    new_Opcode 0x55 ''LD D,IXL'',
    new_OpcodeIndex 0x56 ''LD D,(IX%s)'',
    new_OpcodeInvalid 0x57,
    new_OpcodeInvalid 0x58,
    new_OpcodeInvalid 0x59,
    new_OpcodeInvalid 0x5A,
    new_OpcodeInvalid 0x5B,
    new_Opcode 0x5C ''LD E,IXH'',
    new_Opcode 0x5D ''LD E,IXL'',
    new_OpcodeIndex 0x5E ''LD E,(IX%s)'',
    new_OpcodeInvalid 0x5F,
    new_Opcode 0x60 ''LD IXH,B'',
    new_Opcode 0x61 ''LD IXH,C'',
    new_Opcode 0x62 ''LD IXH,D'',
    new_Opcode 0x63 ''LD IXH,E'',
    new_Opcode 0x64 ''LD IXH,IXH'',
    new_Opcode 0x65 ''LD IXH,IXL'',
    new_OpcodeIndex 0x66 ''LD H,(IX%s)'',
    new_Opcode 0x67 ''LD IXH,A'',
    new_Opcode 0x68 ''LD IXL,B'',
    new_Opcode 0x69 ''LD IXL,C'',
    new_Opcode 0x6A ''LD IXL,D'',
    new_Opcode 0x6B ''LD IXL,E'',
    new_Opcode 0x6C ''LD IXL,IXH'',
    new_Opcode 0x6D ''LD IXL,IXL'',
    new_OpcodeIndex 0x6E ''LD L,(IX%s)'',
    new_Opcode 0x6F ''LD IXL,A'',
    new_OpcodeIndex 0x70 ''LD (IX%s),B'',
    new_OpcodeIndex 0x71 ''LD (IX%s),C'',
    new_OpcodeIndex 0x72 ''LD (IX%s),D'',
    new_OpcodeIndex 0x73 ''LD (IX%s),E'',
    new_OpcodeIndex 0x74 ''LD (IX%s),H'',
    new_OpcodeIndex 0x75 ''LD (IX%s),L'',
    new_OpcodeInvalid 0x76,
    new_OpcodeIndex 0x77 ''LD (IX%s),A'',
    new_OpcodeInvalid 0x78,
    new_OpcodeInvalid 0x79,
    new_OpcodeInvalid 0x7A,
    new_OpcodeInvalid 0x7B,
    new_Opcode 0x7C ''LD A,IXH'',
    new_Opcode 0x7D ''LD A,IXL'',
    new_OpcodeIndex 0x7E ''LD A,(IX%s)'',
    new_OpcodeInvalid 0x7F,
    new_OpcodeInvalid 0x80,
    new_OpcodeInvalid 0x81,
    new_OpcodeInvalid 0x82,
    new_OpcodeInvalid 0x83,
    new_Opcode 0x84 ''ADD A,IXH'',
    new_Opcode 0x85 ''ADD A,IXL'',
    new_OpcodeIndex 0x86 ''ADD A,(IX%s)'',
    new_OpcodeInvalid 0x87,
    new_OpcodeInvalid 0x88,
    new_OpcodeInvalid 0x89,
    new_OpcodeInvalid 0x8A,
    new_OpcodeInvalid 0x8B,
    new_Opcode 0x8C ''ADC A,IXH'',
    new_Opcode 0x8D ''ADC A,IXL'',
    new_OpcodeIndex 0x8E ''ADC A,(IX%s)'',
    new_OpcodeInvalid 0x8F,
    new_OpcodeInvalid 0x90,
    new_OpcodeInvalid 0x91,
    new_OpcodeInvalid 0x92,
    new_OpcodeInvalid 0x93,
    new_Opcode 0x94 ''SUB IXH'',
    new_Opcode 0x95 ''SUB IXL'',
    new_OpcodeIndex 0x96 ''SUB (IX%s)'',
    new_OpcodeInvalid 0x97,
    new_OpcodeInvalid 0x98,
    new_OpcodeInvalid 0x99,
    new_OpcodeInvalid 0x9A,
    new_OpcodeInvalid 0x9B,
    new_Opcode 0x9C ''SBC A,IXH'',
    new_Opcode 0x9D ''SBC A,IXL'',
    new_OpcodeIndex 0x9E ''SBC A,(IX%s)'',
    new_OpcodeInvalid 0x9F,
    new_OpcodeInvalid 0xA0,
    new_OpcodeInvalid 0xA1,
    new_OpcodeInvalid 0xA2,
    new_OpcodeInvalid 0xA3,
    new_Opcode 0xA4 ''AND IXH'',
    new_Opcode 0xA5 ''AND IXL'',
    new_OpcodeIndex 0xA6 ''AND (IX%s)'',
    new_OpcodeInvalid 0xA7,
    new_OpcodeInvalid 0xA8,
    new_OpcodeInvalid 0xA9,
    new_OpcodeInvalid 0xAA,
    new_OpcodeInvalid 0xAB,
    new_Opcode 0xAC ''XOR IXH'',
    new_Opcode 0xAD ''XOR IXL'',
    new_OpcodeIndex 0xAE ''XOR (IX%s)'',
    new_OpcodeInvalid 0xAF,
    new_OpcodeInvalid 0xB0,
    new_OpcodeInvalid 0xB1,
    new_OpcodeInvalid 0xB2,
    new_OpcodeInvalid 0xB3,
    new_Opcode 0xB4 ''OR IXH'',
    new_Opcode 0xB5 ''OR IXL'',
    new_OpcodeIndex 0xB6 ''OR (IX%s)'',
    new_OpcodeInvalid 0xB7,
    new_OpcodeInvalid 0xB8,
    new_OpcodeInvalid 0xB9,
    new_OpcodeInvalid 0xBA,
    new_OpcodeInvalid 0xBB,
    new_Opcode 0xBC ''CP IXH'',
    new_Opcode 0xBD ''CP IXL'',
    new_OpcodeIndex 0xBE ''CP (IX%s)'',
    new_OpcodeInvalid 0xBF,
    new_OpcodeInvalid 0xC0,
    new_OpcodeInvalid 0xC1,
    new_OpcodeInvalid 0xC2,
    new_OpcodeInvalid 0xC3,
    new_OpcodeInvalid 0xC4,
    new_OpcodeInvalid 0xC5,
    new_OpcodeInvalid 0xC6,
    new_OpcodeInvalid 0xC7,
    new_OpcodeInvalid 0xC8,
    new_OpcodeInvalid 0xC9,
    new_OpcodeInvalid 0xCA,
    new_OpcodeExtended2 0xCB OpcodesDDCB,
    new_OpcodeInvalid 0xCC,
    new_OpcodeInvalid 0xCD,
    new_OpcodeInvalid 0xCE,
    new_OpcodeInvalid 0xCF,
    new_OpcodeInvalid 0xD0,
    new_OpcodeInvalid 0xD1,
    new_OpcodeInvalid 0xD2,
    new_OpcodeInvalid 0xD3,
    new_OpcodeInvalid 0xD4,
    new_OpcodeInvalid 0xD5,
    new_OpcodeInvalid 0xD6,
    new_OpcodeInvalid 0xD7,
    new_OpcodeInvalid 0xD8,
    new_OpcodeInvalid 0xD9,
    new_OpcodeInvalid 0xDA,
    new_OpcodeInvalid 0xDB,
    new_OpcodeInvalid 0xDC,
    new_OpcodeNOP 0xDD,
    new_OpcodeInvalid 0xDE,
    new_OpcodeInvalid 0xDF,
    new_OpcodeInvalid 0xE0,
    new_Opcode 0xE1 ''POP IX'',
    new_OpcodeInvalid 0xE2,
    new_Opcode 0xE3 ''EX (SP),IX'',
    new_OpcodeInvalid 0xE4,
    new_Opcode 0xE5 ''PUSH IX'',
    new_OpcodeInvalid 0xE6,
    new_OpcodeInvalid 0xE7,
    new_OpcodeInvalid 0xE8,
    new_Opcode 0xE9 ''JP (IX)'',
    new_OpcodeInvalid 0xEA,
    new_OpcodeInvalid 0xEB,
    new_OpcodeInvalid 0xEC,
    new_OpcodeNOP 0xED,
    new_OpcodeInvalid 0xEE,
    new_OpcodeInvalid 0xEF,
    new_OpcodeInvalid 0xF0,
    new_OpcodeInvalid 0xF1,
    new_OpcodeInvalid 0xF2,
    new_OpcodeInvalid 0xF3,
    new_OpcodeInvalid 0xF4,
    new_OpcodeInvalid 0xF5,
    new_OpcodeInvalid 0xF6,
    new_OpcodeInvalid 0xF7,
    new_OpcodeInvalid 0xF8,
    new_Opcode 0xF9 ''LD SP,IX'',
    new_OpcodeInvalid 0xFA,
    new_OpcodeInvalid 0xFB,
    new_OpcodeInvalid 0xFC,
    new_OpcodeNOP 0xFD,
    new_OpcodeInvalid 0xFE,
    new_OpcodeInvalid 0xFF
   ]"

definition OpcodesDD :: OpcodeTable where
  "OpcodesDD = nth (map fixLength OpcodesDD_init)"

definition OpcodesFD :: OpcodeTable where
  \<comment> \<open>Opcodes that start with 0xFD: clones of the 0xDD objects, IY instead of IX.\<close>
  "OpcodesFD =
     nth (map (\<lambda>opcode.
            if code (fields_of opcode) = 0xCB then new_OpcodeExtended2 0xCB OpcodesFDCB
            else update_fields (\<lambda>opcodeFD. opcodeFD\<lparr>name := replace_IX (name (fields_of opcode))\<rparr>) opcode)
          (map fixLength OpcodesDD_init))"

definition Opcodes_init :: "OpcodeObj list" where
  \<comment> \<open>Normal Opcodes\<close>
  "Opcodes_init =
   [
    new_Opcode 0x00 ''NOP'',
    new_Opcode 0x01 ''LD BC,#nn'',
    new_Opcode 0x02 ''LD (BC),A'',
    new_Opcode 0x03 ''INC BC'',
    new_Opcode 0x04 ''INC B'',
    new_Opcode 0x05 ''DEC B'',
    new_Opcode 0x06 ''LD B,#n'',
    new_Opcode 0x07 ''RLCA'',
    new_Opcode 0x08 (''EX AF,AF'' @ [CHR 0x27]),
    new_Opcode 0x09 ''ADD HL,BC'',
    new_Opcode 0x0A ''LD A,(BC)'',
    new_Opcode 0x0B ''DEC BC'',
    new_Opcode 0x0C ''INC C'',
    new_Opcode 0x0D ''DEC C'',
    new_Opcode 0x0E ''LD C,#n'',
    new_Opcode 0x0F ''RRCA'',
    new_Opcode 0x10 ''DJNZ #n'',
    new_Opcode 0x11 ''LD DE,#nn'',
    new_Opcode 0x12 ''LD (DE),A'',
    new_Opcode 0x13 ''INC DE'',
    new_Opcode 0x14 ''INC D'',
    new_Opcode 0x15 ''DEC D'',
    new_Opcode 0x16 ''LD D,#n'',
    new_Opcode 0x17 ''RLA'',
    new_Opcode 0x18 ''JR #n'',
    new_Opcode 0x19 ''ADD HL,DE'',
    new_Opcode 0x1A ''LD A,(DE)'',
    new_Opcode 0x1B ''DEC DE'',
    new_Opcode 0x1C ''INC E'',
    new_Opcode 0x1D ''DEC E'',
    new_Opcode 0x1E ''LD E,#n'',
    new_Opcode 0x1F ''RRA'',
    new_Opcode 0x20 ''JR NZ,#n'',
    new_Opcode 0x21 ''LD HL,#nn'',
    new_Opcode 0x22 ''LD (#nn),HL'',
    new_Opcode 0x23 ''INC HL'',
    new_Opcode 0x24 ''INC H'',
    new_Opcode 0x25 ''DEC H'',
    new_Opcode 0x26 ''LD H,#n'',
    new_Opcode 0x27 ''DAA'',
    new_Opcode 0x28 ''JR Z,#n'',
    new_Opcode 0x29 ''ADD HL,HL'',
    new_Opcode 0x2A ''LD HL,(#nn)'',
    new_Opcode 0x2B ''DEC HL'',
    new_Opcode 0x2C ''INC L'',
    new_Opcode 0x2D ''DEC L'',
    new_Opcode 0x2E ''LD L,#n'',
    new_Opcode 0x2F ''CPL'',
    new_Opcode 0x30 ''JR NC,#n'',
    new_Opcode 0x31 ''LD SP,#nn'',
    new_Opcode 0x32 ''LD (#nn),A'',
    new_Opcode 0x33 ''INC SP'',
    new_Opcode 0x34 ''INC (HL)'',
    new_Opcode 0x35 ''DEC (HL)'',
    new_Opcode 0x36 ''LD (HL),#n'',
    new_Opcode 0x37 ''SCF'',
    new_Opcode 0x38 ''JR C,#n'',
    new_Opcode 0x39 ''ADD HL,SP'',
    new_Opcode 0x3A ''LD A,(#nn)'',
    new_Opcode 0x3B ''DEC SP'',
    new_Opcode 0x3C ''INC A'',
    new_Opcode 0x3D ''DEC A'',
    new_Opcode 0x3E ''LD A,#n'',
    new_Opcode 0x3F ''CCF'',
    new_Opcode 0x40 ''LD B,B'',
    new_Opcode 0x41 ''LD B,C'',
    new_Opcode 0x42 ''LD B,D'',
    new_Opcode 0x43 ''LD B,E'',
    new_Opcode 0x44 ''LD B,H'',
    new_Opcode 0x45 ''LD B,L'',
    new_Opcode 0x46 ''LD B,(HL)'',
    new_Opcode 0x47 ''LD B,A'',
    new_Opcode 0x48 ''LD C,B'',
    new_Opcode 0x49 ''LD C,C'',
    new_Opcode 0x4A ''LD C,D'',
    new_Opcode 0x4B ''LD C,E'',
    new_Opcode 0x4C ''LD C,H'',
    new_Opcode 0x4D ''LD C,L'',
    new_Opcode 0x4E ''LD C,(HL)'',
    new_Opcode 0x4F ''LD C,A'',
    new_Opcode 0x50 ''LD D,B'',
    new_Opcode 0x51 ''LD D,C'',
    new_Opcode 0x52 ''LD D,D'',
    new_Opcode 0x53 ''LD D,E'',
    new_Opcode 0x54 ''LD D,H'',
    new_Opcode 0x55 ''LD D,L'',
    new_Opcode 0x56 ''LD D,(HL)'',
    new_Opcode 0x57 ''LD D,A'',
    new_Opcode 0x58 ''LD E,B'',
    new_Opcode 0x59 ''LD E,C'',
    new_Opcode 0x5A ''LD E,D'',
    new_Opcode 0x5B ''LD E,E'',
    new_Opcode 0x5C ''LD E,H'',
    new_Opcode 0x5D ''LD E,L'',
    new_Opcode 0x5E ''LD E,(HL)'',
    new_Opcode 0x5F ''LD E,A'',
    new_Opcode 0x60 ''LD H,B'',
    new_Opcode 0x61 ''LD H,C'',
    new_Opcode 0x62 ''LD H,D'',
    new_Opcode 0x63 ''LD H,E'',
    new_Opcode 0x64 ''LD H,H'',
    new_Opcode 0x65 ''LD H,L'',
    new_Opcode 0x66 ''LD H,(HL)'',
    new_Opcode 0x67 ''LD H,A'',
    new_Opcode 0x68 ''LD L,B'',
    new_Opcode 0x69 ''LD L,C'',
    new_Opcode 0x6A ''LD L,D'',
    new_Opcode 0x6B ''LD L,E'',
    new_Opcode 0x6C ''LD L,H'',
    new_Opcode 0x6D ''LD L,L'',
    new_Opcode 0x6E ''LD L,(HL)'',
    new_Opcode 0x6F ''LD L,A'',
    new_Opcode 0x70 ''LD (HL),B'',
    new_Opcode 0x71 ''LD (HL),C'',
    new_Opcode 0x72 ''LD (HL),D'',
    new_Opcode 0x73 ''LD (HL),E'',
    new_Opcode 0x74 ''LD (HL),H'',
    new_Opcode 0x75 ''LD (HL),L'',
    new_Opcode 0x76 ''HALT'',
    new_Opcode 0x77 ''LD (HL),A'',
    new_Opcode 0x78 ''LD A,B'',
    new_Opcode 0x79 ''LD A,C'',
    new_Opcode 0x7A ''LD A,D'',
    new_Opcode 0x7B ''LD A,E'',
    new_Opcode 0x7C ''LD A,H'',
    new_Opcode 0x7D ''LD A,L'',
    new_Opcode 0x7E ''LD A,(HL)'',
    new_Opcode 0x7F ''LD A,A'',
    new_Opcode 0x80 ''ADD A,B'',
    new_Opcode 0x81 ''ADD A,C'',
    new_Opcode 0x82 ''ADD A,D'',
    new_Opcode 0x83 ''ADD A,E'',
    new_Opcode 0x84 ''ADD A,H'',
    new_Opcode 0x85 ''ADD A,L'',
    new_Opcode 0x86 ''ADD A,(HL)'',
    new_Opcode 0x87 ''ADD A,A'',
    new_Opcode 0x88 ''ADC A,B'',
    new_Opcode 0x89 ''ADC A,C'',
    new_Opcode 0x8A ''ADC A,D'',
    new_Opcode 0x8B ''ADC A,E'',
    new_Opcode 0x8C ''ADC A,H'',
    new_Opcode 0x8D ''ADC A,L'',
    new_Opcode 0x8E ''ADC A,(HL)'',
    new_Opcode 0x8F ''ADC A,A'',
    new_Opcode 0x90 ''SUB B'',
    new_Opcode 0x91 ''SUB C'',
    new_Opcode 0x92 ''SUB D'',
    new_Opcode 0x93 ''SUB E'',
    new_Opcode 0x94 ''SUB H'',
    new_Opcode 0x95 ''SUB L'',
    new_Opcode 0x96 ''SUB (HL)'',
    new_Opcode 0x97 ''SUB A'',
    new_Opcode 0x98 ''SBC A,B'',
    new_Opcode 0x99 ''SBC A,C'',
    new_Opcode 0x9A ''SBC A,D'',
    new_Opcode 0x9B ''SBC A,E'',
    new_Opcode 0x9C ''SBC A,H'',
    new_Opcode 0x9D ''SBC A,L'',
    new_Opcode 0x9E ''SBC A,(HL)'',
    new_Opcode 0x9F ''SBC A,A'',
    new_Opcode 0xA0 ''AND B'',
    new_Opcode 0xA1 ''AND C'',
    new_Opcode 0xA2 ''AND D'',
    new_Opcode 0xA3 ''AND E'',
    new_Opcode 0xA4 ''AND H'',
    new_Opcode 0xA5 ''AND L'',
    new_Opcode 0xA6 ''AND (HL)'',
    new_Opcode 0xA7 ''AND A'',
    new_Opcode 0xA8 ''XOR B'',
    new_Opcode 0xA9 ''XOR C'',
    new_Opcode 0xAA ''XOR D'',
    new_Opcode 0xAB ''XOR E'',
    new_Opcode 0xAC ''XOR H'',
    new_Opcode 0xAD ''XOR L'',
    new_Opcode 0xAE ''XOR (HL)'',
    new_Opcode 0xAF ''XOR A'',
    new_Opcode 0xB0 ''OR B'',
    new_Opcode 0xB1 ''OR C'',
    new_Opcode 0xB2 ''OR D'',
    new_Opcode 0xB3 ''OR E'',
    new_Opcode 0xB4 ''OR H'',
    new_Opcode 0xB5 ''OR L'',
    new_Opcode 0xB6 ''OR (HL)'',
    new_Opcode 0xB7 ''OR A'',
    new_Opcode 0xB8 ''CP B'',
    new_Opcode 0xB9 ''CP C'',
    new_Opcode 0xBA ''CP D'',
    new_Opcode 0xBB ''CP E'',
    new_Opcode 0xBC ''CP H'',
    new_Opcode 0xBD ''CP L'',
    new_Opcode 0xBE ''CP (HL)'',
    new_Opcode 0xBF ''CP A'',
    new_Opcode 0xC0 ''RET NZ'',
    new_Opcode 0xC1 ''POP BC'',
    new_Opcode 0xC2 ''JP NZ,#nn'',
    new_Opcode 0xC3 ''JP #nn'',
    new_Opcode 0xC4 ''CALL NZ,#nn'',
    new_Opcode 0xC5 ''PUSH BC'',
    new_Opcode 0xC6 ''ADD A,#n'',
    new_Opcode 0xC7 ''RST %s'',
    new_Opcode 0xC8 ''RET Z'',
    new_Opcode 0xC9 ''RET'',
    new_Opcode 0xCA ''JP Z,#nn'',
    new_OpcodeExtended 0xCB OpcodesCB,
    new_Opcode 0xCC ''CALL Z,#nn'',
    new_Opcode 0xCD ''CALL #nn'',
    new_Opcode 0xCE ''ADC A,#n'',
    new_Opcode 0xCF ''RST %s'',
    new_Opcode 0xD0 ''RET NC'',
    new_Opcode 0xD1 ''POP DE'',
    new_Opcode 0xD2 ''JP NC,#nn'',
    new_Opcode 0xD3 ''OUT (#n),A'',
    new_Opcode 0xD4 ''CALL NC,#nn'',
    new_Opcode 0xD5 ''PUSH DE'',
    new_Opcode 0xD6 ''SUB #n'',
    new_Opcode 0xD7 ''RST %s'',
    new_Opcode 0xD8 ''RET C'',
    new_Opcode 0xD9 ''EXX'',
    new_Opcode 0xDA ''JP C,#nn'',
    new_Opcode 0xDB ''IN A,(#n)'',
    new_Opcode 0xDC ''CALL C,#nn'',
    new_OpcodeExtended 0xDD OpcodesDD,
    new_Opcode 0xDE ''SBC A,#n'',
    new_Opcode 0xDF ''RST %s'',
    new_Opcode 0xE0 ''RET PO'',
    new_Opcode 0xE1 ''POP HL'',
    new_Opcode 0xE2 ''JP PO,#nn'',
    new_Opcode 0xE3 ''EX (SP),HL'',
    new_Opcode 0xE4 ''CALL PO,#nn'',
    new_Opcode 0xE5 ''PUSH HL'',
    new_Opcode 0xE6 ''AND #n'',
    new_Opcode 0xE7 ''RST %s'',
    new_Opcode 0xE8 ''RET PE'',
    new_Opcode 0xE9 ''JP (HL)'',
    new_Opcode 0xEA ''JP PE,#nn'',
    new_Opcode 0xEB ''EX DE,HL'',
    new_Opcode 0xEC ''CALL PE,#nn'',
    new_OpcodeExtended 0xED OpcodesED,
    new_Opcode 0xEE ''XOR #n'',
    new_Opcode 0xEF ''RST %s'',
    new_Opcode 0xF0 ''RET P'',
    new_Opcode 0xF1 ''POP AF'',
    new_Opcode 0xF2 ''JP P,#nn'',
    new_Opcode 0xF3 ''DI'',
    new_Opcode 0xF4 ''CALL P,#nn'',
    new_Opcode 0xF5 ''PUSH AF'',
    new_Opcode 0xF6 ''OR #n'',
    new_Opcode 0xF7 ''RST %s'',
    new_Opcode 0xF8 ''RET M'',
    new_Opcode 0xF9 ''LD SP,HL'',
    new_Opcode 0xFA ''JP M,#nn'',
    new_Opcode 0xFB ''EI'',
    new_Opcode 0xFC ''CALL M,#nn'',
    new_OpcodeExtended 0xFD OpcodesFD,
    new_Opcode 0xFE ''CP #n'',
    new_Opcode 0xFF ''RST %s''
   ]"

definition Opcodes :: OpcodeTable where
  "Opcodes = nth Opcodes_init"

subsection \<open>Decoding\<close>

definition signedByte :: "int \<Rightarrow> int" where
  \<comment> \<open>\<open>if (this.value >= 0x80) this.value -= 0x100\<close>\<close>
  "signedByte v = (if v \<ge> 0x80 then v - 0x100 else v)"

definition Opcode_getOpcodeAt :: "Opcode \<Rightarrow> 'a BaseMemory_scheme \<Rightarrow> int \<Rightarrow> Opcode" where
  \<comment> \<open>\<open>Opcode.prototype.getOpcodeAt\<close>: the terminal decoder of the classes that do not
      override it.\<close>
  "Opcode_getOpcodeAt this memory' address =
     (case valueType this of
        CODE_RST \<Rightarrow> this
      | NONE \<Rightarrow> this
      | CODE_LBL \<Rightarrow> this\<lparr>value_op := getWordValueAt memory' (address + 1)\<rparr>
      | CODE_SUB \<Rightarrow> this\<lparr>value_op := getWordValueAt memory' (address + 1)\<rparr>
      | DATA_LBL \<Rightarrow> this\<lparr>value_op := getWordValueAt memory' (address + 1)\<rparr>
      | NUMBER_WORD \<Rightarrow> this\<lparr>value_op := getWordValueAt memory' (address + 1)\<rparr>
      | NUMBER_WORD_BIG_ENDIAN \<Rightarrow>
          this\<lparr>value_op := getBigEndianWordValueAt memory' (address + 1)\<rparr>
      | RELATIVE_INDEX \<Rightarrow>
          this\<lparr>value_op := signedByte (getValueAt memory' (address + 1))\<rparr>
      | CODE_LOCAL_LBL \<Rightarrow>
          this\<lparr>value_op := signedByte (getValueAt memory' (address + 1)) + (address + 2)\<rparr>
      | CODE_LOCAL_LOOP \<Rightarrow>
          this\<lparr>value_op := signedByte (getValueAt memory' (address + 1)) + (address + 2)\<rparr>
      | NUMBER_BYTE \<Rightarrow> this\<lparr>value_op := getValueAt memory' (address + 1)\<rparr>
      | PORT_LBL \<Rightarrow> this\<lparr>value_op := getValueAt memory' (address + 1)\<rparr>)"

primrec getOpcodeAt_obj :: "OpcodeObj \<Rightarrow> 'a BaseMemory_scheme \<Rightarrow> int \<Rightarrow> Opcode" where
  \<comment> \<open>\<open>opcode.getOpcodeAt(memory, address)\<close>, dispatched on the class of the object\<close>
  "getOpcodeAt_obj (Obj_Opcode this) = Opcode_getOpcodeAt this"
| "getOpcodeAt_obj (Obj_OpcodeIndex this) = Opcode_getOpcodeAt this"
| "getOpcodeAt_obj (Obj_OpcodeNOP this) = Opcode_getOpcodeAt this"
| "getOpcodeAt_obj (Obj_OpcodeInvalid this) = Opcode_getOpcodeAt this"
| "getOpcodeAt_obj (Obj_OpcodePrevIndex this) =
     (\<lambda>memory' address. this\<lparr>value_op := signedByte (getValueAt memory' (address - 1))\<rparr>)"
| "getOpcodeAt_obj (Obj_OpcodeIndexImmediate this) =
     (\<lambda>memory' address.
        this\<lparr>value_op := signedByte (getValueAt memory' (address + 1)),
               secondValue := Some (getValueAt memory' (address + 2))\<rparr>)"
| "getOpcodeAt_obj (Obj_OpcodeExtended this opcodes) =
     (\<lambda>memory' address.
        getOpcodeAt_obj (opcodes (nat (getValueAt memory' (address + 1)))) memory' (address + 1))"
| "getOpcodeAt_obj (Obj_OpcodeExtended2 this opcodes) =
     (\<lambda>memory' address.
        getOpcodeAt_obj (opcodes (nat (getValueAt memory' (address + 2)))) memory' (address + 2))"

definition getOpcodeAt :: "'a BaseMemory_scheme \<Rightarrow> int \<Rightarrow> OpcodeTable \<Rightarrow> Opcode" where
  \<comment> \<open>\<open>static getOpcodeAt(memory, address, opcodes = Opcode.Opcodes)\<close>\<close>
  "getOpcodeAt memory' address opcodes =
     (let memValue = getValueAt memory' address;
          opcode = opcodes (nat memValue);
          realOpcode = getOpcodeAt_obj opcode memory' address
      in realOpcode)"

subsection \<open>Every decoded instruction has at least one byte\<close>

text \<open>
  Both passes of the flow-graph builder step through memory by the length of the decoded
  instruction and stop beyond 0xFFFF: they end because no instruction of the tables has a
  length below 1. (\<open>OpcodeNOP\<close> is created with length 0 and lives in the 0xDD table only,
  whose lengths are incremented.)
\<close>

lemmas js_string_defs =
  trim_def isWhiteSpace_def indexOf_def startsWith_def substring_def substring_from_def

lemma getValueAt_byte: "0 \<le> getValueAt memory' address \<and> getValueAt memory' address < 256"
proof -
  have "uint (memory memory' (address AND (MAX_MEM_SIZE - 1))) < 2 ^ LENGTH(8)"
    by (rule uint_bounded)
  then show ?thesis by (simp add: getValueAt_def)
qed

lemma Opcode_ctor_length: "1 \<le> length_op (Opcode_ctor code' name')"
  by (simp add: Opcode_ctor_def Let_def)

lemma Opcode_ctor_empty_length: "length_op (Opcode_ctor code' []) = 1"
  by (simp add: Opcode_ctor_def js_string_defs Let_def)

lemma Opcode_getOpcodeAt_length [simp]:
  "length_op (Opcode_getOpcodeAt this memory' address) = length_op this"
  by (simp add: Opcode_getOpcodeAt_def split: NumberType.splits)

primrec lengthOK :: "OpcodeObj \<Rightarrow> bool" where
  "lengthOK (Obj_Opcode this) = (1 \<le> length_op this)"
| "lengthOK (Obj_OpcodeIndex this) = (1 \<le> length_op this)"
| "lengthOK (Obj_OpcodePrevIndex this) = (1 \<le> length_op this)"
| "lengthOK (Obj_OpcodeIndexImmediate this) = (1 \<le> length_op this)"
| "lengthOK (Obj_OpcodeExtended this opcodes) = (\<forall>i<256. lengthOK (opcodes i))"
| "lengthOK (Obj_OpcodeExtended2 this opcodes) = (\<forall>i<256. lengthOK (opcodes i))"
| "lengthOK (Obj_OpcodeNOP this) = (1 \<le> length_op this)"
| "lengthOK (Obj_OpcodeInvalid this) = (1 \<le> length_op this)"

lemma lengthOK_getOpcodeAt_obj:
  "lengthOK opcode \<Longrightarrow> 1 \<le> length_op (getOpcodeAt_obj opcode memory' address)"
proof (induction opcode arbitrary: address)
  case (Obj_OpcodeExtended this opcodes)
  have "nat (getValueAt memory' (address + 1)) < 256"
    using getValueAt_byte[of memory' "address + 1"] by linarith
  with Obj_OpcodeExtended show ?case by (simp add: range_eqI)
next
  case (Obj_OpcodeExtended2 this opcodes)
  have "nat (getValueAt memory' (address + 2)) < 256"
    using getValueAt_byte[of memory' "address + 2"] by linarith
  with Obj_OpcodeExtended2 show ?case by (simp add: range_eqI)
qed simp_all

lemma lengthOK_new [simp]:
  "lengthOK (new_Opcode c n)"
  "lengthOK (fixLength (new_Opcode c n))"
  "lengthOK (fixLength (new_OpcodeIndex c n))"
  "lengthOK (fixLength (new_OpcodePrevIndex c n))"
  "lengthOK (fixLength (new_OpcodeIndexImmediate c n))"
  "lengthOK (fixLength (new_OpcodeNOP c))"
  "lengthOK (fixLength (new_OpcodeInvalid c))"
  "lengthOK (fixLength (new_OpcodeExtended2 c opcodes)) = (\<forall>i<256. lengthOK (opcodes i))"
  "lengthOK (new_OpcodeExtended c opcodes) = (\<forall>i<256. lengthOK (opcodes i))"
  "lengthOK (new_OpcodeExtended2 c opcodes) = (\<forall>i<256. lengthOK (opcodes i))"
  using Opcode_ctor_length[of c n] Opcode_ctor_empty_length[of c]
  by (simp_all add: fixLength_def new_Opcode_def new_OpcodeIndex_def new_OpcodePrevIndex_def
      new_OpcodeIndexImmediate_def new_OpcodeNOP_def new_OpcodeInvalid_def
      new_OpcodeExtended_def new_OpcodeExtended2_def OpcodeIndex_ctor_def
      OpcodePrevIndex_ctor_def OpcodeIndexImmediate_ctor_def OpcodeNOP_ctor_def
      OpcodeInvalid_ctor_def OpcodeExtended_ctor_def OpcodeExtended2_ctor_def Let_def)

lemma lengthOK_rename [simp]:
  "lengthOK (update_fields (\<lambda>opcode. opcode\<lparr>name := n\<rparr>) opcode) = lengthOK opcode"
  by (cases opcode) simp_all

lemma lengthOK_table:
  "length init = 256 \<Longrightarrow> list_all (\<lambda>opcode. lengthOK (f opcode)) init \<Longrightarrow>
     \<forall>i<256. lengthOK (nth (map f init) i)"
  by (simp add: list_all_length)

lemma OpcodesED_lengthOK: "\<forall>i<256. lengthOK (OpcodesED i)"
  unfolding OpcodesED_def
proof (rule lengthOK_table)
  show "length OpcodesED_init = 256" by (simp add: OpcodesED_init_def)
  show "list_all (\<lambda>opcode. lengthOK (fixLength opcode)) OpcodesED_init"
    by (auto simp add: OpcodesED_init_def list_all_iff)
qed

lemma OpcodesCB_lengthOK: "\<forall>i<256. lengthOK (OpcodesCB i)"
  unfolding OpcodesCB_def by (rule lengthOK_table) (simp_all add: OpcodesCB_init_def)

lemma OpcodesDDCB_lengthOK: "\<forall>i<256. lengthOK (OpcodesDDCB i)"
  unfolding OpcodesDDCB_def by (rule lengthOK_table) (simp_all add: OpcodesDDCB_init_def)

lemma OpcodesFDCB_lengthOK: "\<forall>i<256. lengthOK (OpcodesFDCB i)"
proof (intro allI impI)
  fix i :: nat assume i: "i < 256"
  have l: "length OpcodesDDCB_init = 256" by (simp add: OpcodesDDCB_init_def)
  from OpcodesDDCB_lengthOK i have "lengthOK (fixLength (OpcodesDDCB_init ! i))"
    by (simp add: OpcodesDDCB_def l)
  with i l show "lengthOK (OpcodesFDCB i)"
    by (simp add: OpcodesFDCB_def)
qed

lemma OpcodesDD_lengthOK: "\<forall>i<256. lengthOK (OpcodesDD i)"
  unfolding OpcodesDD_def
  by (rule lengthOK_table) (simp_all add: OpcodesDD_init_def OpcodesDDCB_lengthOK)

lemma OpcodesFD_lengthOK: "\<forall>i<256. lengthOK (OpcodesFD i)"
proof (intro allI impI)
  fix i :: nat assume i: "i < 256"
  have l: "length OpcodesDD_init = 256" by (simp add: OpcodesDD_init_def)
  from OpcodesDD_lengthOK i have "lengthOK (fixLength (OpcodesDD_init ! i))"
    by (simp add: OpcodesDD_def l)
  with i l show "lengthOK (OpcodesFD i)"
    by (simp add: OpcodesFD_def OpcodesFDCB_lengthOK)
qed

lemma Opcodes_lengthOK: "\<forall>i<256. lengthOK (Opcodes i)"
proof -
  have "length Opcodes_init = 256 \<and> list_all lengthOK Opcodes_init"
    by (simp add: Opcodes_init_def OpcodesED_lengthOK OpcodesCB_lengthOK OpcodesDD_lengthOK
        OpcodesFD_lengthOK)
  then show ?thesis by (simp add: Opcodes_def list_all_length)
qed

lemma opcode_length_pos: "1 \<le> length_op (getOpcodeAt memory' address Opcodes)"
proof -
  have "nat (getValueAt memory' address) < 256"
    using getValueAt_byte[of memory' address] by linarith
  with Opcodes_lengthOK show ?thesis
    by (simp add: getOpcodeAt_def lengthOK_getOpcodeAt_obj)
qed


section \<open>asmnode.ts and comments.ts\<close>

text \<open>
  A node object is identified by a reference: its position in the store of all node
  objects created during an analysis. Edges between nodes are lists of references, so two
  nodes with equal fields are still two objects, as in the program.
\<close>

type_synonym ref = nat

datatype Instruction =
    Instr Opcode
  | SkipPseudoOpcode "8 word list"

record AsmNode =
  start :: int
  length_node :: int
  label :: "string option"
  instructions :: "Instruction list"
  callers :: "ref list"
  predecessors :: "ref list"
  callee :: "ref option"
  branchNodes :: "ref list"
  dataReferences :: "int list"
  isSubroutine :: bool
  stop :: bool

definition AsmNode_new :: "int \<Rightarrow> AsmNode" where
  \<comment> \<open>Modelled from the spec: \<open>class AsmNode\<close> is not part of the sources at hand. Its
      fields are those the spec lists for a node and the disassembler reads and writes;
      a new node has no edges, no label, length 0 and both flags unset. \<open>start\<close> is assigned
      right after \<open>new AsmNode()\<close> at both places that create a node.\<close>
  "AsmNode_new start' =
     \<lparr>start = start', length_node = 0, label = None, instructions = [], callers = [],
      predecessors = [], callee = None, branchNodes = [], dataReferences = [],
      isSubroutine = False, stop = False\<rparr>"

definition isSet :: "string option \<Rightarrow> bool" where
  \<comment> \<open>the truth value of a \<open>string | undefined\<close>: \<open>undefined\<close> and \<open>""\<close> are false\<close>
  "isSet l = (case l of None \<Rightarrow> False | Some s \<Rightarrow> s \<noteq> [])"

type_synonym Comments = "int \<rightharpoonup> string list"

definition addCommentForAddress :: "int \<Rightarrow> string \<Rightarrow> Comments \<Rightarrow> Comments" where
  "addCommentForAddress addr64k comment addrComments =
     (let lines = (case addrComments addr64k of None \<Rightarrow> [] | Some lines \<Rightarrow> lines)
      in addrComments(addr64k \<mapsto> lines @ [comment]))"

definition addAmbiguousComment :: "int \<Rightarrow> int \<Rightarrow> Comments \<Rightarrow> Comments" where
  "addAmbiguousComment originAddress targetAddress =
     addCommentForAddress originAddress
       (''The disassembly is ambiguous at '' @ getHexFormattedString targetAddress 4 @ ''.'')"

definition addBranchToUnassignedMemory :: "int \<Rightarrow> int \<Rightarrow> Comments \<Rightarrow> Comments" where
  "addBranchToUnassignedMemory originAddress targetAddress =
     addCommentForAddress originAddress
       (''The disassembly branches into unassigned memory at ''
          @ getHexFormattedString targetAddress 4 @ ''.'')"


section \<open>smartdisassembler.ts\<close>

text \<open>
  The state of \<open>class SmartDisassembler\<close>. \<open>nodes\<close> is the \<open>Map\<close> from addresses to nodes, in
  insertion order (the order in which the loops over the map visit it); \<open>store\<close> holds the
  node objects, among them the nodes that \<open>getNodeForFill\<close> creates without entering them
  into the map. The passes are functions of the parts of the state they work on.
\<close>

record Graph =
  nodes :: "(int \<times> ref) list"
  store :: "AsmNode list"
  comments :: Comments
  otherLabels :: "int \<rightharpoonup> string"

text \<open>
  \<open>blocks\<close> is an array of 0x10000 nodes. \<open>getFlowGraph\<close> clears the map of nodes but not
  this array, so an element can still be a node of an earlier analysis. Such a node is no
  longer in the store: it is different from every node created later, and all that can be
  read of it is its label (\<open>OldNode\<close>).
\<close>

datatype BlockEntry =
    NoBlock
  | OldNode "string option"
  | BlockNode ref

type_synonym Blocks = "int \<Rightarrow> BlockEntry"

record SmartDisassembler =
  mem :: Memory
  graph :: Graph
  blocks :: Blocks
  funcGetLabel :: "int \<Rightarrow> string option"

datatype error = AssertionError

definition labelSubPrefix :: string where "labelSubPrefix = ''SUB_''"
definition labelLblPrefix :: string where "labelLblPrefix = ''LBL_''"
definition labelRstPrefix :: string where "labelRstPrefix = ''RST_''"
definition labelDataLblPrefix :: string where "labelDataLblPrefix = ''DATA_''"
definition labelCodePrefix :: string where "labelCodePrefix = ''CODE_''"
definition labelLocalLabelPrefix :: string where "labelLocalLabelPrefix = ''L''"
definition labelLocalLoopPrefix :: string where "labelLocalLoopPrefix = ''LOOP''"

definition modify :: "ref \<Rightarrow> (AsmNode \<Rightarrow> AsmNode) \<Rightarrow> Graph \<Rightarrow> Graph" where
  \<comment> \<open>an assignment to fields of the node object \<open>r\<close>\<close>
  "modify r f g = g\<lparr>store := (store g)[r := f (store g ! r)]\<rparr>"

definition blocks_get :: "Blocks \<Rightarrow> int \<Rightarrow> BlockEntry" where
  \<comment> \<open>\<open>this.blocks[addr]\<close>: \<open>undefined\<close> outside the array\<close>
  "blocks_get B addr = (if 0 \<le> addr \<and> addr < 0x10000 then B addr else NoBlock)"

definition Array_fill :: "BlockEntry \<Rightarrow> int \<Rightarrow> int \<Rightarrow> Blocks \<Rightarrow> Blocks" where
  \<comment> \<open>\<open>Array.prototype.fill(value, start, end)\<close> on an array of length 0x10000\<close>
  "Array_fill v start' end' B =
     (let len = 0x10000;
          k = (if start' < 0 then max (len + start') 0 else min start' len);
          final = (if end' < 0 then max (len + end') 0 else min end' len)
      in (\<lambda>a. if k \<le> a \<and> a < final then v else B a))"

subsection \<open>Pass 1: \<open>createNodes\<close>\<close>

definition createNodeInMap :: "int \<Rightarrow> Graph \<Rightarrow> ref \<times> Graph" where
  "createNodeInMap addr64k g =
     (let node = length (store g)
      in (node, g\<lparr>store := store g @ [AsmNode_new addr64k],
                   nodes := AList.update addr64k node (nodes g)\<rparr>))"

definition skipAddrs64k :: "int \<rightharpoonup> int" where
  \<comment> \<open>\<open>protected skipAddrs64k = new Map<number, number>()\<close>: nothing in the class enters
      an address into it.\<close>
  "skipAddrs64k = Map.empty"

definition getSkipForAddress :: "int \<Rightarrow> int option" where
  "getSkipForAddress addr64k = skipAddrs64k addr64k"

function skipReturnAddress :: "int \<Rightarrow> int" where
  \<comment> \<open>\<open>while ((skip = this.getSkipForAddress(addr64k))) addr64k = (addr64k + skip) & 0xFFFF\<close>\<close>
  "skipReturnAddress addr64k =
     (case getSkipForAddress addr64k of
        None \<Rightarrow> addr64k
      | Some skip \<Rightarrow>
          if skip = 0 then addr64k else skipReturnAddress ((addr64k + skip) AND 0xFFFF))"
  by pat_completeness auto
termination
  by (relation "{}") (simp_all add: getSkipForAddress_def skipAddrs64k_def)

function createNodeForAddress_walk ::
  "int \<Rightarrow> Memory \<Rightarrow> Comments \<Rightarrow> Memory \<times> Comments \<times> int list" where
  \<comment> \<open>The inner \<open>while (true)\<close> of \<open>createNodeForAddress\<close>, from the instruction at
      \<open>addr64k\<close>. The result carries the addresses pushed to \<open>allBranchAddresses\<close>.\<close>
  "createNodeForAddress_walk addr64k memory' comments' =
     (let refOpcode = getOpcodeAt memory' addr64k Opcodes;
          flowAddr = searchAddrWithAttribute memory' FLOW_ANALYZED (addr64k + 1)
                       (length_op refOpcode - 1);
          memory' = addAttributesAt addr64k (length_op refOpcode) (FLOW_ANALYZED OR CODE) memory';
          memory' = addAttributeAt addr64k CODE_FIRST memory'
      in case flowAddr of
           Some flowAddr \<Rightarrow> (memory', addAmbiguousComment addr64k flowAddr comments', [])
         | None \<Rightarrow>
            (let next = addr64k + length_op refOpcode;
                 memAttrNext = getAttributeAt memory' next;
                 flags' = flags refOpcode
             in if flags' AND BRANCH_ADDRESS \<noteq> 0 then
                  (let branchAddress = value_op refOpcode
                   in (memory', comments',
                       (if flags' AND STOP = 0 then [skipReturnAddress next] else [])
                         @ [branchAddress]))
                else if next > 0xFFFF then (memory', comments', [])
                else if flags' AND RET \<noteq> 0 \<and> flags' AND CONDITIONAL \<noteq> 0
                  then (memory', comments', [next])
                else if memAttrNext AND FLOW_ANALYZED \<noteq> 0 then (memory', comments', [])
                else if flags' AND STOP \<noteq> 0 then (memory', comments', [])
                else createNodeForAddress_walk next memory' comments'))"
  by pat_completeness auto
termination
  apply (relation "measure (\<lambda>(addr64k, memory', comments'). nat (0x10000 - addr64k))")
   apply simp
  subgoal for addr64k memory' comments'
    using opcode_length_pos[of memory' addr64k] by simp
  done

declare skipReturnAddress.simps [simp del]
declare createNodeForAddress_walk.simps [simp del]

definition unmapped :: "Graph \<Rightarrow> nat" where
  \<comment> \<open>the number of addresses that have no node yet: what bounds the work list\<close>
  "unmapped g = card {a. 0 \<le> a \<and> a < 0x10000 \<and> map_of (nodes g) a = None}"

lemma unmapped_createNodeInMap_le: "unmapped (snd (createNodeInMap addr64k g)) \<le> unmapped g"
proof -
  have "{a. 0 \<le> a \<and> a < 0x10000 \<and> ((map_of (nodes g))(addr64k \<mapsto> length (store g))) a = None}
          \<subseteq> {a. 0 \<le> a \<and> a < 0x10000 \<and> map_of (nodes g) a = None}"
    by auto
  moreover have "finite {a::int. 0 \<le> a \<and> a < 0x10000 \<and> map_of (nodes g) a = None}"
    by (rule finite_subset[of _ "{0..<0x10000}"]) auto
  ultimately show ?thesis
    unfolding unmapped_def createNodeInMap_def Let_def
    by (simp add: update_conv card_mono del: fun_upd_apply)
qed

lemma unmapped_createNodeInMap_less:
  assumes "0 \<le> addr64k" "addr64k < 0x10000" "map_of (nodes g) addr64k = None"
  shows "unmapped (snd (createNodeInMap addr64k g)) < unmapped g"
proof -
  have "{a. 0 \<le> a \<and> a < 0x10000 \<and> ((map_of (nodes g))(addr64k \<mapsto> length (store g))) a = None}
          \<subset> {a. 0 \<le> a \<and> a < 0x10000 \<and> map_of (nodes g) a = None}"
    using assms by auto
  moreover have "finite {a::int. 0 \<le> a \<and> a < 0x10000 \<and> map_of (nodes g) a = None}"
    by (rule finite_subset[of _ "{0..<0x10000}"]) auto
  ultimately show ?thesis
    unfolding unmapped_def createNodeInMap_def Let_def
    by (simp add: update_conv psubset_card_mono del: fun_upd_apply)
qed

lemma getAttributeAt_in_range:
  "getAttributeAt memory' address AND attr \<noteq> 0 \<Longrightarrow> 0 \<le> address \<and> address < 0x10000"
  by (simp add: getAttributeAt_def split: if_splits)

lemma unmapped_comments [simp]: "unmapped (g\<lparr>comments := c\<rparr>) = unmapped g"
  by (simp add: unmapped_def)

lemma unmapped_createNodeInMap_assigned:
  "map_of (nodes g) addr64k = None \<Longrightarrow> getAttributeAt memory' addr64k AND attr \<noteq> 0 \<Longrightarrow>
     unmapped (snd (createNodeInMap addr64k g)) < unmapped g"
  using getAttributeAt_in_range[of memory' addr64k attr]
  by (intro unmapped_createNodeInMap_less) simp_all

function createNodeForAddress_loop :: "int list \<Rightarrow> Memory \<Rightarrow> Graph \<Rightarrow> Memory \<times> Graph" where
  \<comment> \<open>The loop over \<open>allBranchAddresses\<close>, of which the first argument is the part from
      index \<open>i\<close> on; the addresses pushed meanwhile are appended to it.\<close>
  "createNodeForAddress_loop [] memory' g = (memory', g)"
| "createNodeForAddress_loop (addr64k # rest) memory' g =
     (if map_of (nodes g) addr64k \<noteq> None then createNodeForAddress_loop rest memory' g
      else
        (let memAttr = getAttributeAt memory' addr64k
         in if memAttr AND FLOW_ANALYZED \<noteq> 0 then
              (if memAttr AND CODE_FIRST \<noteq> 0
               then createNodeForAddress_loop rest memory' (snd (createNodeInMap addr64k g))
               else createNodeForAddress_loop rest memory'
                      (g\<lparr>comments := addAmbiguousComment addr64k addr64k (comments g)\<rparr>))
            else if memAttr AND ASSIGNED = 0 then createNodeForAddress_loop rest memory' g
            else
              (let g = snd (createNodeInMap addr64k g);
                   walked = createNodeForAddress_walk addr64k memory' (comments g)
               in createNodeForAddress_loop (rest @ snd (snd walked)) (fst walked)
                    (g\<lparr>comments := fst (snd walked)\<rparr>))))"
  by pat_completeness auto
termination
  apply (relation "(\<lambda>(q, memory', g). unmapped g) <*mlex*> measure (\<lambda>(q, memory', g). length q)")
       apply (simp add: wf_mlex)
      apply (simp add: mlex_iff)
     apply (simp add: mlex_iff unmapped_createNodeInMap_assigned)
    apply (simp add: mlex_iff)
   apply (simp add: mlex_iff)
  apply (simp add: mlex_iff unmapped_createNodeInMap_assigned)
  done

definition createNodeForAddress :: "int \<Rightarrow> Memory \<Rightarrow> Graph \<Rightarrow> Memory \<times> Graph" where
  "createNodeForAddress address64k memory' g = createNodeForAddress_loop [address64k] memory' g"

definition createNodes_step :: "int \<Rightarrow> Memory \<times> Graph \<Rightarrow> Memory \<times> Graph" where
  \<comment> \<open>the body of the loop over the sorted addresses\<close>
  "createNodes_step addr64k = (\<lambda>(memory', g).
     let memAttr = getAttributeAt memory' addr64k
     in if memAttr AND FLOW_ANALYZED \<noteq> 0 then
          (if memAttr AND CODE_FIRST = 0
           then (memory', g\<lparr>comments := addAmbiguousComment addr64k addr64k (comments g)\<rparr>)
           else (memory', g))
        else createNodeForAddress addr64k memory' g)"

definition createNodes :: "int list \<Rightarrow> Memory \<Rightarrow> Graph \<Rightarrow> Memory \<times> Graph" where
  "createNodes addresses memory' g =
     (let sortedAdresses = sort addresses
      in fold createNodes_step sortedAdresses (memory', g))"

subsection \<open>Pass 1b: \<open>createNodesForLabels\<close>\<close>

type_synonym AddressLabel = "int \<times> string"

definition createNodesForLabels :: "AddressLabel list \<Rightarrow> Memory \<Rightarrow> Graph \<Rightarrow> Graph" where
  "createNodesForLabels addr64kLabels memory' g =
     fold (\<lambda>(addr64k, label') g.
        let attr = getAttributeAt memory' addr64k
        in if attr AND CODE_FIRST \<noteq> 0 then
             (case (case map_of (nodes g) addr64k of
                      None \<Rightarrow> createNodeInMap addr64k g
                    | Some node \<Rightarrow> (node, g)) of
                (node, g) \<Rightarrow> modify node (\<lambda>n. n\<lparr>label := Some label'\<rparr>) g)
           else g\<lparr>otherLabels := (otherLabels g)(addr64k \<mapsto> label')\<rparr>)
       addr64kLabels g"

subsection \<open>Pass 2: \<open>fillNodes\<close>\<close>

function getAddressForCodeFirst :: "Memory \<Rightarrow> int \<Rightarrow> int option" where
  \<comment> \<open>The loop steps down until it meets \<open>CODE_FIRST\<close>. \<open>getAttributeAt\<close> is 0 at every
      negative address, so once there the loop cannot end: the result \<open>None\<close> stands for a
      call that does not return.\<close>
  "getAddressForCodeFirst memory' addr64k =
     (let attr = getAttributeAt memory' addr64k
      in if attr AND CODE_FIRST \<noteq> 0 then Some addr64k
         else if addr64k < 0 then None
         else getAddressForCodeFirst memory' (addr64k - 1))"
  by pat_completeness auto
termination
  by (relation "measure (\<lambda>(memory', addr64k). nat (addr64k + 1))") simp_all

declare getAddressForCodeFirst.simps [simp del]

definition getData :: "'a BaseMemory_scheme \<Rightarrow> int \<Rightarrow> int \<Rightarrow> 8 word list" where
  \<comment> \<open>Modelled from the spec: \<open>BaseMemory.getData\<close> is not part of the sources at hand; the
      \<open>size\<close> bytes from \<open>addr64k\<close> on.\<close>
  "getData this addr64k size' =
     map (\<lambda>i. memory this ((addr64k + int i) AND (MAX_MEM_SIZE - 1))) [0..<nat size']"

function skipInstructions ::
  "Memory \<Rightarrow> int \<Rightarrow> Instruction list \<Rightarrow> int \<times> Instruction list" where
  \<comment> \<open>the \<open>while ((skip = this.getSkipForAddress(addr64k)))\<close> of \<open>fillNode\<close>\<close>
  "skipInstructions memory' addr64k instructions' =
     (case getSkipForAddress addr64k of
        None \<Rightarrow> (addr64k, instructions')
      | Some skip \<Rightarrow>
          if skip = 0 then (addr64k, instructions')
          else
            (let data = getData memory' addr64k skip;
                 skipOpcode = SkipPseudoOpcode data
             in skipInstructions memory' (addr64k + skip) (instructions' @ [skipOpcode])))"
  by pat_completeness auto
termination
  by (relation "{}") (simp_all add: getSkipForAddress_def skipAddrs64k_def)

declare skipInstructions.simps [simp del]

definition getNodeForFill :: "Memory \<Rightarrow> int \<Rightarrow> int \<Rightarrow> Graph \<Rightarrow> ref \<times> Graph" where
  "getNodeForFill memory' originAddress targetAddress g =
     (case map_of (nodes g) targetAddress of
        Some otherNode \<Rightarrow> (otherNode, g)
      | None \<Rightarrow>
          (let otherNode = length (store g);
               g = g\<lparr>store := store g @ [AsmNode_new targetAddress]\<rparr>;
               attr = getAttributeAt memory' targetAddress
           in if attr AND ASSIGNED \<noteq> 0
              then (otherNode,
                    g\<lparr>comments := addAmbiguousComment originAddress targetAddress (comments g)\<rparr>)
              else (otherNode,
                    g\<lparr>comments :=
                        addBranchToUnassignedMemory originAddress targetAddress (comments g)\<rparr>)))"

definition connect :: "ref \<Rightarrow> ref \<Rightarrow> Graph \<Rightarrow> Graph" where
  \<comment> \<open>\<open>node.branchNodes.push(other); other.predecessors.push(node)\<close>\<close>
  "connect node other g =
     modify other (\<lambda>n. n\<lparr>predecessors := predecessors n @ [node]\<rparr>)
       (modify node (\<lambda>n. n\<lparr>branchNodes := branchNodes n @ [other]\<rparr>) g)"

definition call :: "ref \<Rightarrow> ref \<Rightarrow> Graph \<Rightarrow> Graph" where
  \<comment> \<open>\<open>node.callee = branchNode; branchNode.callers.push(node)\<close>\<close>
  "call node branchNode g =
     modify branchNode (\<lambda>n. n\<lparr>callers := callers n @ [node]\<rparr>)
       (modify node (\<lambda>n. n\<lparr>callee := Some branchNode\<rparr>) g)"

function fillNode_loop :: "Memory \<Rightarrow> ref \<Rightarrow> int \<Rightarrow> Graph \<Rightarrow> (int \<times> Graph) option" where
  \<comment> \<open>The \<open>while (true)\<close> of \<open>fillNode\<close>, from the instruction at \<open>addr64k\<close>; the result is the
      address reached and the graph.\<close>
  "fillNode_loop memory' node addr64k g =
     (let refOpcode = getOpcodeAt memory' addr64k Opcodes;
          opcode = refOpcode
      in case (if valueType opcode = DATA_LBL then
                 (let adjAddr64k = value_op opcode;
                      attr = getAttributeAt memory' adjAddr64k
                  in if attr AND CODE \<noteq> 0
                     then map_option Some (getAddressForCodeFirst memory' adjAddr64k)
                     else Some (Some adjAddr64k))
               else Some None) of
           None \<Rightarrow> None
         | Some dataReference \<Rightarrow>
            (let g = (case dataReference of
                        Some adjAddr64k \<Rightarrow>
                          modify node (\<lambda>n. n\<lparr>dataReferences := dataReferences n @ [adjAddr64k]\<rparr>) g
                      | None \<Rightarrow> g);
                 g = modify node (\<lambda>n. n\<lparr>instructions := instructions n @ [Instr opcode]\<rparr>) g;
                 lastAddr64k = addr64k;
                 next = addr64k + length_op opcode;
                 flags' = flags opcode
             in if flags' AND BRANCH_ADDRESS \<noteq> 0 then
                  (let branchAddress = value_op opcode
                   in case (if flags' AND STOP = 0 then
                              (case skipInstructions memory' next (instructions (store g ! node)) of
                                 (next, instructions') \<Rightarrow>
                                   (let g = modify node (\<lambda>n. n\<lparr>instructions := instructions'\<rparr>) g
                                    in if next < 0x10000 then
                                         (case getNodeForFill memory' lastAddr64k (next AND 0xFFFF) g of
                                            (followingNode, g) \<Rightarrow> (next, connect node followingNode g))
                                       else (next, g)))
                            else (next, g)) of
                        (next, g) \<Rightarrow>
                          (case getNodeForFill memory' lastAddr64k branchAddress g of
                             (branchNode, g) \<Rightarrow>
                               (let g = (if flags' AND CALL \<noteq> 0 then call node branchNode g
                                         else connect node branchNode g);
                                    g = (if flags' AND STOP \<noteq> 0
                                         then modify node (\<lambda>n. n\<lparr>stop := True\<rparr>) g else g)
                                in Some (next, g))))
                else
                  (let g = (if flags' AND RET \<noteq> 0
                            then modify node (\<lambda>n. n\<lparr>isSubroutine := True\<rparr>) g else g)
                   in if flags' AND STOP \<noteq> 0
                        then Some (next, modify node (\<lambda>n. n\<lparr>stop := True\<rparr>) g)
                      else if next > 0xFFFF then Some (next, g)
                      else
                        (case map_of (nodes g) next of
                           Some followingNode \<Rightarrow> Some (next, connect node followingNode g)
                         | None \<Rightarrow>
                             (case searchAddrWithAttribute memory' CODE_FIRST (lastAddr64k + 1)
                                     (length_op opcode - 1) of
                                Some flowAddr \<Rightarrow> Some (next, g)
                              | None \<Rightarrow> fillNode_loop memory' node next g)))))"
  by pat_completeness auto
termination
  apply (relation "measure (\<lambda>(memory', node, addr64k, g). nat (0x10000 - addr64k))")
   apply simp
  subgoal for memory' node addr64k g
    using opcode_length_pos[of memory' addr64k] by simp
  done

declare fillNode_loop.simps [simp del]

definition fillNode :: "Memory \<Rightarrow> ref \<Rightarrow> Graph \<Rightarrow> Graph option" where
  "fillNode memory' node g =
     (case fillNode_loop memory' node (start (store g ! node)) g of
        None \<Rightarrow> None
      | Some (addr64k, g) \<Rightarrow>
          Some (modify node (\<lambda>n. n\<lparr>length_node := addr64k - start n\<rparr>) g))"

definition fillNodes :: "Memory \<Rightarrow> Graph \<Rightarrow> Graph option" where
  "fillNodes memory' g =
     fold (\<lambda>(addr64k, node) result.
             case result of None \<Rightarrow> None | Some g \<Rightarrow> fillNode memory' node g)
       (nodes g) (Some g)"

subsection \<open>\<open>markSubroutines\<close>\<close>

definition unmarked :: "AsmNode list \<Rightarrow> nat" where
  "unmarked st = card {i. i < length st \<and> \<not> isSubroutine (st ! i)}"

function markPredecessors_loop :: "ref list \<Rightarrow> AsmNode list \<Rightarrow> AsmNode list" where
  \<comment> \<open>Modelled from the spec: \<open>AsmNode.markPredecessorsAsSubroutine\<close> is not part of the
      sources at hand. The spec has the flag propagated to every transitive predecessor,
      with an explicit work list; a node that carries the flag already is not entered
      again. (A reference is always to a node of the store: the test against its length
      only bounds the model.)\<close>
  "markPredecessors_loop [] st = st"
| "markPredecessors_loop (r # rs) st =
     (if r < length st \<and> \<not> isSubroutine (st ! r)
      then markPredecessors_loop (predecessors (st ! r) @ rs)
             (st[r := (st ! r)\<lparr>isSubroutine := True\<rparr>])
      else markPredecessors_loop rs st)"
  by pat_completeness auto
termination
proof (relation "(\<lambda>(q, st). unmarked st) <*mlex*> measure (\<lambda>(q, st). length q)", goal_cases)
  case 1
  show ?case by (simp add: wf_mlex)
next
  case (2 r rs st)
  let ?st = "st[r := (st ! r)\<lparr>isSubroutine := True\<rparr>]"
  have "{i. i < length ?st \<and> \<not> isSubroutine (?st ! i)}
          \<subset> {i. i < length st \<and> \<not> isSubroutine (st ! i)}"
    using 2 by (auto simp add: nth_list_update)
  then have "unmarked ?st < unmarked st"
    unfolding unmarked_def by (intro psubset_card_mono) simp_all
  then show ?case by (simp add: mlex_iff)
next
  case (3 r rs st)
  show ?case by (simp add: mlex_iff)
qed

declare markPredecessors_loop.simps [simp del]

definition markPredecessorsAsSubroutine :: "ref \<Rightarrow> Graph \<Rightarrow> Graph" where
  "markPredecessorsAsSubroutine node g = g\<lparr>store := markPredecessors_loop [node] (store g)\<rparr>"

definition markSubroutines_step :: "int \<times> ref \<Rightarrow> Graph \<Rightarrow> Graph" where
  \<comment> \<open>the body of the loop over the node table\<close>
  "markSubroutines_step = (\<lambda>(addr64k, node) g.
     if isSubroutine (store g ! node)
     then fold markPredecessorsAsSubroutine (predecessors (store g ! node)) g
     else if callers (store g ! node) \<noteq> []
       then modify node (\<lambda>n. n\<lparr>isSubroutine := True\<rparr>) g
     else g)"

definition markSubroutines :: "Graph \<Rightarrow> Graph" where
  "markSubroutines g = fold markSubroutines_step (nodes g) g"

subsection \<open>\<open>partitionBlocks\<close>\<close>

definition unvisited :: "AsmNode list \<Rightarrow> ref list \<Rightarrow> nat" where
  "unvisited st branches = card {i. i < length st \<and> i \<notin> set branches}"

function getBranches_loop :: "AsmNode list \<Rightarrow> ref list \<Rightarrow> ref list \<Rightarrow> ref list" where
  \<comment> \<open>Modelled from the spec: \<open>AsmNode.getBranchesRecursive\<close> is not part of the sources at
      hand. It collects the branch closure of a node: the nodes reached over \<open>branchNodes\<close>
      edges, each once.\<close>
  "getBranches_loop st [] branches = branches"
| "getBranches_loop st (b # todo) branches =
     (if b < length st \<and> b \<notin> set branches
      then getBranches_loop st (branchNodes (st ! b) @ todo) (branches @ [b])
      else getBranches_loop st todo branches)"
  by pat_completeness auto
termination
proof (relation "(\<lambda>(st, todo, branches). unvisited st branches)
          <*mlex*> measure (\<lambda>(st, todo, branches). length todo)", goal_cases)
  case 1
  show ?case by (simp add: wf_mlex)
next
  case (2 st b todo branches)
  have "{i. i < length st \<and> i \<notin> set (branches @ [b])}
          \<subset> {i. i < length st \<and> i \<notin> set branches}"
    using 2 by auto
  then have "unvisited st (branches @ [b]) < unvisited st branches"
    unfolding unvisited_def by (intro psubset_card_mono) simp_all
  then show ?case by (simp add: mlex_iff)
next
  case (3 st b todo branches)
  show ?case by (simp add: mlex_iff)
qed

definition getBranchesRecursive :: "AsmNode list \<Rightarrow> ref \<Rightarrow> ref list" where
  "getBranchesRecursive st node = getBranches_loop st (branchNodes (st ! node)) []"

definition blockEntry :: "ref option \<Rightarrow> BlockEntry" where
  "blockEntry blockNode = (case blockNode of None \<Rightarrow> NoBlock | Some r \<Rightarrow> BlockNode r)"

definition partitionBlocks_step ::
  "AsmNode list \<Rightarrow> ref \<Rightarrow> ref option \<times> ref list \<times> int option \<times> Blocks
     \<Rightarrow> ref option \<times> ref list \<times> int option \<times> Blocks" where
  \<comment> \<open>The body of the loop over the sorted nodes. After the test for a block start, \<open>addr\<close>
      is \<open>node.start\<close> on either branch.\<close>
  "partitionBlocks_step st node = (\<lambda>(blockNode, blockBranches, addr, B).
     let n = st ! node;
         blockStart = (Some (start n) \<noteq> addr \<or> callers n \<noteq> [] \<or> node \<notin> set blockBranches);
         blockNode = (if blockStart then Some node else blockNode);
         blockBranches = (if blockStart then getBranchesRecursive st node else blockBranches);
         addr = start n;
         B = Array_fill (blockEntry blockNode) addr (addr + length_node n) B
     in (blockNode, blockBranches, Some (addr + length_node n), B))"

definition partitionBlocks :: "Graph \<Rightarrow> Blocks \<Rightarrow> Blocks" where
  "partitionBlocks g B =
     (let sortedNodes = sort_key (\<lambda>node. start (store g ! node)) (map snd (nodes g))
      in snd (snd (snd (fold (partitionBlocks_step (store g)) sortedNodes (None, [], None, B)))))"

subsection \<open>\<open>assignNodeLabels\<close>\<close>

definition otherReference :: "Graph \<Rightarrow> ref \<Rightarrow> bool" where
  \<comment> \<open>Modelled from the spec: \<open>AsmNode.otherReference\<close> is not part of the sources at hand.
      The spec: the node is reached by an edge that is not simple top-down fallthrough
      (a call, or a branch from a node that does not end where this one starts).\<close>
  "otherReference g node =
     (let n = store g ! node
      in callers n \<noteq> []
         \<or> list_ex (\<lambda>p. start (store g ! p) + length_node (store g ! p) \<noteq> start n)
              (predecessors n))"

definition isLoopRoot :: "Blocks \<Rightarrow> Graph \<Rightarrow> ref \<Rightarrow> bool" where
  \<comment> \<open>Modelled from the spec: \<open>AsmNode.isLoopRoot\<close> is not part of the sources at hand. The
      spec: the node is reached via a backward edge inside the same block.\<close>
  "isLoopRoot B g node =
     (let n = store g ! node
      in list_ex (\<lambda>p. start (store g ! p) \<ge> start n
                       \<and> blocks_get B (start (store g ! p)) = blocks_get B (start n))
           (predecessors n))"

function decimal :: "nat \<Rightarrow> string" where
  \<comment> \<open>a number in a string concatenation\<close>
  "decimal n = (if n < 10 then [hexDigit n] else decimal (n div 10) @ [hexDigit (n mod 10)])"
  by pat_completeness auto
termination
  by (relation "measure id") simp_all

declare decimal.simps [simp del]

partial_function (option) assignLocalLabels_loop ::
  "Blocks \<Rightarrow> Graph \<Rightarrow> ref \<Rightarrow> ref list \<Rightarrow> ref list \<Rightarrow> int \<Rightarrow> ref
     \<Rightarrow> (error + ref list \<times> ref list) option" where
  \<comment> \<open>The \<open>while (addr < 0x10000)\<close> of \<open>assignLocalLabels\<close>, which collects \<open>localNodes\<close> and
      \<open>loopNodes\<close>. A failed \<open>Utility.assert\<close> is the error; \<open>None\<close> is a loop that does
      not end.\<close>
  "assignLocalLabels_loop B g node localNodes loopNodes addr blockNode =
     (if addr < 0x10000 then
        (let found =
               (if otherReference g blockNode \<and> \<not> isSet (label (store g ! blockNode))
                then (if isLoopRoot B g blockNode
                      then (localNodes, loopNodes @ [blockNode])
                      else (localNodes @ [blockNode], loopNodes))
                else (localNodes, loopNodes))
         in if addr \<noteq> start (store g ! blockNode) then Some (Inl AssertionError)
            else
              (let addr = addr + length_node (store g ! blockNode)
               in if blocks_get B addr \<noteq> BlockNode node then Some (Inr found)
                  else
                    (case map_of (nodes g) addr of
                       None \<Rightarrow> Some (Inl AssertionError)
                     | Some blockNode \<Rightarrow>
                         assignLocalLabels_loop B g node (fst found) (snd found) addr blockNode)))
      else Some (Inr (localNodes, loopNodes)))"

declare assignLocalLabels_loop.simps [code]

definition setLabels :: "(ref \<times> string) list \<Rightarrow> Graph \<Rightarrow> Graph" where
  \<comment> \<open>\<open>for (const n of ...) n.label = ...\<close>\<close>
  "setLabels named g = fold (\<lambda>(r, l) g. modify r (\<lambda>n. n\<lparr>label := Some l\<rparr>) g) named g"

definition assignLocalLabels :: "Blocks \<Rightarrow> ref \<Rightarrow> Graph \<Rightarrow> (error + Graph) option" where
  "assignLocalLabels B node g =
     (case assignLocalLabels_loop B g node [] [] (start (store g ! node)) node of
        None \<Rightarrow> None
      | Some (Inl e) \<Rightarrow> Some (Inl e)
      | Some (Inr (localNodes, loopNodes)) \<Rightarrow>
          (if isSet (label (store g ! node)) then
             (let preLabel = the (label (store g ! node)) @ ''.'';
                  g = setLabels
                        (map (\<lambda>(i, localNode).
                                (localNode, preLabel @ labelLocalLabelPrefix @ decimal (i + 1)))
                           (enumerate 0 localNodes)) g
              in if length loopNodes = 1
                 then Some (Inr (setLabels [(loopNodes ! 0, preLabel @ labelLocalLoopPrefix)] g))
                 else Some (Inr (setLabels
                        (map (\<lambda>(k, loopNode).
                                (loopNode, preLabel @ labelLocalLoopPrefix @ decimal (k + 1)))
                           (enumerate 0 loopNodes)) g)))
           else
             (let g = setLabels
                        (map (\<lambda>localNode.
                                (localNode,
                                 labelLblPrefix @ getHexString (start (store g ! localNode)) 4))
                           localNodes) g;
                  g = setLabels
                        (map (\<lambda>loopNode.
                                (loopNode,
                                 labelLblPrefix @ getHexString (start (store g ! loopNode)) 4))
                           loopNodes) g
              in Some (Inr g))))"

definition assignGlobalLabel :: "int \<Rightarrow> ref \<Rightarrow> Graph \<Rightarrow> Graph" where
  \<comment> \<open>the \<open>if (!node.label)\<close> statement of \<open>assignNodeLabels\<close>, for a node that starts its
      block (\<open>blockNode == node\<close>)\<close>
  "assignGlobalLabel addr64k node g =
     (let n = store g ! node
      in if \<not> isSet (label n) then
           (if callers n \<noteq> [] \<or> predecessors n \<noteq> [] then
              (if isSubroutine n then
                 (if start n AND NOT 0b00111000 \<noteq> 0
                  then modify node
                         (\<lambda>n. n\<lparr>label := Some (labelSubPrefix @ getHexString addr64k 4)\<rparr>) g
                  else modify node
                         (\<lambda>n. n\<lparr>label := Some (labelRstPrefix @ getHexString addr64k 2)\<rparr>) g)
               else modify node
                      (\<lambda>n. n\<lparr>label := Some (labelLblPrefix @ getHexString addr64k 4)\<rparr>) g)
            else g)
         else g)"

definition assignNodeLabels_step ::
  "Blocks \<Rightarrow> int \<times> ref \<Rightarrow> (error + Graph) option \<Rightarrow> (error + Graph) option" where
  "assignNodeLabels_step B = (\<lambda>(addr64k, node) result.
     case result of
       None \<Rightarrow> None
     | Some (Inl e) \<Rightarrow> Some (Inl e)
     | Some (Inr g) \<Rightarrow>
         (let blockNode = blocks_get B addr64k
          in if blockNode = NoBlock then Some (Inr g)
             else if blockNode = BlockNode node
               then assignLocalLabels B node (assignGlobalLabel addr64k node g)
             else Some (Inr g)))"

definition assignNodeLabels :: "Blocks \<Rightarrow> Graph \<Rightarrow> (error + Graph) option" where
  "assignNodeLabels B g = fold (assignNodeLabels_step B) (nodes g) (Some (Inr g))"

subsection \<open>\<open>assignOpcodeReferenceLabels\<close>\<close>

definition entryLabel :: "Graph \<Rightarrow> BlockEntry \<Rightarrow> string option" where
  \<comment> \<open>\<open>blockNode.label\<close>\<close>
  "entryLabel g e =
     (case e of NoBlock \<Rightarrow> None | OldNode l \<Rightarrow> l | BlockNode r \<Rightarrow> label (store g ! r))"

definition assignOpcodeReferenceLabel ::
  "(int \<Rightarrow> string option) \<Rightarrow> Memory \<Rightarrow> Blocks \<Rightarrow> int \<Rightarrow> Graph \<Rightarrow> error + Graph" where
  \<comment> \<open>the body of the loop over the data references of a node\<close>
  "assignOpcodeReferenceLabel funcGetLabel' memory' B addr64k g =
     (let label' = funcGetLabel' addr64k;
          label' = (if \<not> isSet label'
                    then (case map_of (nodes g) addr64k of
                            None \<Rightarrow> None
                          | Some r \<Rightarrow> label (store g ! r))
                    else label');
          label' = (if \<not> isSet label' then otherLabels g addr64k else label')
      in if \<not> isSet label' then
           (let attr = getAttributeAt memory' addr64k
            in if attr AND CODE \<noteq> 0 then
                 (let blockNode = blocks_get B addr64k
                  in if blockNode = NoBlock then Inl AssertionError
                     else
                       (let label' = entryLabel g blockNode;
                            label' =
                              (if isSet label'
                               then the label' @ ''.'' @ labelCodePrefix @ getHexString addr64k 4
                               else labelCodePrefix @ getHexString addr64k 4)
                        in Inr (g\<lparr>otherLabels := (otherLabels g)(addr64k \<mapsto> label')\<rparr>)))
               else
                 Inr (g\<lparr>otherLabels :=
                         (otherLabels g)(addr64k \<mapsto> labelDataLblPrefix @ getHexString addr64k 4)\<rparr>))
         else Inr g)"

definition assignOpcodeReferenceLabels ::
  "(int \<Rightarrow> string option) \<Rightarrow> Memory \<Rightarrow> Blocks \<Rightarrow> Graph \<Rightarrow> error + Graph" where
  "assignOpcodeReferenceLabels funcGetLabel' memory' B g =
     fold (\<lambda>(a, node) result.
             case result of
               Inl e \<Rightarrow> Inl e
             | Inr g \<Rightarrow>
                 fold (\<lambda>addr64k result.
                         case result of
                           Inl e \<Rightarrow> Inl e
                         | Inr g \<Rightarrow> assignOpcodeReferenceLabel funcGetLabel' memory' B addr64k g)
                   (dataReferences (store g ! node)) (Inr g))
       (nodes g) (Inr g)"

subsection \<open>\<open>getFlowGraph\<close>\<close>

definition Graph_clear :: Graph where
  \<comment> \<open>\<open>this.nodes.clear(); this.otherLabels.clear(); this.comments.clear()\<close>\<close>
  "Graph_clear = \<lparr>nodes = [], store = [], comments = Map.empty, otherLabels = Map.empty\<rparr>"

definition forget :: "AsmNode list \<Rightarrow> Blocks \<Rightarrow> Blocks" where
  \<comment> \<open>what \<open>this.blocks\<close> still holds of the nodes dropped by \<open>this.nodes.clear()\<close>\<close>
  "forget st B =
     (\<lambda>a. case B a of BlockNode r \<Rightarrow> OldNode (label (st ! r)) | e \<Rightarrow> e)"

definition getFlowGraph ::
  "int list \<Rightarrow> AddressLabel list \<Rightarrow> SmartDisassembler \<Rightarrow> (error + SmartDisassembler) option" where
  \<comment> \<open>\<open>None\<close>: the call does not return; \<open>Inl\<close>: it throws; \<open>Inr\<close>: the state it leaves.\<close>
  "getFlowGraph addresses labels this =
     (let B = forget (store (graph this)) (blocks this);
          g = Graph_clear;
          memory' = resetAttributeFlag (NOT ASSIGNED) (mem this)
      in case createNodes addresses memory' g of
           (memory', g) \<Rightarrow>
             (let g = createNodesForLabels labels memory' g
              in case fillNodes memory' g of
                   None \<Rightarrow> None
                 | Some g \<Rightarrow>
                     (let g = markSubroutines g;
                          B = partitionBlocks g B
                      in case assignNodeLabels B g of
                           None \<Rightarrow> None
                         | Some (Inl e) \<Rightarrow> Some (Inl e)
                         | Some (Inr g) \<Rightarrow>
                             (case assignOpcodeReferenceLabels (funcGetLabel this) memory' B g of
                                Inl e \<Rightarrow> Some (Inl e)
                              | Inr g \<Rightarrow>
                                  Some (Inr (this\<lparr>mem := memory', graph := g, blocks := B\<rparr>))))))"

definition SmartDisassembler_new :: SmartDisassembler where
  \<comment> \<open>\<open>new SmartDisassembler()\<close>: empty memory, no nodes, no label function\<close>
  "SmartDisassembler_new =
     \<lparr>mem = Memory_new, graph = Graph_clear, blocks = (\<lambda>a. NoBlock),
      funcGetLabel = (\<lambda>addr64k. None)\<rparr>"

section \<open>Properties of the memory model\<close>

lemma and_FFFF: "(x::int) AND 0xFFFF = x mod 0x10000"
  using take_bit_eq_mask[of 16 x] take_bit_eq_mod[of 16 x] by (simp add: mask_eq_exp_minus_1)

definition setMemory_step :: "int \<Rightarrow> 8 word list \<Rightarrow> nat \<Rightarrow> Memory \<Rightarrow> Memory" where
  \<comment> \<open>the body of the loop of \<open>setMemory\<close>\<close>
  "setMemory_step origin memory' i this =
     (let addr = (origin + int i) AND (MAX_MEM_SIZE - 1)
      in this\<lparr>memory := (memory this)(addr := memory' ! i),
              memoryAttr := (memoryAttr this)(addr := memoryAttr this addr OR ASSIGNED)\<rparr>)"

lemma setMemory_fold:
  "setMemory origin bytes this = fold (setMemory_step origin bytes) [0..<length bytes] this"
  by (simp add: setMemory_def setMemory_step_def[abs_def] Let_def)

lemma setMemory_step_attr:
  "memoryAttr (setMemory_step origin bytes i this) a =
     (if (origin + int i) mod 0x10000 = a then memoryAttr this a OR 1 else memoryAttr this a)"
  by (simp add: setMemory_step_def and_FFFF Let_def)

lemma setMemory_step_mem:
  "memory (setMemory_step origin bytes i this) a =
     (if (origin + int i) mod 0x10000 = a then bytes ! i else memory this a)"
  by (simp add: setMemory_step_def and_FFFF Let_def)

lemma setMemory_attr_k:
  "memoryAttr (fold (setMemory_step origin bytes) [0..<k] this) a =
     (if \<exists>i<k. (origin + int i) mod 0x10000 = a then memoryAttr this a OR 1
      else memoryAttr this a)"
proof (induction k)
  case 0
  show ?case by simp
next
  case (Suc k)
  show ?case
    by (auto simp add: Suc setMemory_step_attr less_Suc_eq or.assoc)
qed

lemma setMemory_mem_out_k:
  "\<forall>i<k. (origin + int i) mod 0x10000 \<noteq> a \<Longrightarrow>
     memory (fold (setMemory_step origin bytes) [0..<k] this) a = memory this a"
  by (induction k) (auto simp add: setMemory_step_mem)

lemma setMemory_mem_in_k:
  "i < k \<Longrightarrow>
   \<forall>j<k. i < j \<longrightarrow> (origin + int j) mod 0x10000 \<noteq> (origin + int i) mod 0x10000 \<Longrightarrow>
     memory (fold (setMemory_step origin bytes) [0..<k] this) ((origin + int i) mod 0x10000)
       = bytes ! i"
proof (induction k)
  case 0
  then show ?case by simp
next
  case (Suc k)
  show ?case
  proof (cases "i = k")
    case True
    then show ?thesis by (simp add: setMemory_step_mem)
  next
    case False
    with Suc.prems have ik: "i < k" by simp
    from Suc.prems ik
    have ne: "(origin + int k) mod 0x10000 \<noteq> (origin + int i) mod 0x10000" by simp
    from Suc.prems
    have "\<forall>j<k. i < j \<longrightarrow> (origin + int j) mod 0x10000 \<noteq> (origin + int i) mod 0x10000"
      by simp
    from Suc.IH[OF ik this] ne show ?thesis by (simp add: setMemory_step_mem)
  qed
qed

lemma wrapped_address_distinct:
  assumes "i < j" "j < 65536 + i"
  shows "(origin + int j) mod 0x10000 \<noteq> (origin + int i) mod (0x10000::int)"
proof
  assume "(origin + int j) mod 0x10000 = (origin + int i) mod (0x10000::int)"
  then have "((origin + int j) - (origin + int i)) mod 0x10000 = (0::int)"
    by (simp add: mod_eq_dvd_iff)
  then have "(int j - int i) mod 0x10000 = (0::int)" by simp
  moreover have "0 < int j - int i" "int j - int i < 0x10000" using assms by auto
  ultimately show False by simp
qed

text \<open>
  Claim C10. For every call \<open>setMemory(origin, bytes)\<close>: each byte \<open>i\<close> of the input is
  written to address \<open>(origin + i) mod 65536\<close> and only the \<open>ASSIGNED\<close> bit is OR-ed into
  that address's attribute mask (all other attribute bits there are preserved); every
  address outside the wrapped written range keeps both its byte value and its full
  attribute mask unchanged.

  The program computes \<open>origin + i\<close> in double-precision numbers and \<open>&\<close>, \<open>|=\<close> on 32-bit
  integers. These are the operations of the model on integers as long as every
  \<open>origin + i\<close> is an integer of at most 53 bits and the attribute masks are 32-bit
  integers: the first three assumptions. (The attributes of \<open>enum MemAttribute\<close> are the
  bits below 0x80.)

  The bytes are written in the order of \<open>i\<close>: a byte stays at its address unless a later
  byte of the same call is written to the same address, which takes an input of more than
  65536 bytes.
\<close>

theorem setMemory_frame:
  assumes "- (2 ^ 53) \<le> origin" and "origin + int (length bytes) \<le> 2 ^ 53"
    and "\<forall>a. - (2 ^ 31) \<le> memoryAttr this a \<and> memoryAttr this a < 2 ^ 31"
  shows "(\<forall>i<length bytes.
       memoryAttr (setMemory origin bytes this) ((origin + int i) mod 65536)
         = memoryAttr this ((origin + int i) mod 65536) OR ASSIGNED)
   \<and> (\<forall>i<length bytes.
         (\<forall>j<length bytes. i < j \<longrightarrow>
              (origin + int j) mod 65536 \<noteq> (origin + int i) mod 65536)
         \<longrightarrow> memory (setMemory origin bytes this) ((origin + int i) mod 65536) = bytes ! i)
   \<and> (length bytes \<le> 65536 \<longrightarrow>
        (\<forall>i<length bytes.
           memory (setMemory origin bytes this) ((origin + int i) mod 65536) = bytes ! i))
   \<and> (\<forall>a. (\<forall>i<length bytes. (origin + int i) mod 65536 \<noteq> a) \<longrightarrow>
          memory (setMemory origin bytes this) a = memory this a
        \<and> memoryAttr (setMemory origin bytes this) a = memoryAttr this a)"
proof (intro conjI allI impI)
  fix i assume "i < length bytes"
  then show "memoryAttr (setMemory origin bytes this) ((origin + int i) mod 65536)
        = memoryAttr this ((origin + int i) mod 65536) OR ASSIGNED"
    by (auto simp add: setMemory_fold setMemory_attr_k)
next
  fix i
  assume "i < length bytes"
    "\<forall>j<length bytes. i < j \<longrightarrow> (origin + int j) mod 65536 \<noteq> (origin + int i) mod 65536"
  then show "memory (setMemory origin bytes this) ((origin + int i) mod 65536) = bytes ! i"
    unfolding setMemory_fold by (rule setMemory_mem_in_k)
next
  fix i assume le: "length bytes \<le> 65536" and i: "i < length bytes"
  have "\<forall>j<length bytes. i < j \<longrightarrow> (origin + int j) mod 65536 \<noteq> (origin + int i) mod 65536"
    using le wrapped_address_distinct[of i _ origin] by auto
  with i show "memory (setMemory origin bytes this) ((origin + int i) mod 65536) = bytes ! i"
    unfolding setMemory_fold by (intro setMemory_mem_in_k)
next
  fix a assume "\<forall>i<length bytes. (origin + int i) mod 65536 \<noteq> a"
  then show "memory (setMemory origin bytes this) a = memory this a"
    unfolding setMemory_fold by (rule setMemory_mem_out_k)
next
  fix a assume "\<forall>i<length bytes. (origin + int i) mod 65536 \<noteq> a"
  then show "memoryAttr (setMemory origin bytes this) a = memoryAttr this a"
    by (auto simp add: setMemory_fold setMemory_attr_k)
qed

text \<open>
  Two bytes written at 0xFFFF over a memory whose addresses all carry \<open>CODE\<close>: the second
  byte wraps to address 0, which gains \<open>ASSIGNED\<close> and keeps \<open>CODE\<close>; address 1 is untouched.
\<close>

theorem setMemory_frame_witness:
  "memory (setMemory 0xFFFF [0xAA, 0xBB] (Memory_new\<lparr>memoryAttr := (\<lambda>_. CODE)\<rparr>)) 0 = 0xBB
   \<and> memoryAttr (setMemory 0xFFFF [0xAA, 0xBB] (Memory_new\<lparr>memoryAttr := (\<lambda>_. CODE)\<rparr>)) 0 = 3
   \<and> memory (setMemory 0xFFFF [0xAA, 0xBB] (Memory_new\<lparr>memoryAttr := (\<lambda>_. CODE)\<rparr>)) 1 = 0
   \<and> memoryAttr (setMemory 0xFFFF [0xAA, 0xBB] (Memory_new\<lparr>memoryAttr := (\<lambda>_. CODE)\<rparr>)) 1 = 2"
proof -
  let ?m = "Memory_new\<lparr>memoryAttr := (\<lambda>_. CODE)\<rparr>"
  have o: "- (2 ^ 53) \<le> (0xFFFF :: int)"
    "0xFFFF + int (length [0xAA, 0xBB :: 8 word]) \<le> 2 ^ 53"
    by simp_all
  have r: "\<forall>a. - (2 ^ 31) \<le> memoryAttr ?m a \<and> memoryAttr ?m a < 2 ^ 31"
    by simp
  note f = setMemory_frame[OF o r]
  have i: "(1::nat) < length [0xAA, 0xBB::8 word]" by simp
  have a: "memoryAttr (setMemory 0xFFFF [0xAA, 0xBB] ?m) ((0xFFFF + int 1) mod 65536)
             = memoryAttr ?m ((0xFFFF + int 1) mod 65536) OR ASSIGNED"
    using f i by blast
  have l: "length [0xAA, 0xBB::8 word] \<le> 65536" by simp
  have b: "memory (setMemory 0xFFFF [0xAA, 0xBB] ?m) ((0xFFFF + int 1) mod 65536)
             = [0xAA, 0xBB] ! 1"
    using f i l by blast
  have c: "\<forall>i<length [0xAA, 0xBB::8 word]. (0xFFFF + int i) mod 65536 \<noteq> (1::int)"
    by (simp add: less_Suc_eq numeral_2_eq_2)
  have d: "memory (setMemory 0xFFFF [0xAA, 0xBB] ?m) 1 = memory ?m 1
           \<and> memoryAttr (setMemory 0xFFFF [0xAA, 0xBB] ?m) 1 = memoryAttr ?m 1"
    using f c by blast
  from a b d show ?thesis by (simp add: Memory_new_def)
qed

section \<open>Properties of the instruction decoder\<close>

lemma signedByte_sint:
  "0 \<le> b \<Longrightarrow> b < 256 \<Longrightarrow> signedByte b = sint (word_of_int b :: 8 word)"
proof -
  assume b: "0 \<le> b" "b < 256"
  have hi: "(b + 128) mod 256 = b - 128" if "128 \<le> b"
  proof -
    have "(b + 128) mod 256 = ((b - 128) + 256) mod 256"
      by (rule arg_cong[where f="\<lambda>x. x mod 256"]) simp
    also have "\<dots> = (b - 128) mod 256" by (rule mod_add_self2)
    also have "\<dots> = b - 128" using b that by (intro mod_pos_pos_trivial) auto
    finally show ?thesis .
  qed
  have lo: "(b + 128) mod 256 = b + 128" if "\<not> 128 \<le> b"
    using b that by simp
  have bm: "b mod 256 = b" using b by simp
  show ?thesis
    using hi lo
    by (simp add: bm signedByte_def sint_uint signed_take_bit_eq_take_bit_shift take_bit_eq_mod uint_word_of_int)
qed

lemma signedByte_range: "0 \<le> b \<Longrightarrow> b < 256 \<Longrightarrow> - 128 \<le> signedByte b \<and> signedByte b \<le> 127"
  by (simp add: signedByte_def)

lemma Opcodes_RST:
  "c \<in> {0xC7, 0xCF, 0xD7, 0xDF, 0xE7, 0xEF, 0xF7, 0xFF} \<Longrightarrow> Opcodes (nat c) = new_Opcode c ''RST %s''"
  by (auto simp add: Opcodes_def Opcodes_init_def)

lemma Opcode_ctor_RST:
  "Opcode_ctor c ''RST %s'' = \<lparr>code = c, name = ''RST %s'', flags = 3, valueType = CODE_RST,
      length_op = 1, value_op = c AND 0b00111000, secondValue = None\<rparr>"
  by (simp add: Opcode_ctor_def js_string_defs Let_def)

text \<open>
  Claim C5. Decoding opcode byte 0xE7 yields value 0x20 (computed as
  \<open>opcode & 0b00111000\<close>, not from an encoded operand), the flag set
  \<open>{CALL, BRANCH_ADDRESS}\<close>, and length 1; and every RST opcode byte 0xC7, 0xCF, ..., 0xFF
  decodes its target as bits 3-5 of the opcode byte.
\<close>

theorem RST_decode:
  assumes "getValueAt memory' address = c"
    and "c \<in> {0xC7, 0xCF, 0xD7, 0xDF, 0xE7, 0xEF, 0xF7, 0xFF}"
  shows "value_op (getOpcodeAt memory' address Opcodes) = c AND 0b00111000
       \<and> flags (getOpcodeAt memory' address Opcodes) = (CALL OR BRANCH_ADDRESS)
       \<and> length_op (getOpcodeAt memory' address Opcodes) = 1
       \<and> valueType (getOpcodeAt memory' address Opcodes) = CODE_RST
       \<and> (c = 0xE7 \<longrightarrow> value_op (getOpcodeAt memory' address Opcodes) = 0x20)"
proof -
  have "getOpcodeAt memory' address Opcodes = Opcode_ctor c ''RST %s''"
    using assms by (simp add: getOpcodeAt_def Opcodes_RST new_Opcode_def Opcode_getOpcodeAt_def Opcode_ctor_RST)
  then show ?thesis by (simp add: Opcode_ctor_RST)
qed

text \<open>The byte 0xE7 at address 0.\<close>

theorem RST_decode_witness:
  "value_op (getOpcodeAt (setMemory 0 [0xE7] Memory_new) 0 Opcodes) = 0x20
   \<and> flags (getOpcodeAt (setMemory 0 [0xE7] Memory_new) 0 Opcodes) = 3
   \<and> length_op (getOpcodeAt (setMemory 0 [0xE7] Memory_new) 0 Opcodes) = 1"
proof -
  have "getValueAt (setMemory 0 [0xE7] Memory_new) 0 = 0xE7"
    by (simp add: getValueAt_def setMemory_def Memory_new_def)
  from RST_decode[OF this] show ?thesis by simp
qed

lemma Opcodes_relative:
  "c \<in> {0x10, 0x18, 0x20, 0x28, 0x30, 0x38} \<Longrightarrow>
     \<exists>this. Opcodes (nat c) = Obj_Opcode this \<and> valueType this = CODE_LOCAL_LBL \<and> length_op this = 2"
  apply (auto simp add: Opcodes_def Opcodes_init_def new_Opcode_def)
  apply (simp_all add: Opcode_ctor_def js_string_defs Let_def)
  done

lemma relative_value:
  assumes "getValueAt memory' address \<in> {0x10, 0x18, 0x20, 0x28, 0x30, 0x38}"
  shows "value_op (getOpcodeAt memory' address Opcodes)
           = signedByte (getValueAt memory' (address + 1)) + (address + 2)"
proof -
  from Opcodes_relative[OF assms] obtain this where
    "Opcodes (nat (getValueAt memory' address)) = Obj_Opcode this" "valueType this = CODE_LOCAL_LBL"
    by blast
  then show ?thesis by (simp add: getOpcodeAt_def Opcode_getOpcodeAt_def)
qed

text \<open>
  Claim C7. For every relative jump/call form (JR, JR cc, DJNZ) decoded at address \<open>a\<close>, the
  displacement byte is interpreted as a two's-complement signed byte in [-128,127] and the
  decoded value equals that displacement added to the address immediately following the
  instruction (\<open>a + 2\<close>).

  The relative forms are the opcode bytes 0x10 (DJNZ), 0x18 (JR) and 0x20, 0x28, 0x30, 0x38
  (JR cc) of the main table.
\<close>

theorem relative_jump_decode:
  assumes "getValueAt memory' address \<in> {0x10, 0x18, 0x20, 0x28, 0x30, 0x38}"
  shows "(let b = getValueAt memory' (address + 1);
              d = sint (word_of_int b :: 8 word)
          in - 128 \<le> d \<and> d \<le> 127
             \<and> d = (if b \<ge> 0x80 then b - 0x100 else b)
             \<and> value_op (getOpcodeAt memory' address Opcodes) = d + (address + 2))"
  using relative_value[OF assms] getValueAt_byte[of memory' "address + 1"]
    signedByte_sint[of "getValueAt memory' (address + 1)"]
    signedByte_range[of "getValueAt memory' (address + 1)"]
  by (simp add: Let_def signedByte_def)

text \<open>\<open>DJNZ\<close> with displacement byte 0xFE (-2) at 0x8000 jumps to itself.\<close>

theorem relative_jump_decode_witness:
  "value_op (getOpcodeAt (setMemory 0x8000 [0x10, 0xFE] Memory_new) 0x8000 Opcodes) = 0x8000"
proof -
  have v: "getValueAt (setMemory 0x8000 [0x10, 0xFE] Memory_new) 0x8000 = 0x10"
     "getValueAt (setMemory 0x8000 [0x10, 0xFE] Memory_new) 0x8001 = 0xFE"
    by (simp_all add: getValueAt_def setMemory_def Memory_new_def)
  have "getValueAt (setMemory 0x8000 [0x10, 0xFE] Memory_new) 0x8000 \<in> {0x10, 0x18, 0x20, 0x28, 0x30, 0x38}"
    by (simp add: v)
  from relative_jump_decode[OF this] show ?thesis by (simp add: Let_def v)
qed

text \<open>
  Claim C9. For every relative-branch opcode decoded at address \<open>a\<close> with signed
  displacement \<open>d\<close>, the decoded absolute target value equals exactly \<open>a + 2 + d\<close> as an
  unbounded integer with no reduction modulo 0x10000; in particular, for a decode near the
  top of the address space (e.g. a JR at 0xFFFE with positive \<open>d\<close>) the value exceeds 0xFFFF
  and is never wrapped back into the 64K range by the decoder.

  The displacement \<open>d\<close> is the byte after the opcode byte read as a two's-complement number:
  the byte \<open>b\<close> itself below 0x80, and \<open>b - 0x100\<close> from 0x80 on. A target above 0xFFFF or
  below 0 is left as it is.
\<close>

theorem relative_target_not_wrapped:
  assumes "getValueAt memory' address \<in> {0x10, 0x18, 0x20, 0x28, 0x30, 0x38}"
  shows "(let b = getValueAt memory' (address + 1);
              d = sint (word_of_int b :: 8 word);
              target = value_op (getOpcodeAt memory' address Opcodes)
          in d = (if b \<ge> 0x80 then b - 0x100 else b)
             \<and> target = address + 2 + d
             \<and> (0xFFFF < address + 2 + d
                  \<longrightarrow> 0xFFFF < target \<and> target \<noteq> (address + 2 + d) mod 0x10000)
             \<and> (address + 2 + d < 0
                  \<longrightarrow> target < 0 \<and> target \<noteq> (address + 2 + d) mod 0x10000)
             \<and> (address = 0xFFFE \<and> 0 < d \<longrightarrow> 0xFFFF < target))"
proof -
  let ?b = "getValueAt memory' (address + 1)"
  let ?d = "sint (word_of_int ?b :: 8 word)"
  have m: "0 \<le> (x::int) mod 0x10000 \<and> x mod 0x10000 < 0x10000" for x by simp
  have d: "?d = signedByte ?b"
    using getValueAt_byte[of memory' "address + 1"] signedByte_sint[of ?b] by simp
  have f: "?d = (if ?b \<ge> 0x80 then ?b - 0x100 else ?b)"
    using getValueAt_byte[of memory' "address + 1"] by (simp add: d signedByte_def)
  have t: "value_op (getOpcodeAt memory' address Opcodes) = address + 2 + ?d"
    using relative_value[OF assms] by (simp add: d)
  show ?thesis
    unfolding Let_def t using f m[of "address + 2 + ?d"]
    by (auto simp del: pos_mod_sign pos_mod_bound)
qed

text \<open>
  \<open>JR\<close> with displacement byte 0x05 at 0xFFFE: the target is 0x10005, not 5. \<open>JR\<close> with
  displacement byte 0xFD (-3) at 0: the target is -1, not 0xFFFF (and not 0xFF, which an
  unsigned reading of the byte would give).
\<close>

theorem relative_target_not_wrapped_witness:
  "value_op (getOpcodeAt (setMemory 0xFFFE [0x18, 0x05] Memory_new) 0xFFFE Opcodes) = 0x10005
   \<and> value_op (getOpcodeAt (setMemory 0 [0x18, 0xFD] Memory_new) 0 Opcodes) = - 1"
proof -
  have v: "getValueAt (setMemory 0xFFFE [0x18, 0x05] Memory_new) 0xFFFE = 0x18"
     "getValueAt (setMemory 0xFFFE [0x18, 0x05] Memory_new) 0xFFFF = 0x05"
    by (simp_all add: getValueAt_def setMemory_def Memory_new_def)
  have w: "getValueAt (setMemory 0 [0x18, 0xFD] Memory_new) 0 = 0x18"
     "getValueAt (setMemory 0 [0x18, 0xFD] Memory_new) 1 = 0xFD"
    by (simp_all add: getValueAt_def setMemory_def Memory_new_def)
  have 1: "getValueAt (setMemory 0xFFFE [0x18, 0x05] Memory_new) 0xFFFE
             \<in> {0x10, 0x18, 0x20, 0x28, 0x30, 0x38}"
    by (simp add: v)
  have 2: "getValueAt (setMemory 0 [0x18, 0xFD] Memory_new) 0
             \<in> {0x10, 0x18, 0x20, 0x28, 0x30, 0x38}"
    by (simp add: w)
  from relative_target_not_wrapped[OF 1] relative_target_not_wrapped[OF 2]
  show ?thesis by (simp add: Let_def v w)
qed


definition isPrevIndex :: "OpcodeObj \<Rightarrow> bool" where
  "isPrevIndex opcode = (case opcode of Obj_OpcodePrevIndex this \<Rightarrow> True | _ \<Rightarrow> False)"

lemma isPrevIndex_simps [simp]:
  "isPrevIndex (new_OpcodePrevIndex c n)"
  "isPrevIndex opcode \<Longrightarrow> isPrevIndex (update_fields f opcode)"
  by (auto simp add: isPrevIndex_def new_OpcodePrevIndex_def split: OpcodeObj.splits)

lemma OpcodesDDCB_init_all: "length OpcodesDDCB_init = 256 \<and> list_all isPrevIndex OpcodesDDCB_init"
  by (simp add: OpcodesDDCB_init_def)

lemma OpcodesDDCB_PrevIndex: "i < 256 \<Longrightarrow> isPrevIndex (OpcodesDDCB i)"
  using OpcodesDDCB_init_all by (simp add: OpcodesDDCB_def list_all_length fixLength_def)

lemma OpcodesFDCB_PrevIndex: "i < 256 \<Longrightarrow> isPrevIndex (OpcodesFDCB i)"
  using OpcodesDDCB_init_all by (simp add: OpcodesFDCB_def list_all_length fixLength_def)

lemma PrevIndex_value:
  "isPrevIndex opcode \<Longrightarrow>
     value_op (getOpcodeAt_obj opcode memory' address) = signedByte (getValueAt memory' (address - 1))"
  by (cases opcode) (simp_all add: isPrevIndex_def)

lemma Opcodes_DD: "Opcodes 0xDD = new_OpcodeExtended 0xDD OpcodesDD"
  and Opcodes_FD: "Opcodes 0xFD = new_OpcodeExtended 0xFD OpcodesFD"
  by (simp_all add: Opcodes_def Opcodes_init_def)

lemma OpcodesDD_CB: "OpcodesDD 0xCB = fixLength (new_OpcodeExtended2 0xCB OpcodesDDCB)"
  by (simp add: OpcodesDD_def OpcodesDD_init_def)

lemma OpcodesFD_CB: "OpcodesFD 0xCB = new_OpcodeExtended2 0xCB OpcodesFDCB"
  by (simp add: OpcodesFD_def OpcodesDD_init_def fixLength_def new_OpcodeExtended2_def
      OpcodeExtended2_ctor_def OpcodeExtended_ctor_def Opcode_ctor_def js_string_defs Let_def)

text \<open>
  Claim C6. For every doubly-prefixed index-bit instruction (0xDDCB / 0xFDCB forms), the
  decoded displacement value is read from the byte immediately after the two prefix bytes
  and before the final opcode byte, i.e. the terminal decoder reads the byte at (address
  passed to it) minus 1, and interprets it as a signed two's-complement byte.

  With the prefix bytes at \<open>address\<close> and \<open>address + 1\<close>, the final opcode byte is at
  \<open>address + 3\<close>: the terminal decoder, of class \<open>OpcodePrevIndex\<close> for every entry of both
  tables, is called with \<open>address + 3\<close> and reads the displacement at \<open>address + 2\<close>.
\<close>

theorem index_bit_displacement:
  assumes "getValueAt memory' address = 0xDD \<or> getValueAt memory' address = 0xFD"
    and "getValueAt memory' (address + 1) = 0xCB"
  shows "(let opcodes = (if getValueAt memory' address = 0xDD then OpcodesDDCB else OpcodesFDCB);
              terminal = opcodes (nat (getValueAt memory' (address + 3)));
              d = value_op (getOpcodeAt memory' address Opcodes)
          in isPrevIndex terminal
             \<and> getOpcodeAt memory' address Opcodes = getOpcodeAt_obj terminal memory' (address + 3)
             \<and> d = value_op (getOpcodeAt_obj terminal memory' (address + 3))
             \<and> d = signedByte (getValueAt memory' ((address + 3) - 1))
             \<and> d = sint (word_of_int (getValueAt memory' (address + 2)) :: 8 word)
             \<and> - 128 \<le> d \<and> d \<le> 127)"
proof -
  let ?opcodes = "if getValueAt memory' address = 0xDD then OpcodesDDCB else OpcodesFDCB"
  let ?terminal = "?opcodes (nat (getValueAt memory' (address + 3)))"
  have lt: "nat (getValueAt memory' (address + 3)) < 256"
    using getValueAt_byte[of memory' "address + 3"] by linarith
  have p: "isPrevIndex ?terminal"
    using lt by (simp add: OpcodesDDCB_PrevIndex OpcodesFDCB_PrevIndex)
  have e: "getOpcodeAt memory' address Opcodes = getOpcodeAt_obj ?terminal memory' (address + 3)"
  proof -
    have a: "address + 1 + 2 = address + 3" by simp
    from assms(1) show ?thesis
    proof
      assume "getValueAt memory' address = 0xDD"
      with assms(2) show ?thesis
        by (simp add: getOpcodeAt_def Opcodes_DD OpcodesDD_CB
            new_OpcodeExtended_def new_OpcodeExtended2_def fixLength_def a del: add_numeral_left)
    next
      assume "getValueAt memory' address = 0xFD"
      with assms(2) show ?thesis
        by (simp add: getOpcodeAt_def Opcodes_FD OpcodesFD_CB
            new_OpcodeExtended_def new_OpcodeExtended2_def a)
    qed
  qed
  have a: "address + 3 - 1 = address + 2" by simp
  show ?thesis
    using p e PrevIndex_value[OF p, of memory' "address + 3"] getValueAt_byte[of memory' "address + 2"]
      signedByte_sint[of "getValueAt memory' (address + 2)"] signedByte_range[of "getValueAt memory' (address + 2)"]
    by (simp add: Let_def a)
qed

text \<open>\<open>FD CB FE 06\<close> at 0x8000: the displacement is -2.\<close>

theorem index_bit_displacement_witness:
  "value_op (getOpcodeAt (setMemory 0x8000 [0xFD, 0xCB, 0xFE, 0x06] Memory_new) 0x8000 Opcodes) = - 2"
proof -
  let ?m = "setMemory 0x8000 [0xFD, 0xCB, 0xFE, 0x06] Memory_new"
  have v: "getValueAt ?m 0x8000 = 0xFD" "getValueAt ?m 0x8001 = 0xCB" "getValueAt ?m 0x8002 = 0xFE"
    by (simp_all add: getValueAt_def setMemory_def Memory_new_def)
  have 1: "getValueAt ?m 0x8000 = 0xDD \<or> getValueAt ?m 0x8000 = 0xFD" by (simp add: v)
  have 2: "getValueAt ?m (0x8000 + 1) = 0xCB" by (simp add: v)
  from index_bit_displacement[OF 1 2] show ?thesis
    by (simp add: Let_def v signedByte_def)
qed


section \<open>Runs of the flow-graph build\<close>

text \<open>
  Concrete analyses, evaluated by rewriting with the definitions. The instructions they
  contain are \<open>NOP\<close>, \<open>LD A,n\<close>, \<open>JP nn\<close>, \<open>RET\<close> and \<open>CALL nn\<close>.
\<close>

lemma Opcodes_used:
  "Opcodes 0x00 = new_Opcode 0x00 ''NOP''"
  "Opcodes 0x3E = new_Opcode 0x3E ''LD A,#n''"
  "Opcodes 0xC3 = new_Opcode 0xC3 ''JP #nn''"
  "Opcodes 0xC9 = new_Opcode 0xC9 ''RET''"
  "Opcodes 0xCD = new_Opcode 0xCD ''CALL #nn''"
  by (simp_all add: Opcodes_def Opcodes_init_def)

lemma Opcode_ctor_used:
  "Opcode_ctor 0x00 ''NOP'' =
     \<lparr>code = 0x00, name = ''NOP'', flags = 0, valueType = NONE,
      length_op = 1, value_op = 0, secondValue = None\<rparr>"
  "Opcode_ctor 0x3E ''LD A,#n'' =
     \<lparr>code = 0x3E, name = ''LD A,%s'', flags = 0, valueType = NUMBER_BYTE,
      length_op = 2, value_op = 0, secondValue = None\<rparr>"
  "Opcode_ctor 0xC3 ''JP #nn'' =
     \<lparr>code = 0xC3, name = ''JP %s'', flags = BRANCH_ADDRESS OR STOP, valueType = CODE_LBL,
      length_op = 3, value_op = 0, secondValue = None\<rparr>"
  "Opcode_ctor 0xC9 ''RET'' =
     \<lparr>code = 0xC9, name = ''RET'', flags = RET OR STOP, valueType = NONE,
      length_op = 1, value_op = 0, secondValue = None\<rparr>"
  "Opcode_ctor 0xCD ''CALL #nn'' =
     \<lparr>code = 0xCD, name = ''CALL %s'', flags = CALL OR BRANCH_ADDRESS, valueType = CODE_SUB,
      length_op = 3, value_op = 0, secondValue = None\<rparr>"
  by (simp_all add: Opcode_ctor_def js_string_defs Let_def)

lemma decode:
  "getValueAt m a = 0x00 \<Longrightarrow> getOpcodeAt m a Opcodes =
     \<lparr>code = 0x00, name = ''NOP'', flags = 0, valueType = NONE,
      length_op = 1, value_op = 0, secondValue = None\<rparr>"
  "getValueAt m a = 0x3E \<Longrightarrow> getOpcodeAt m a Opcodes =
     \<lparr>code = 0x3E, name = ''LD A,%s'', flags = 0, valueType = NUMBER_BYTE,
      length_op = 2, value_op = getValueAt m (a + 1), secondValue = None\<rparr>"
  "getValueAt m a = 0xC3 \<Longrightarrow> getOpcodeAt m a Opcodes =
     \<lparr>code = 0xC3, name = ''JP %s'', flags = 5, valueType = CODE_LBL,
      length_op = 3, value_op = getWordValueAt m (a + 1), secondValue = None\<rparr>"
  "getValueAt m a = 0xC9 \<Longrightarrow> getOpcodeAt m a Opcodes =
     \<lparr>code = 0xC9, name = ''RET'', flags = 12, valueType = NONE,
      length_op = 1, value_op = 0, secondValue = None\<rparr>"
  "getValueAt m a = 0xCD \<Longrightarrow> getOpcodeAt m a Opcodes =
     \<lparr>code = 0xCD, name = ''CALL %s'', flags = 3, valueType = CODE_SUB,
      length_op = 3, value_op = getWordValueAt m (a + 1), secondValue = None\<rparr>"
  by (simp_all add: getOpcodeAt_def Opcodes_used new_Opcode_def Opcode_ctor_used
      Opcode_getOpcodeAt_def)

lemma upt_numeral: "[i..<numeral n] = (if i < numeral n then i # [Suc i..<numeral n] else [])"
  by (rule upt_rec)

lemma toHex_numeral:
  "toHex (numeral k) v = toHex (pred_numeral k) (v div 16) @ [hexDigit (v mod 16)]"
  by (simp add: numeral_eq_Suc[of k])

lemmas run_simps =
  upt_numeral toHex_numeral getFlowGraph_def Graph_clear_def forget_def resetAttributeFlag_def
  createNodes_def createNodes_step_def createNodeForAddress_def createNodeForAddress_walk.simps
  createNodeInMap_def
  skipReturnAddress.simps getSkipForAddress_def skipAddrs64k_def
  createNodesForLabels_def fillNodes_def fillNode_def fillNode_loop.simps
  getAddressForCodeFirst.simps skipInstructions.simps getNodeForFill_def connect_def call_def
  modify_def markSubroutines_def markSubroutines_step_def markPredecessorsAsSubroutine_def
  markPredecessors_loop.simps
  partitionBlocks_def partitionBlocks_step_def getBranchesRecursive_def blockEntry_def
  Array_fill_def blocks_get_def
  assignNodeLabels_def assignNodeLabels_step_def assignGlobalLabel_def assignLocalLabels_def
  assignLocalLabels_loop.simps otherReference_def isLoopRoot_def setLabels_def isSet_def
  assignOpcodeReferenceLabels_def assignOpcodeReferenceLabel_def entryLabel_def
  SmartDisassembler_new_def Memory_new_def setMemory_def
  getAttributeAt_def addAttributeAt_def addAttributesAt_def searchAddrWithAttribute_def
  getValueAt_def getWordValueAt_def
  addCommentForAddress_def addAmbiguousComment_def addBranchToUnassignedMemory_def
  AsmNode_new_def Let_def
  labelSubPrefix_def labelLblPrefix_def labelRstPrefix_def
  getHexString_def getHexFormattedString_def hexDigit_def

definition edges :: "AsmNode \<Rightarrow> ref list \<times> ref list \<times> ref option \<times> ref list" where
  \<comment> \<open>the four edge fields of a node\<close>
  "edges n = (callers n, predecessors n, callee n, branchNodes n)"

subsection \<open>Scenario A: a call and its subroutine\<close>

definition scenarioA :: SmartDisassembler where
  \<comment> \<open>\<open>CD 10 80\<close> (\<open>CALL 0x8010\<close>) and \<open>C9\<close> (\<open>RET\<close>) at 0x8000; \<open>3E 05\<close> (\<open>LD A,5\<close>) and \<open>C9\<close>
      at 0x8010\<close>
  "scenarioA = SmartDisassembler_new\<lparr>mem :=
     setMemory 0x8010 [0x3E, 0x05, 0xC9]
       (setMemory 0x8000 [0xCD, 0x10, 0x80, 0xC9] Memory_new)\<rparr>"

lemma scenarioA_run:
  "(case getFlowGraph [0x8000] [] scenarioA of
      Some (Inr this) \<Rightarrow>
        nodes (graph this) = [(0x8000, 0), (0x8003, 1), (0x8010, 2)]
        \<and> map start (store (graph this)) = [0x8000, 0x8003, 0x8010]
        \<and> map length_node (store (graph this)) = [3, 1, 3]
        \<and> map edges (store (graph this))
            = [([], [], Some 2, [1]), ([], [0], None, []), ([0], [], None, [])]
        \<and> map isSubroutine (store (graph this)) = [True, True, True]
        \<and> map label (store (graph this)) = [None, None, Some ''SUB_8010'']
    | _ \<Rightarrow> False)"
  by (simp add: scenarioA_def edges_def run_simps decode
      cong: sum.case_cong_weak prod.case_cong_weak option.case_cong_weak)

subsection \<open>A call into memory that was never loaded\<close>

definition callUnassigned :: SmartDisassembler where
  \<comment> \<open>\<open>CD 00 90\<close> (\<open>CALL 0x9000\<close>) and \<open>C9\<close> (\<open>RET\<close>) at 0x8000; nothing at 0x9000\<close>
  "callUnassigned = SmartDisassembler_new\<lparr>mem :=
     setMemory 0x8000 [0xCD, 0x00, 0x90, 0xC9] Memory_new\<rparr>"

lemma callUnassigned_run:
  "(case getFlowGraph [0x8000] [] callUnassigned of
      Some (Inr this) \<Rightarrow>
        nodes (graph this) = [(0x8000, 0), (0x8003, 1)]
        \<and> map start (store (graph this)) = [0x8000, 0x8003, 0x9000]
        \<and> map edges (store (graph this))
            = [([], [], Some 2, [1]), ([], [0], None, []), ([0], [], None, [])]
        \<and> map isSubroutine (store (graph this)) = [True, True, False]
        \<and> comments (graph this) 0x8000
            = Some [''The disassembly branches into unassigned memory at $9000.'']
    | _ \<Rightarrow> False)"
  by (simp add: callUnassigned_def edges_def run_simps decode
      cong: sum.case_cong_weak prod.case_cong_weak option.case_cong_weak)

subsection \<open>An entry point that ends in \<open>RET\<close>\<close>

definition retOnly :: SmartDisassembler where
  \<comment> \<open>\<open>3E 05\<close> (\<open>LD A,5\<close>) and \<open>C9\<close> (\<open>RET\<close>) at 0x8010\<close>
  "retOnly = SmartDisassembler_new\<lparr>mem := setMemory 0x8010 [0x3E, 0x05, 0xC9] Memory_new\<rparr>"

lemma retOnly_run:
  "(case getFlowGraph [0x8010] [] retOnly of
      Some (Inr this) \<Rightarrow>
        nodes (graph this) = [(0x8010, 0)]
        \<and> blocks this 0x8010 = BlockNode 0
        \<and> map start (store (graph this)) = [0x8010]
        \<and> map edges (store (graph this)) = [([], [], None, [])]
        \<and> map isSubroutine (store (graph this)) = [True]
        \<and> map label (store (graph this)) = [None]
    | _ \<Rightarrow> False)"
  by (simp add: retOnly_def edges_def run_simps decode
      cong: sum.case_cong_weak prod.case_cong_weak option.case_cong_weak)

subsection \<open>A jump to an instruction in memory that was never loaded\<close>

definition jumpUnassigned :: SmartDisassembler where
  \<comment> \<open>\<open>00\<close> (\<open>NOP\<close>) at 0x8000, nothing at 0x8001 (the byte there is 0), \<open>C9\<close> (\<open>RET\<close>) at
      0x8002; \<open>C3 01 80\<close> (\<open>JP 0x8001\<close>) at 0x9000\<close>
  "jumpUnassigned = SmartDisassembler_new\<lparr>mem :=
     setMemory 0x9000 [0xC3, 0x01, 0x80]
       (setMemory 0x8002 [0xC9] (setMemory 0x8000 [0x00] Memory_new))\<rparr>"

lemma jumpUnassigned_run:
  "(case getFlowGraph [0x8000, 0x9000] [] jumpUnassigned of
      Some (Inr this) \<Rightarrow>
        nodes (graph this) = [(0x8000, 0), (0x9000, 1), (0x8001, 2)]
        \<and> getAttributeAt (mem this) 0x8001 = (FLOW_ANALYZED OR CODE_FIRST OR CODE)
        \<and> map start (store (graph this)) = [0x8000, 0x9000, 0x8001]
        \<and> map edges (store (graph this))
            = [([], [], None, [2]), ([], [], None, [2]), ([], [0, 1], None, [])]
        \<and> comments (graph this) = Map.empty
    | _ \<Rightarrow> False)"
  by (simp add: jumpUnassigned_def edges_def run_simps decode
      cong: sum.case_cong_weak prod.case_cong_weak option.case_cong_weak)


section \<open>The call scenario\<close>

text \<open>
  Claim C1, as the spec states it: after \<open>getFlowGraph([0x8000], [])\<close> on the memory of
  scenario A, the node at 0x8000 has length 4. This is not what the build does: the \<open>CALL\<close>
  at 0x8000 is a branch, and both passes end a node after a branch. The address after the
  call, 0x8003, starts a node of its own (the \<open>RET\<close>), and the node at 0x8000 has the
  three bytes of the call only. The theorem gives the node table of the result with the
  length of each node.
\<close>

theorem scenarioA_call_node_has_length_3:
  "(case getFlowGraph [0x8000] [] scenarioA of
      Some (Inr this) \<Rightarrow>
        map (\<lambda>(addr64k, node). (addr64k, length_node (store (graph this) ! node)))
          (nodes (graph this)) = [(0x8000, 3), (0x8003, 1), (0x8010, 3)]
        \<and> map_option (\<lambda>node. length_node (store (graph this) ! node))
            (map_of (nodes (graph this)) 0x8000) \<noteq> Some 4
    | _ \<Rightarrow> False)"
  using scenarioA_run
  by (auto split: option.splits sum.splits)

text \<open>
  Claim C1, amended: after \<open>getFlowGraph([0x8000], [])\<close> on the memory of scenario A, the
  node table has a node at 0x8000 of length 3 whose callee is the node at 0x8010 and whose
  only branch node is the node at 0x8003; the node at 0x8010 has \<open>isSubroutine = true\<close>; and
  the node at 0x8000 is unlabeled and has neither callers nor predecessors.
\<close>

theorem scenarioA_graph:
  "(case getFlowGraph [0x8000] [] scenarioA of
      Some (Inr this) \<Rightarrow>
        (case (map_of (nodes (graph this)) 0x8000, map_of (nodes (graph this)) 0x8003,
               map_of (nodes (graph this)) 0x8010) of
           (Some node, Some following, Some subroutine) \<Rightarrow>
             length_node (store (graph this) ! node) = 3
             \<and> callee (store (graph this) ! node) = Some subroutine
             \<and> branchNodes (store (graph this) ! node) = [following]
             \<and> isSubroutine (store (graph this) ! subroutine)
             \<and> label (store (graph this) ! node) = None
             \<and> callers (store (graph this) ! node) = []
             \<and> predecessors (store (graph this) ! node) = []
         | _ \<Rightarrow> False)
    | _ \<Rightarrow> False)"
  using scenarioA_run
  by (auto simp add: edges_def split: option.splits sum.splits)


section \<open>Branches into unassigned memory\<close>

text \<open>
  Claim C8: when pass 2 resolves a branch whose target address has the \<open>ASSIGNED\<close>
  attribute unset, it creates a synthesized placeholder node for that target, records
  exactly a branch-into-unassigned-memory diagnostic keyed to the originating address, and
  the build continues without raising an exception.

  This is what the program means to do: \<open>getNodeForFill\<close> notes that "a jump to code in
  UNASSIGNED memory also has no node", and pass 1 notes, where it finds \<open>ASSIGNED\<close> unset,
  "a comment is created elsewhere; do not create a node". But pass 1 tests \<open>ASSIGNED\<close> only
  at the address a walk starts from. The walk itself runs on over bytes that were never
  loaded and marks them \<open>FLOW_ANALYZED\<close>, and for a branch address pass 1 tests
  \<open>FLOW_ANALYZED\<close> before \<open>ASSIGNED\<close>. In the analysis below only 0x8000, 0x8002 and
  0x9000 to 0x9002 are loaded. The walk from 0x8000 passes 0x8001, and the \<open>JP 0x8001\<close>
  at 0x9000 then enters a node for 0x8001 into the node table, although its \<open>ASSIGNED\<close> is
  unset. Pass 2 finds this node when it resolves the jump: the branch node of the jump is
  the node of the node table, the store has no node other than the three of the node
  table, so no placeholder, and no comment at all is recorded.
\<close>

theorem jumpUnassigned_no_placeholder:
  "(case getFlowGraph [0x8000, 0x9000] [] jumpUnassigned of
      Some (Inr this) \<Rightarrow>
        getAttributeAt (mem this) 0x8001 AND ASSIGNED = 0
        \<and> getAttributeAt (mem this) 0x8001 = (FLOW_ANALYZED OR CODE_FIRST OR CODE)
        \<and> nodes (graph this) = [(0x8000, 0), (0x9000, 1), (0x8001, 2)]
        \<and> length (store (graph this)) = 3
        \<and> branchNodes (store (graph this) ! 1) = [2]
        \<and> comments (graph this) = Map.empty
    | _ \<Rightarrow> False)"
  using jumpUnassigned_run
  by (auto simp add: edges_def split: option.splits sum.splits)

text \<open>
  Where the node table has no node for the target, \<open>getNodeForFill\<close> does what the claim
  says: it returns a new node that starts at the target and has no edges, leaves the node
  table as it is, and adds one comment, the branch-into-unassigned-memory diagnostic,
  under the originating address.
\<close>

lemma getNodeForFill_unassigned:
  assumes "map_of (nodes g) targetAddress = None"
    and "getAttributeAt memory' targetAddress AND ASSIGNED = 0"
  shows "getNodeForFill memory' originAddress targetAddress g =
           (length (store g),
            g\<lparr>store := store g @ [AsmNode_new targetAddress],
              comments := (comments g)(originAddress \<mapsto>
                 (case comments g originAddress of None \<Rightarrow> [] | Some lines \<Rightarrow> lines)
                 @ [''The disassembly branches into unassigned memory at ''
                      @ getHexFormattedString targetAddress 4 @ ''.''])\<rparr>)"
  using assms
  by (simp add: getNodeForFill_def addBranchToUnassignedMemory_def addCommentForAddress_def
      Let_def)

lemma getNodeForFill_unassigned_example:
  "map_of (nodes Graph_clear) 0x9000 = None
   \<and> getAttributeAt (setMemory 0x8000 [0xCD, 0x00, 0x90, 0xC9] Memory_new) 0x9000 AND ASSIGNED = 0
   \<and> getNodeForFill (setMemory 0x8000 [0xCD, 0x00, 0x90, 0xC9] Memory_new) 0x8000 0x9000
         Graph_clear
       = (0, \<lparr>nodes = [], store = [AsmNode_new 0x9000],
              comments = [0x8000 \<mapsto>
                [''The disassembly branches into unassigned memory at $9000.'']],
              otherLabels = Map.empty\<rparr>)"
proof -
  have n: "map_of (nodes Graph_clear) 0x9000 = None"
    by (simp add: Graph_clear_def)
  have a: "getAttributeAt (setMemory 0x8000 [0xCD, 0x00, 0x90, 0xC9] Memory_new) 0x9000
             AND ASSIGNED = 0"
    by (simp add: getAttributeAt_def setMemory_def Memory_new_def upt_numeral)
  show ?thesis
    using getNodeForFill_unassigned[OF n a, of "0x8000"] n a
    by (simp add: Graph_clear_def getHexFormattedString_def getHexString_def toHex_numeral
        hexDigit_def)
qed


section \<open>\<open>markSubroutines\<close>\<close>

text \<open>
  Marking the predecessors of a node changes no field but \<open>isSubroutine\<close>, and never
  resets it.
\<close>

lemma nth_list_update_any:
  "(xs[i := x]) ! j = (if i = j \<and> i < length xs then x else xs ! j)"
  by (cases "i < length xs") (auto simp add: nth_list_update list_update_beyond)

lemma markPredecessors_loop_length [simp]:
  "length (markPredecessors_loop q st) = length st"
  by (induction q st rule: markPredecessors_loop.induct)
    (simp_all add: markPredecessors_loop.simps)

lemma markPredecessors_loop_callers:
  "i < length st \<Longrightarrow> callers (markPredecessors_loop q st ! i) = callers (st ! i)"
  by (induction q st rule: markPredecessors_loop.induct)
    (simp_all add: markPredecessors_loop.simps nth_list_update)

lemma markPredecessors_loop_mono:
  "i < length st \<Longrightarrow> isSubroutine (st ! i) \<Longrightarrow> isSubroutine (markPredecessors_loop q st ! i)"
  by (induction q st rule: markPredecessors_loop.induct)
    (simp_all add: markPredecessors_loop.simps nth_list_update)

lemma fold_markPredecessors_length [simp]:
  "length (store (fold markPredecessorsAsSubroutine ps g)) = length (store g)"
  by (induction ps arbitrary: g) (simp_all add: markPredecessorsAsSubroutine_def)

lemma fold_markPredecessors_callers:
  "i < length (store g) \<Longrightarrow>
     callers (store (fold markPredecessorsAsSubroutine ps g) ! i) = callers (store g ! i)"
  by (induction ps arbitrary: g)
    (simp_all add: markPredecessorsAsSubroutine_def markPredecessors_loop_callers)

lemma fold_markPredecessors_mono:
  "i < length (store g) \<Longrightarrow> isSubroutine (store g ! i) \<Longrightarrow>
     isSubroutine (store (fold markPredecessorsAsSubroutine ps g) ! i)"
  by (induction ps arbitrary: g)
    (simp_all add: markPredecessorsAsSubroutine_def markPredecessors_loop_mono)

lemma markSubroutines_step_length [simp]:
  "length (store (markSubroutines_step x g)) = length (store g)"
  by (cases x) (simp add: markSubroutines_step_def modify_def)

lemma markSubroutines_step_callers:
  "i < length (store g) \<Longrightarrow>
     callers (store (markSubroutines_step x g) ! i) = callers (store g ! i)"
  by (cases x)
    (simp add: markSubroutines_step_def modify_def fold_markPredecessors_callers
      nth_list_update_any)

lemma markSubroutines_step_mono:
  "i < length (store g) \<Longrightarrow> isSubroutine (store g ! i) \<Longrightarrow>
     isSubroutine (store (markSubroutines_step x g) ! i)"
  by (cases x)
    (simp add: markSubroutines_step_def modify_def fold_markPredecessors_mono
      nth_list_update_any)

lemma markSubroutines_step_marks:
  "node < length (store g) \<Longrightarrow> callers (store g ! node) \<noteq> [] \<Longrightarrow>
     isSubroutine (store (markSubroutines_step (addr64k, node) g) ! node)"
  by (simp add: markSubroutines_step_def modify_def fold_markPredecessors_mono)

lemma fold_markSubroutines_step_length [simp]:
  "length (store (fold markSubroutines_step xs g)) = length (store g)"
  by (induction xs arbitrary: g) simp_all

lemma fold_markSubroutines_step_callers:
  "i < length (store g) \<Longrightarrow>
     callers (store (fold markSubroutines_step xs g) ! i) = callers (store g ! i)"
  by (induction xs arbitrary: g) (simp_all add: markSubroutines_step_callers)

lemma fold_markSubroutines_step_mono:
  "i < length (store g) \<Longrightarrow> isSubroutine (store g ! i) \<Longrightarrow>
     isSubroutine (store (fold markSubroutines_step xs g) ! i)"
  by (induction xs arbitrary: g) (simp_all add: markSubroutines_step_mono)

lemma fold_markSubroutines_step_marks:
  assumes "(addr64k, node) \<in> set xs" "node < length (store g)"
    and "callers (store g ! node) \<noteq> []"
  shows "isSubroutine (store (fold markSubroutines_step xs g) ! node)"
  using assms
proof (induction xs arbitrary: g)
  case Nil
  then show ?case by simp
next
  case (Cons x xs)
  let ?g = "markSubroutines_step x g"
  have l: "node < length (store ?g)" using Cons.prems by simp
  have c: "callers (store ?g ! node) \<noteq> []"
    using Cons.prems by (simp add: markSubroutines_step_callers)
  show ?case
  proof (cases "x = (addr64k, node)")
    case True
    with Cons.prems have "isSubroutine (store ?g ! node)"
      by (simp add: markSubroutines_step_marks)
    with l show ?thesis by (simp add: fold_markSubroutines_step_mono)
  next
    case False
    with Cons.prems have "(addr64k, node) \<in> set xs" by simp
    from Cons.IH[OF this l c] show ?thesis by simp
  qed
qed

text \<open>
  Claim C2, as stated, counts the placeholder nodes of \<open>getNodeForFill\<close> among the nodes
  that \<open>markSubroutines\<close> marks. It does not: the loop of \<open>markSubroutines\<close> runs over the
  node table, which these nodes are not part of, and they have no instruction, so no
  \<open>RET\<close> marks them in pass 2 either. In the analysis below the \<open>CALL 0x9000\<close> at 0x8000
  goes to memory that was never loaded. The third node of the store is the placeholder
  for 0x9000: it is the callee of the node at 0x8000, that node is in its \<open>callers\<close>, and
  its \<open>isSubroutine\<close> is false at the end of the build.
\<close>

theorem callUnassigned_placeholder_not_marked:
  "(case getFlowGraph [0x8000] [] callUnassigned of
      Some (Inr this) \<Rightarrow>
        nodes (graph this) = [(0x8000, 0), (0x8003, 1)]
        \<and> start (store (graph this) ! 2) = 0x9000
        \<and> callee (store (graph this) ! 0) = Some 2
        \<and> callers (store (graph this) ! 2) = [0]
        \<and> \<not> isSubroutine (store (graph this) ! 2)
    | _ \<Rightarrow> False)"
  using callUnassigned_run
  by (auto simp add: edges_def split: option.splits sum.splits)

text \<open>
  Claim C2, amended: after \<open>markSubroutines\<close> has run, every node of the node table whose
  \<open>callers\<close> list is non-empty has \<open>isSubroutine = true\<close>. (The nodes of the node table are
  objects of the store, which is the first assumption.)
\<close>

theorem markSubroutines_marks_called_nodes:
  assumes "\<forall>(addr64k, node) \<in> set (nodes g). node < length (store g)"
    and "(addr64k, node) \<in> set (nodes g)"
    and "callers (store (markSubroutines g) ! node) \<noteq> []"
  shows "isSubroutine (store (markSubroutines g) ! node)"
proof -
  from assms(1,2) have l: "node < length (store g)" by auto
  with assms(3) have "callers (store g ! node) \<noteq> []"
    by (simp add: markSubroutines_def fold_markSubroutines_step_callers)
  with assms(2) l show ?thesis
    unfolding markSubroutines_def by (rule fold_markSubroutines_step_marks)
qed

theorem markSubroutines_marks_called_nodes_witness:
  "callers (store (markSubroutines
       \<lparr>nodes = [(0x8000, 0), (0x8010, 1)],
        store = [(AsmNode_new 0x8000)\<lparr>callee := Some 1\<rparr>, (AsmNode_new 0x8010)\<lparr>callers := [0]\<rparr>],
        comments = Map.empty, otherLabels = Map.empty\<rparr>) ! 1) = [0]
   \<and> isSubroutine (store (markSubroutines
       \<lparr>nodes = [(0x8000, 0), (0x8010, 1)],
        store = [(AsmNode_new 0x8000)\<lparr>callee := Some 1\<rparr>, (AsmNode_new 0x8010)\<lparr>callers := [0]\<rparr>],
        comments = Map.empty, otherLabels = Map.empty\<rparr>) ! 1)"
proof -
  let ?g = "\<lparr>nodes = [(0x8000, 0), (0x8010, 1)],
        store = [(AsmNode_new 0x8000)\<lparr>callee := Some 1\<rparr>, (AsmNode_new 0x8010)\<lparr>callers := [0]\<rparr>],
        comments = Map.empty, otherLabels = Map.empty\<rparr>"
  have c: "callers (store (markSubroutines ?g) ! 1) = [0]"
    by (simp add: markSubroutines_def markSubroutines_step_def modify_def AsmNode_new_def)
  have "isSubroutine (store (markSubroutines ?g) ! 1)"
    using markSubroutines_marks_called_nodes[of ?g "0x8010" 1] c by simp
  with c show ?thesis by simp
qed


section \<open>Building twice\<close>

subsection \<open>Pass 1 leaves the bytes and the \<open>ASSIGNED\<close> flags alone\<close>

text \<open>
  Pass 1 is the only part of the build that writes to the memory model. It sets
  \<open>FLOW_ANALYZED\<close>, \<open>CODE\<close> and \<open>CODE_FIRST\<close> at addresses from 0 on: what
  \<open>resetAttributeFlag(~ASSIGNED)\<close> removes again.
\<close>

definition keepAssigned :: "Memory \<Rightarrow> Memory" where
  \<comment> \<open>the reset at the start of \<open>getFlowGraph\<close>\<close>
  "keepAssigned m = resetAttributeFlag (NOT ASSIGNED) m"

lemma keepAssigned_idem: "keepAssigned (keepAssigned m) = keepAssigned m"
  by (simp add: keepAssigned_def resetAttributeFlag_def Let_def fun_eq_iff)

lemma or_and_ASSIGNED:
  "attr AND ASSIGNED = 0 \<Longrightarrow> (x OR attr) AND ASSIGNED = x AND (ASSIGNED :: int)"
  by (simp add: bit.conj_disj_distrib2)

lemma keepAssigned_addAttributeAt:
  assumes "0 \<le> address" "attr AND ASSIGNED = 0"
  shows "keepAssigned (addAttributeAt address attr m) = keepAssigned m"
  using assms
  by (simp add: keepAssigned_def resetAttributeFlag_def addAttributeAt_def Let_def fun_eq_iff
      or_and_ASSIGNED)

lemma keepAssigned_fold_addAttributeAt:
  assumes "0 \<le> address" "attr AND ASSIGNED = 0"
  shows "keepAssigned (fold (\<lambda>i this. addAttributeAt (address + int i) attr this) is m)
           = keepAssigned m"
proof (induction "is" arbitrary: m)
  case Nil
  show ?case by simp
next
  case (Cons i "is")
  have "0 \<le> address + int i" using assms(1) by simp
  with Cons assms(2) show ?case by (simp add: keepAssigned_addAttributeAt)
qed

lemma keepAssigned_addAttributesAt:
  assumes "0 \<le> address" "attr AND ASSIGNED = 0"
  shows "keepAssigned (addAttributesAt address length' attr m) = keepAssigned m"
  using assms by (simp add: addAttributesAt_def keepAssigned_fold_addAttributeAt)

lemma keepAssigned_walk:
  "0 \<le> addr64k \<Longrightarrow>
     keepAssigned (fst (createNodeForAddress_walk addr64k m c)) = keepAssigned m"
proof (induction addr64k m c rule: createNodeForAddress_walk.induct)
  case (1 addr64k memory' comments')
  let ?op = "getOpcodeAt memory' addr64k Opcodes"
  let ?m = "addAttributeAt addr64k CODE_FIRST
              (addAttributesAt addr64k (length_op ?op) (FLOW_ANALYZED OR CODE) memory')"
  have m: "keepAssigned ?m = keepAssigned memory'"
    using 1(2) by (simp add: keepAssigned_addAttributeAt keepAssigned_addAttributesAt)
  have n: "0 \<le> addr64k + length_op ?op"
    using 1(2) opcode_length_pos[of memory' addr64k] by simp
  show ?case
    using 1(1)[OF refl refl refl refl _ refl refl refl _ _ _ _ _ n] m
    by (subst createNodeForAddress_walk.simps) (simp add: Let_def split: option.splits)
qed

lemma keepAssigned_loop:
  "keepAssigned (fst (createNodeForAddress_loop q m g)) = keepAssigned m"
proof (induction q m g rule: createNodeForAddress_loop.induct)
  case (1 memory' g)
  show ?case by simp
next
  case (2 addr64k rest memory' g)
  show ?case
  proof (cases "map_of (nodes g) addr64k \<noteq> None
      \<or> getAttributeAt memory' addr64k AND FLOW_ANALYZED \<noteq> 0
      \<or> getAttributeAt memory' addr64k AND ASSIGNED = 0")
    case True
    with 2(1,2,3,4) show ?thesis by (auto simp add: Let_def)
  next
    case False
    then have "0 \<le> addr64k"
      using getAttributeAt_in_range[of memory' addr64k ASSIGNED] by simp
    then have w: "keepAssigned
        (fst (createNodeForAddress_walk addr64k memory'
                (comments (snd (createNodeInMap addr64k g)))))
        = keepAssigned memory'"
      by (rule keepAssigned_walk)
    from False 2(5)[OF _ refl _ _ refl refl] w show ?thesis
      by (simp add: Let_def)
  qed
qed

lemma keepAssigned_createNodes_step:
  "keepAssigned (fst (createNodes_step addr64k s)) = keepAssigned (fst s)"
  by (cases s)
    (simp add: createNodes_step_def Let_def createNodeForAddress_def keepAssigned_loop
      del: createNodeForAddress_loop.simps)

lemma keepAssigned_createNodes:
  "keepAssigned (fst (createNodes addresses m g)) = keepAssigned m"
proof -
  have "keepAssigned (fst (fold createNodes_step xs s)) = keepAssigned (fst s)" for xs s
    by (induction xs arbitrary: s) (simp_all add: keepAssigned_createNodes_step)
  then show ?thesis by (simp add: createNodes_def Let_def)
qed

subsection \<open>\<open>partitionBlocks\<close> overwrites what it wrote before\<close>

lemma partitionBlocks_step_fill:
  "\<exists>blockNode' blockBranches' addr' v start' end'. \<forall>B.
     partitionBlocks_step st node (blockNode, blockBranches, addr, B)
       = (blockNode', blockBranches', addr', Array_fill v start' end' B)"
  unfolding partitionBlocks_step_def Let_def prod.case
  by (intro exI allI) (rule refl)

lemma Array_fill_cases:
  "(Array_fill v start' end' B a = B a \<and> Array_fill v start' end' C a = C a)
   \<or> Array_fill v start' end' B a = Array_fill v start' end' C a"
  by (simp add: Array_fill_def Let_def)

lemma partitionBlocks_fold_overlay:
  assumes "fold (partitionBlocks_step st) xs (blockNode, blockBranches, addr, B) = (n1, b1, a1, B')"
    and "fold (partitionBlocks_step st) xs (blockNode, blockBranches, addr, C) = (n2, b2, a2, C')"
  shows "(B' a = B a \<and> C' a = C a) \<or> B' a = C' a"
  using assms
proof (induction xs arbitrary: blockNode blockBranches addr B C)
  case Nil
  then show ?case by simp
next
  case (Cons node xs)
  obtain blockNode' blockBranches' addr' v start' end' where s: "\<And>B.
     partitionBlocks_step st node (blockNode, blockBranches, addr, B)
       = (blockNode', blockBranches', addr', Array_fill v start' end' B)"
    using partitionBlocks_step_fill[of st node blockNode blockBranches addr] by blast
  from Cons.prems have
    "(B' a = Array_fill v start' end' B a \<and> C' a = Array_fill v start' end' C a)
     \<or> B' a = C' a"
    by (intro Cons.IH[of blockNode' blockBranches' addr']) (simp_all add: s)
  then show ?case
    using Array_fill_cases[of v start' end' B a C] by auto
qed

lemma forget_forget: "forget st (forget st0 B) = forget st0 B"
  by (simp add: forget_def fun_eq_iff split: BlockEntry.splits)

lemma partitionBlocks_again:
  "partitionBlocks g (forget st (partitionBlocks g (forget st0 B)))
     = partitionBlocks g (forget st0 B)"
proof
  fix a
  let ?xs = "sort_key (\<lambda>node. start (store g ! node)) (map snd (nodes g))"
  let ?P = "partitionBlocks g (forget st0 B)"
  obtain n1 b1 a1 B' where 1:
    "fold (partitionBlocks_step (store g)) ?xs (None, [], None, forget st0 B) = (n1, b1, a1, B')"
    by (metis prod_cases4)
  obtain n2 b2 a2 C' where 2:
    "fold (partitionBlocks_step (store g)) ?xs (None, [], None, forget st ?P) = (n2, b2, a2, C')"
    by (metis prod_cases4)
  have p: "?P = B'" using 1 by (simp add: partitionBlocks_def Let_def)
  have q: "partitionBlocks g (forget st ?P) = C'" using 2 by (simp add: partitionBlocks_def Let_def)
  from partitionBlocks_fold_overlay[OF 1 2, of a]
  have "(B' a = forget st0 B a \<and> C' a = forget st B' a) \<or> B' a = C' a"
    by (simp only: p)
  then have "C' a = B' a"
  proof
    assume h: "B' a = forget st0 B a \<and> C' a = forget st B' a"
    then have "forget st B' a = forget st (forget st0 B) a"
      by (simp add: forget_def)
    with h show ?thesis by (simp add: forget_forget)
  qed simp
  with p q show "partitionBlocks g (forget st ?P) a = ?P a" by simp
qed

subsection \<open>The build is idempotent\<close>

text \<open>
  Claim C3: a second \<open>getFlowGraph\<close> with the same entry addresses and labels, on the state
  the first one has left (the memory image is the same: the build writes attributes
  only), yields the same state again: the same node table, the same nodes with the same
  edges and labels, the same comments, other labels and blocks. For \<open>getFlowGraph\<close> starts
  from an empty node table and from the attributes with all flags but \<open>ASSIGNED\<close> reset,
  and the first build has changed no byte and no \<open>ASSIGNED\<close> flag.
\<close>

theorem getFlowGraph_twice:
  assumes "getFlowGraph addresses labels this = Some (Inr this')"
  shows "getFlowGraph addresses labels this' = Some (Inr this')"
proof -
  let ?m0 = "resetAttributeFlag (NOT ASSIGNED) (mem this)"
  let ?B0 = "forget (store (graph this)) (blocks this)"
  obtain m1 g1 where c: "createNodes addresses ?m0 Graph_clear = (m1, g1)"
    by (cases "createNodes addresses ?m0 Graph_clear")
  let ?g2 = "createNodesForLabels labels m1 g1"
  from assms c obtain g3 where f: "fillNodes m1 ?g2 = Some g3"
    by (auto simp add: getFlowGraph_def Let_def split: option.splits)
  let ?g4 = "markSubroutines g3"
  let ?B1 = "partitionBlocks ?g4 ?B0"
  from assms c f obtain g5 where a: "assignNodeLabels ?B1 ?g4 = Some (Inr g5)"
    by (auto simp add: getFlowGraph_def Let_def split: option.splits sum.splits)
  from assms c f a obtain g6
    where o: "assignOpcodeReferenceLabels (funcGetLabel this) m1 ?B1 g5 = Inr g6"
      and t: "this' = this\<lparr>mem := m1, graph := g6, blocks := ?B1\<rparr>"
    by (auto simp add: getFlowGraph_def Let_def split: sum.splits)
  have "keepAssigned m1 = keepAssigned (keepAssigned (mem this))"
    using keepAssigned_createNodes[of addresses ?m0 Graph_clear] c
    by (simp add: keepAssigned_def)
  then have m: "resetAttributeFlag (NOT ASSIGNED) m1 = ?m0"
    unfolding keepAssigned_idem unfolding keepAssigned_def .
  have b: "partitionBlocks ?g4 (forget (store g6) ?B1) = ?B1"
    by (rule partitionBlocks_again)
  show ?thesis
    unfolding t using c f a o m b by (simp add: getFlowGraph_def Let_def)
qed

theorem getFlowGraph_twice_witness:
  "\<exists>this'. getFlowGraph [0x8000] [] scenarioA = Some (Inr this')
     \<and> getFlowGraph [0x8000] [] this' = Some (Inr this')
     \<and> nodes (graph this') = [(0x8000, 0), (0x8003, 1), (0x8010, 2)]"
proof -
  from scenarioA_run obtain this'
    where r: "getFlowGraph [0x8000] [] scenarioA = Some (Inr this')"
      and n: "nodes (graph this') = [(0x8000, 0), (0x8003, 1), (0x8010, 2)]"
    by (auto split: option.splits sum.splits)
  from getFlowGraph_twice[OF r] r n show ?thesis by blast
qed


section \<open>\<open>assignNodeLabels\<close>\<close>

subsection \<open>Label assignment changes labels only\<close>

definition unlabeled :: "AsmNode \<Rightarrow> AsmNode" where
  "unlabeled n = n\<lparr>label := None\<rparr>"

definition sameButLabels :: "Graph \<Rightarrow> Graph \<Rightarrow> bool" where
  \<comment> \<open>the same node table and the same nodes, up to their labels\<close>
  "sameButLabels g g' =
     (nodes g' = nodes g \<and> map unlabeled (store g') = map unlabeled (store g))"

lemma sameButLabels_refl [simp]: "sameButLabels g g"
  by (simp add: sameButLabels_def)

lemma sameButLabels_trans:
  "sameButLabels g g' \<Longrightarrow> sameButLabels g' g'' \<Longrightarrow> sameButLabels g g''"
  by (simp add: sameButLabels_def)

lemma sameButLabels_nodes: "sameButLabels g g' \<Longrightarrow> nodes g' = nodes g"
  by (simp add: sameButLabels_def)

lemma sameButLabels_length: "sameButLabels g g' \<Longrightarrow> length (store g') = length (store g)"
  unfolding sameButLabels_def by (metis length_map)

lemma sameButLabels_node:
  assumes "sameButLabels g g'" "i < length (store g)"
  shows "unlabeled (store g' ! i) = unlabeled (store g ! i)"
proof -
  have "map unlabeled (store g') ! i = map unlabeled (store g) ! i"
    using assms(1) by (simp add: sameButLabels_def)
  with assms sameButLabels_length[OF assms(1)] show ?thesis by simp
qed

lemma sameButLabels_fields:
  assumes "sameButLabels g g'" "i < length (store g)"
  shows "callers (store g' ! i) = callers (store g ! i)"
    and "predecessors (store g' ! i) = predecessors (store g ! i)"
    and "isSubroutine (store g' ! i) = isSubroutine (store g ! i)"
    and "start (store g' ! i) = start (store g ! i)"
proof -
  note u = sameButLabels_node[OF assms]
  show "callers (store g' ! i) = callers (store g ! i)"
    using arg_cong[OF u, of callers] by (simp add: unlabeled_def)
  show "predecessors (store g' ! i) = predecessors (store g ! i)"
    using arg_cong[OF u, of predecessors] by (simp add: unlabeled_def)
  show "isSubroutine (store g' ! i) = isSubroutine (store g ! i)"
    using arg_cong[OF u, of isSubroutine] by (simp add: unlabeled_def)
  show "start (store g' ! i) = start (store g ! i)"
    using arg_cong[OF u, of start] by (simp add: unlabeled_def)
qed

lemma sameButLabels_modify:
  "sameButLabels g (modify r (\<lambda>n. n\<lparr>label := l\<rparr>) g)"
  by (simp add: sameButLabels_def modify_def map_update unlabeled_def list_eq_iff_nth_eq
      nth_list_update_any)

lemma label_modify_other:
  "i \<noteq> r \<Longrightarrow> label (store (modify r f g) ! i) = label (store g ! i)"
  by (simp add: modify_def)

lemma sameButLabels_setLabels: "sameButLabels g (setLabels named g)"
proof -
  have "sameButLabels g (fold (\<lambda>(r, l) g. modify r (\<lambda>n. n\<lparr>label := Some l\<rparr>) g) named g')"
    if "sameButLabels g g'" for g'
    using that
  proof (induction named arbitrary: g')
    case Nil
    then show ?case by simp
  next
    case (Cons x named)
    obtain r l where x: "x = (r, l)" by (cases x)
    have "sameButLabels g (modify r (\<lambda>n. n\<lparr>label := Some l\<rparr>) g')"
      using Cons.prems sameButLabels_modify by (rule sameButLabels_trans)
    from Cons.IH[OF this] show ?case by (simp add: x)
  qed
  then show ?thesis by (simp add: setLabels_def)
qed

lemma label_setLabels_other:
  "i \<notin> fst ` set named \<Longrightarrow> label (store (setLabels named g) ! i) = label (store g ! i)"
proof -
  have "label (store (fold (\<lambda>(r, l) g. modify r (\<lambda>n. n\<lparr>label := Some l\<rparr>) g) named g) ! i)
          = label (store g ! i)"
    if "i \<notin> fst ` set named"
    using that
  proof (induction named arbitrary: g)
    case Nil
    show ?case by simp
  next
    case (Cons x named)
    obtain r l where x: "x = (r, l)" by (cases x)
    with Cons.prems have "i \<noteq> r" "i \<notin> fst ` set named" by auto
    with Cons.IH[of "modify r (\<lambda>n. n\<lparr>label := Some l\<rparr>) g"] show ?case
      by (simp add: x label_modify_other)
  qed
  then show "i \<notin> fst ` set named \<Longrightarrow> ?thesis" by (simp add: setLabels_def)
qed

subsection \<open>The nodes that get a local label\<close>

definition collected :: "Blocks \<Rightarrow> Graph \<Rightarrow> ref \<Rightarrow> ref \<Rightarrow> ref \<Rightarrow> bool" where
  \<comment> \<open>what holds of a node that the loop of \<open>assignLocalLabels\<close> for \<open>node\<close>, started at
      \<open>blockNode\<close>, enters into \<open>localNodes\<close> or \<open>loopNodes\<close>\<close>
  "collected B g node blockNode r =
     (otherReference g r \<and> \<not> isSet (label (store g ! r))
      \<and> (r = blockNode
         \<or> (\<exists>a. blocks_get B a = BlockNode node \<and> map_of (nodes g) a = Some r)))"

lemma assignLocalLabels_loop_collected:
  assumes "assignLocalLabels_loop B g node localNodes loopNodes addr blockNode
             = Some (Inr (ls, lo))"
    and "r \<in> set ls \<union> set lo"
  shows "r \<in> set localNodes \<union> set loopNodes \<or> collected B g node blockNode r"
proof -
  have "\<forall>ls' lo'. (Inr (ls, lo) :: error + ref list \<times> ref list) = Inr (ls', lo') \<longrightarrow>
          (\<forall>r \<in> set ls' \<union> set lo'.
              r \<in> set localNodes \<union> set loopNodes \<or> collected B g node blockNode r)"
  proof (rule assignLocalLabels_loop.raw_induct[where P =
        "\<lambda>B g node localNodes loopNodes addr blockNode y.
           \<forall>ls lo. y = Inr (ls, lo) \<longrightarrow>
             (\<forall>r \<in> set ls \<union> set lo.
                 r \<in> set localNodes \<union> set loopNodes \<or> collected B g node blockNode r)",
        OF _ assms(1)])
    fix loop :: "Blocks \<Rightarrow> Graph \<Rightarrow> ref \<Rightarrow> ref list \<Rightarrow> ref list \<Rightarrow> int \<Rightarrow> ref
                   \<Rightarrow> (error + ref list \<times> ref list) option"
      and B :: Blocks and g :: Graph and node :: ref and localNodes loopNodes :: "ref list"
      and addr :: int and blockNode :: ref and y :: "error + ref list \<times> ref list"
    assume IH: "\<And>B g node localNodes loopNodes addr blockNode y.
        loop B g node localNodes loopNodes addr blockNode = Some y \<Longrightarrow>
        \<forall>ls lo. y = Inr (ls, lo) \<longrightarrow>
          (\<forall>r \<in> set ls \<union> set lo.
              r \<in> set localNodes \<union> set loopNodes \<or> collected B g node blockNode r)"
    let ?found = "(if otherReference g blockNode \<and> \<not> isSet (label (store g ! blockNode))
              then (if isLoopRoot B g blockNode
                    then (localNodes, loopNodes @ [blockNode])
                    else (localNodes @ [blockNode], loopNodes))
              else (localNodes, loopNodes))"
    let ?addr = "addr + length_node (store g ! blockNode)"
    assume eq: "(if addr < 0x10000 then
        (let found = ?found
         in if addr \<noteq> start (store g ! blockNode) then Some (Inl AssertionError)
            else
              (let addr = addr + length_node (store g ! blockNode)
               in if blocks_get B addr \<noteq> BlockNode node then Some (Inr found)
                  else
                    (case map_of (nodes g) addr of
                       None \<Rightarrow> Some (Inl AssertionError)
                     | Some blockNode \<Rightarrow>
                         loop B g node (fst found) (snd found) addr blockNode)))
      else Some (Inr (localNodes, loopNodes))) = Some y"
    show "\<forall>ls lo. y = Inr (ls, lo) \<longrightarrow>
          (\<forall>r \<in> set ls \<union> set lo.
              r \<in> set localNodes \<union> set loopNodes \<or> collected B g node blockNode r)"
    proof (intro allI impI ballI)
      fix ls lo r
      assume y: "y = Inr (ls, lo)" and r: "r \<in> set ls \<union> set lo"
      have found: "r \<in> set localNodes \<union> set loopNodes \<or> collected B g node blockNode r"
        if "r \<in> set (fst ?found) \<union> set (snd ?found)"
        using that by (auto simp add: collected_def split: if_splits)
      show "r \<in> set localNodes \<union> set loopNodes \<or> collected B g node blockNode r"
      proof (cases "addr < 0x10000")
        case False
        with eq y r show ?thesis by simp
      next
        case True
        note lt = this
        show ?thesis
        proof (cases "blocks_get B ?addr \<noteq> BlockNode node")
          case True
          with eq lt y have "?found = (ls, lo)"
            by (simp add: Let_def split: if_splits)
          with r found show ?thesis by simp
        next
          case False
          with eq lt y obtain blockNode'
            where m: "map_of (nodes g) ?addr = Some blockNode'"
              and rec: "loop B g node (fst ?found) (snd ?found) ?addr blockNode'
                          = Some (Inr (ls, lo))"
            by (simp add: Let_def split: if_splits option.splits)
          from IH[OF rec] r
          have "r \<in> set (fst ?found) \<union> set (snd ?found) \<or> collected B g node blockNode' r"
            by blast
          then show ?thesis
          proof
            assume "r \<in> set (fst ?found) \<union> set (snd ?found)"
            then show ?thesis by (rule found)
          next
            assume "collected B g node blockNode' r"
            with m False have "collected B g node blockNode r"
              by (auto simp add: collected_def)
            then show ?thesis ..
          qed
        qed
      qed
    qed
  qed
  with assms(2) show ?thesis by blast
qed

lemma fst_set_enumerate: "fst ` (\<lambda>(i, n). (n, f i)) ` set (enumerate k xs) = set xs"
  by (induction xs arbitrary: k) (auto simp add: image_iff)

lemma assignLocalLabels_labels:
  assumes "assignLocalLabels B node g = Some (Inr g')"
  shows "sameButLabels g g'"
    and "\<not> collected B g node node i \<Longrightarrow> label (store g' ! i) = label (store g ! i)"
proof -
  from assms obtain ls lo
    where l: "assignLocalLabels_loop B g node [] [] (start (store g ! node)) node
                = Some (Inr (ls, lo))"
    by (auto simp add: assignLocalLabels_def split: option.splits sum.splits)
  have c: "i \<notin> set ls \<union> set lo" if "\<not> collected B g node node i"
    using assignLocalLabels_loop_collected[OF l, of i] that by auto
  have one: "lo ! 0 \<in> set lo" if "length lo = 1"
    using that by (cases lo) simp_all
  show "sameButLabels g g'"
    using assms l
    by (auto simp add: assignLocalLabels_def Let_def split: if_splits
        intro: sameButLabels_setLabels sameButLabels_trans)
  show "label (store g' ! i) = label (store g ! i)" if "\<not> collected B g node node i"
  proof -
    from c[OF that] have i: "i \<notin> set ls" "i \<notin> set lo" by simp_all
    have 1: "label (store (setLabels (map (\<lambda>(k, n). (n, f k)) (enumerate 0 ls)) h) ! i)
               = label (store h ! i)" for f h
      using i by (intro label_setLabels_other) (simp add: fst_set_enumerate)
    have 2: "label (store (setLabels (map (\<lambda>(k, n). (n, f k)) (enumerate 0 lo)) h) ! i)
               = label (store h ! i)" for f h
      using i by (intro label_setLabels_other) (simp add: fst_set_enumerate)
    have 3: "label (store (setLabels (map (\<lambda>n. (n, f n)) ls) h) ! i) = label (store h ! i)"
      for f h
      using i by (intro label_setLabels_other) (simp add: image_image)
    have 4: "label (store (setLabels (map (\<lambda>n. (n, f n)) lo) h) ! i) = label (store h ! i)"
      for f h
      using i by (intro label_setLabels_other) (simp add: image_image)
    have 5: "label (store (setLabels [(lo ! 0, s)] h) ! i) = label (store h ! i)"
      if "length lo = 1" for s h
      using i one[OF that] by (intro label_setLabels_other) auto
    from assms l show ?thesis
      by (auto simp add: assignLocalLabels_def Let_def 1 2 3 4 5 split: if_splits)
  qed
qed

subsection \<open>The global label of a leading node\<close>

lemma sameButLabels_assignGlobalLabel: "sameButLabels g (assignGlobalLabel addr64k node g)"
  by (simp add: assignGlobalLabel_def Let_def sameButLabels_modify)

lemma label_assignGlobalLabel_other:
  "i \<noteq> node \<Longrightarrow> label (store (assignGlobalLabel addr64k node g) ! i) = label (store g ! i)"
  by (simp add: assignGlobalLabel_def Let_def label_modify_other)

lemma label_assignGlobalLabel:
  assumes "node < length (store g)" "\<not> isSet (label (store g ! node))"
  shows "label (store (assignGlobalLabel addr64k node g) ! node) =
           (let n = store g ! node
            in if callers n = [] \<and> predecessors n = [] then label n
               else if isSubroutine n then
                 (if start n AND NOT 0b00111000 = 0
                  then Some (labelRstPrefix @ getHexString addr64k 2)
                  else Some (labelSubPrefix @ getHexString addr64k 4))
               else Some (labelLblPrefix @ getHexString addr64k 4))"
  using assms by (simp add: assignGlobalLabel_def Let_def modify_def)

lemma not_collected_assignGlobalLabel:
  assumes "node < length (store g)"
  shows "\<not> collected B (assignGlobalLabel addr64k node g) node node node"
proof (cases "callers (store g ! node) = [] \<and> predecessors (store g ! node) = []")
  case True
  from sameButLabels_fields(1,2)[OF sameButLabels_assignGlobalLabel assms, of addr64k] True
  show ?thesis by (simp add: collected_def otherReference_def Let_def)
next
  case False
  with assms have "isSet (label (store (assignGlobalLabel addr64k node g) ! node))"
    by (auto simp add: assignGlobalLabel_def Let_def modify_def isSet_def labelSubPrefix_def
        labelRstPrefix_def labelLblPrefix_def split: option.splits)
  then show ?thesis by (simp add: collected_def)
qed

lemma assignNodeLabels_step_leader:
  assumes "assignNodeLabels_step B (addr64k, node) (Some (Inr g)) = Some (Inr g')"
    and "blocks_get B addr64k = BlockNode node" "node < length (store g)"
  shows "sameButLabels g g'"
    and "label (store g' ! node) = label (store (assignGlobalLabel addr64k node g) ! node)"
proof -
  from assms(1,2)
  have a: "assignLocalLabels B node (assignGlobalLabel addr64k node g) = Some (Inr g')"
    by (simp add: assignNodeLabels_step_def Let_def)
  from assignLocalLabels_labels(1)[OF a] show "sameButLabels g g'"
    using sameButLabels_assignGlobalLabel sameButLabels_trans by blast
  from assignLocalLabels_labels(2)[OF a not_collected_assignGlobalLabel[OF assms(3)]]
  show "label (store g' ! node) = label (store (assignGlobalLabel addr64k node g) ! node)" .
qed

lemma assignNodeLabels_step_other:
  assumes "assignNodeLabels_step B (a, r) (Some (Inr g)) = Some (Inr g')"
    and "distinct (map snd (nodes g))" "(a, r) \<in> set (nodes g)"
    and "(addr64k, node) \<in> set (nodes g)" "(a, r) \<noteq> (addr64k, node)"
    and "blocks_get B addr64k = BlockNode node"
  shows "sameButLabels g g'" and "label (store g' ! node) = label (store g ! node)"
proof -
  have unique: "a' = addr64k" if "(a', node) \<in> set (nodes g)" for a'
    using that assms(2,4) by (metis eq_key_imp_eq_value distinct_map map_of_eq_Some_iff
        prod.collapse fst_conv snd_conv inj_onD)
  have rn: "r \<noteq> node" using assms(3,5) unique by auto
  show "sameButLabels g g'" and "label (store g' ! node) = label (store g ! node)"
  proof (atomize (full), cases "blocks_get B a = BlockNode r")
    case False
    with assms(1) show "sameButLabels g g' \<and> label (store g' ! node) = label (store g ! node)"
      by (auto simp add: assignNodeLabels_step_def Let_def split: if_splits)
  next
    case True
    let ?g = "assignGlobalLabel a r g"
    from assms(1) True
    have l: "assignLocalLabels B r ?g = Some (Inr g')"
      by (simp add: assignNodeLabels_step_def Let_def)
    have n: "nodes ?g = nodes g"
      using sameButLabels_assignGlobalLabel by (rule sameButLabels_nodes)
    have "\<not> collected B ?g r r node"
    proof
      assume "collected B ?g r r node"
      with rn obtain a' where a': "blocks_get B a' = BlockNode r" "map_of (nodes g) a' = Some node"
        by (auto simp add: collected_def n)
      from a'(2) have "(a', node) \<in> set (nodes g)" by (rule map_of_SomeD)
      then have "a' = addr64k" by (rule unique)
      with a'(1) assms(6) rn show False by simp
    qed
    from assignLocalLabels_labels(2)[OF l this] rn
    have "label (store g' ! node) = label (store g ! node)"
      by (simp add: label_assignGlobalLabel_other)
    moreover from assignLocalLabels_labels(1)[OF l] have "sameButLabels g g'"
      using sameButLabels_assignGlobalLabel sameButLabels_trans by blast
    ultimately show "sameButLabels g g' \<and> label (store g' ! node) = label (store g ! node)"
      by simp
  qed
qed

lemma fold_assignNodeLabels_step_None [simp]:
  "fold (assignNodeLabels_step B) xs None = None"
  by (induction xs) (simp_all add: assignNodeLabels_step_def split: prod.splits)

lemma fold_assignNodeLabels_step_Inl [simp]:
  "fold (assignNodeLabels_step B) xs (Some (Inl e)) = Some (Inl e)"
  by (induction xs) (simp_all add: assignNodeLabels_step_def split: prod.splits)

lemma fold_assignNodeLabels_step_Inr:
  assumes "fold (assignNodeLabels_step B) xs result = Some (Inr g')"
  obtains g where "result = Some (Inr g)"
proof (cases result)
  case None
  with assms show ?thesis by simp
next
  case (Some s)
  with assms show ?thesis by (cases s) (simp_all add: that)
qed

lemma fold_assignNodeLabels_step_other:
  assumes "fold (assignNodeLabels_step B) xs (Some (Inr g)) = Some (Inr g')"
    and "distinct (map snd (nodes g))" "set xs \<subseteq> set (nodes g)"
    and "(addr64k, node) \<in> set (nodes g)" "(addr64k, node) \<notin> set xs"
    and "blocks_get B addr64k = BlockNode node"
  shows "sameButLabels g g' \<and> label (store g' ! node) = label (store g ! node)"
  using assms
proof (induction xs arbitrary: g)
  case Nil
  then show ?case by simp
next
  case (Cons x xs)
  obtain a r where x: "x = (a, r)" by (cases x)
  from Cons.prems(1)
  have f0: "fold (assignNodeLabels_step B) xs (assignNodeLabels_step B (a, r) (Some (Inr g)))
              = Some (Inr g')"
    by (simp add: x)
  then obtain g1 where s: "assignNodeLabels_step B (a, r) (Some (Inr g)) = Some (Inr g1)"
    by (rule fold_assignNodeLabels_step_Inr)
  with f0 have f: "fold (assignNodeLabels_step B) xs (Some (Inr g1)) = Some (Inr g')"
    by simp
  from Cons.prems x have ar: "(a, r) \<in> set (nodes g)" "(a, r) \<noteq> (addr64k, node)" by auto
  note o = assignNodeLabels_step_other[OF s Cons.prems(2) ar(1) Cons.prems(4) ar(2) Cons.prems(6)]
  have n: "nodes g1 = nodes g" using o(1) by (rule sameButLabels_nodes)
  from Cons.prems have "sameButLabels g1 g' \<and> label (store g' ! node) = label (store g1 ! node)"
    by (intro Cons.IH[OF f]) (simp_all add: n)
  with o show ?case using sameButLabels_trans by auto
qed

text \<open>
  Claim C4, as stated, has a leading node with \<open>isSubroutine = true\<close> labeled \<open>RST_\<close> or
  \<open>SUB_\<close> whether or not something refers to it. In \<open>assignNodeLabels\<close> the test for callers
  or predecessors is the outer one: a leading node that nothing calls and nothing branches
  to keeps no label, also when it is a subroutine. Here the analysis starts at 0x8010,
  the \<open>RET\<close> at 0x8012 makes its one node a subroutine, the node leads its block, and its
  address has bits outside \<open>0b00111000\<close>: by the claim its label is \<open>SUB_8010\<close>, in the
  result it has none.
\<close>

theorem retOnly_subroutine_unlabeled:
  "(case getFlowGraph [0x8010] [] retOnly of
      Some (Inr this) \<Rightarrow>
        nodes (graph this) = [(0x8010, 0)]
        \<and> blocks_get (blocks this) 0x8010 = BlockNode 0
        \<and> isSubroutine (store (graph this) ! 0)
        \<and> start (store (graph this) ! 0) AND NOT 0b00111000 \<noteq> 0
        \<and> callers (store (graph this) ! 0) = []
        \<and> predecessors (store (graph this) ! 0) = []
        \<and> label (store (graph this) ! 0) = None
        \<and> label (store (graph this) ! 0) \<noteq> Some ''SUB_8010''
    | _ \<Rightarrow> False)"
  using retOnly_run
  by (auto simp add: edges_def blocks_get_def split: option.splits sum.splits)

text \<open>
  Claim C4, amended: for every block leading node that lacks a label when
  \<open>assignNodeLabels\<close> runs: if it has neither callers nor predecessors it is left
  unlabeled; else if \<open>isSubroutine\<close> is true and the node's start address has all bits
  outside \<open>0b00111000\<close> clear it is assigned the label \<open>RST_\<close> plus the 2-hex-digit address;
  else if \<open>isSubroutine\<close> is true it is assigned \<open>SUB_\<close> plus the 4-hex-digit address; else
  it is assigned \<open>LBL_\<close> plus the 4-hex-digit address. The address in the label is the
  key of the node in the node table.

  The assumptions after the first say that the state is one of the program: the node table
  has every node object once, and its nodes are objects of the store; the node is the
  leading node of its block and has no label; the key is an address of the 64K space; and
  the start address is a 32-bit integer, on which the \<open>&\<close> of the program is the \<open>AND\<close> on
  integers.
\<close>

theorem assignNodeLabels_leading_node:
  assumes "assignNodeLabels B g = Some (Inr g')"
    and "distinct (map snd (nodes g))"
    and "\<forall>(a, r) \<in> set (nodes g). r < length (store g)"
    and "(addr64k, node) \<in> set (nodes g)"
    and "blocks_get B addr64k = BlockNode node"
    and "\<not> isSet (label (store g ! node))"
    and "0 \<le> addr64k \<and> addr64k < 0x10000"
    and "- (2 ^ 31) \<le> start (store g ! node) \<and> start (store g ! node) < 2 ^ 31"
  shows "label (store g' ! node) =
           (let n = store g ! node
            in if callers n = [] \<and> predecessors n = [] then label n
               else if isSubroutine n then
                 (if start n AND NOT 0b00111000 = 0
                  then Some (labelRstPrefix @ getHexString addr64k 2)
                  else Some (labelSubPrefix @ getHexString addr64k 4))
               else Some (labelLblPrefix @ getHexString addr64k 4))"
proof -
  from assms(2) have d: "distinct (nodes g)" by (simp add: distinct_map)
  from assms(4) obtain xs ys where split: "nodes g = xs @ (addr64k, node) # ys"
    by (auto dest: split_list)
  with d have notin: "(addr64k, node) \<notin> set xs" "(addr64k, node) \<notin> set ys" by auto
  from assms(3,4) have l: "node < length (store g)" by auto
  from assms(1) have 0: "fold (assignNodeLabels_step B) ys
      (assignNodeLabels_step B (addr64k, node)
        (fold (assignNodeLabels_step B) xs (Some (Inr g)))) = Some (Inr g')"
    by (simp add: assignNodeLabels_def split)
  then obtain g2
    where 2: "assignNodeLabels_step B (addr64k, node)
                (fold (assignNodeLabels_step B) xs (Some (Inr g))) = Some (Inr g2)"
    by (rule fold_assignNodeLabels_step_Inr)
  with 0 have 3: "fold (assignNodeLabels_step B) ys (Some (Inr g2)) = Some (Inr g')"
    by simp
  from 2 have "fold (assignNodeLabels_step B) [(addr64k, node)]
      (fold (assignNodeLabels_step B) xs (Some (Inr g))) = Some (Inr g2)"
    by simp
  then obtain g1 where 1: "fold (assignNodeLabels_step B) xs (Some (Inr g)) = Some (Inr g1)"
    by (rule fold_assignNodeLabels_step_Inr)
  with 2 have 2: "assignNodeLabels_step B (addr64k, node) (Some (Inr g1)) = Some (Inr g2)"
    by simp
  have s1: "sameButLabels g g1" and l1: "label (store g1 ! node) = label (store g ! node)"
    using fold_assignNodeLabels_step_other[OF 1 assms(2) _ assms(4) notin(1) assms(5)] split
    by auto
  have len1: "node < length (store g1)" using l sameButLabels_length[OF s1] by simp
  have s2: "sameButLabels g1 g2"
    and l2: "label (store g2 ! node) = label (store (assignGlobalLabel addr64k node g1) ! node)"
    using assignNodeLabels_step_leader[OF 2 assms(5) len1] by auto
  have n2: "nodes g2 = nodes g"
    using s1 s2 by (simp add: sameButLabels_nodes)
  have l3: "label (store g' ! node) = label (store g2 ! node)"
    using fold_assignNodeLabels_step_other[OF 3 _ _ _ notin(2) assms(5)] assms(2,4) split
    by (auto simp add: n2)
  note f = sameButLabels_fields[OF s1 l]
  from l3 l2 label_assignGlobalLabel[OF len1, of addr64k] assms(6) l1 f
  show ?thesis by (simp add: Let_def)
qed

text \<open>
  The nodes of scenario A as \<open>markSubroutines\<close> leaves them: the node at 0x8010 is called
  and gets \<open>SUB_8010\<close>; the node at 0x8000 leads its block, is a subroutine, and stays
  without a label, since nothing refers to it.
\<close>

definition calledGraph :: Graph where
  "calledGraph =
     \<lparr>nodes = [(0x8000, 0), (0x8003, 1), (0x8010, 2)],
      store = [(AsmNode_new 0x8000)\<lparr>length_node := 3, callee := Some 2, branchNodes := [1],
                                    isSubroutine := True\<rparr>,
               (AsmNode_new 0x8003)\<lparr>length_node := 1, predecessors := [0],
                                    isSubroutine := True\<rparr>,
               (AsmNode_new 0x8010)\<lparr>length_node := 3, callers := [0], isSubroutine := True\<rparr>],
      comments = Map.empty, otherLabels = Map.empty\<rparr>"

theorem assignNodeLabels_leading_node_witness:
  "(case assignNodeLabels (partitionBlocks calledGraph (\<lambda>a. NoBlock)) calledGraph of
      Some (Inr g') \<Rightarrow>
        label (store g' ! 2) = Some ''SUB_8010'' \<and> label (store g' ! 0) = None
    | _ \<Rightarrow> False)"
proof -
  let ?B = "partitionBlocks calledGraph (\<lambda>a. NoBlock)"
  have "\<exists>g'. assignNodeLabels ?B calledGraph = Some (Inr g')"
    by (simp add: calledGraph_def run_simps
        cong: sum.case_cong_weak prod.case_cong_weak option.case_cong_weak)
  then obtain g' where r: "assignNodeLabels ?B calledGraph = Some (Inr g')" ..
  have d: "distinct (map snd (nodes calledGraph))"
    by (simp add: calledGraph_def)
  have v: "\<forall>(a, r) \<in> set (nodes calledGraph). r < length (store calledGraph)"
    by (simp add: calledGraph_def)
  have m: "(0x8010, 2) \<in> set (nodes calledGraph)" "(0x8000, 0) \<in> set (nodes calledGraph)"
    by (simp_all add: calledGraph_def)
  have b: "blocks_get ?B 0x8010 = BlockNode 2" "blocks_get ?B 0x8000 = BlockNode 0"
    by (simp_all add: calledGraph_def run_simps)
  have u: "\<not> isSet (label (store calledGraph ! 2))" "\<not> isSet (label (store calledGraph ! 0))"
    by (simp_all add: calledGraph_def AsmNode_new_def isSet_def)
  have k: "0 \<le> (0x8010 :: int) \<and> (0x8010 :: int) < 0x10000"
    "0 \<le> (0x8000 :: int) \<and> (0x8000 :: int) < 0x10000"
    by simp_all
  have s: "- (2 ^ 31) \<le> start (store calledGraph ! 2) \<and> start (store calledGraph ! 2) < 2 ^ 31"
    "- (2 ^ 31) \<le> start (store calledGraph ! 0) \<and> start (store calledGraph ! 0) < 2 ^ 31"
    by (simp_all add: calledGraph_def AsmNode_new_def)
  from assignNodeLabels_leading_node[OF r d v m(1) b(1) u(1) k(1) s(1)]
  have 2: "label (store g' ! 2) = Some ''SUB_8010''"
    by (simp add: calledGraph_def AsmNode_new_def Let_def labelSubPrefix_def getHexString_def
        toHex_numeral hexDigit_def)
  from assignNodeLabels_leading_node[OF r d v m(2) b(2) u(2) k(2) s(2)]
  have 0: "label (store g' ! 0) = None"
    by (simp add: calledGraph_def AsmNode_new_def Let_def)
  from r 2 0 show ?thesis by simp
qed

end
